theory Spec2Isabelle
  imports Complex_Main "HOL-Library.Char_ord" "HOL-Library.List_Lexorder" "HOL-Library.Multiset"
begin

section \<open>JavaScript values\<close>

text \<open>
  The server (\<^verbatim>\<open>src/backend/server.js\<close>) receives request bodies that
  \<open>express.json\<close> has parsed with \<open>JSON.parse\<close>, and writes every collection and
  every answer with \<open>JSON.stringify\<close>. The two kinds of values differ in their
  numbers only. A parsed number is a double: a finite one, or an infinity, which is what
  \<open>JSON.parse\<close> reads from a literal beyond the range of the doubles such as
  \<^verbatim>\<open>1e400\<close>. (The finite doubles are rationals; the model admits every rational.
  A request body is \<^verbatim>\<open>req.body\<close>, the value after parsing, so the rounding of a
  literal to a double has happened before.) A written number is finite:
  \<open>JSON.stringify\<close> writes \<^verbatim>\<open>null\<close> for an infinity. The JavaScript value
  \<^verbatim>\<open>undefined\<close> (a property that is absent) is \<open>None\<close> of an option type:
  \<open>JSON.stringify\<close> drops a property whose value is \<^verbatim>\<open>undefined\<close> and
  \<open>JSON.parse\<close> never produces one. An object is an association list in property
  order.
\<close>

datatype 'n jsvalue =
    JNull
  | JBool bool
  | JNum 'n
  | JStr string
  | JArr "'n jsvalue list"
  | JObj "(string \<times> 'n jsvalue) list"

datatype number = Finite rat | PlusInfinity | MinusInfinity

instantiation number :: zero
begin

definition zero_number :: number where
  "zero_number = Finite 0"

instance ..

end

text \<open>
  \<open>jsval\<close>: a value in memory, as parsed from a request body. \<open>json\<close>: a value as
  a file or an answer holds it. \<open>body\<close>: a parsed request body. \<open>doc\<close>: a
  written object.
\<close>

type_synonym jsval = "number jsvalue"

type_synonym json = "rat jsvalue"

type_synonym body = "(string \<times> jsval) list"

type_synonym doc = "(string \<times> json) list"

text \<open>
  \<open>stringify v\<close> is the value that \<open>JSON.parse\<close> reads back from
  \<^verbatim>\<open>JSON.stringify(v)\<close>: \<open>v\<close> with \<^verbatim>\<open>null\<close> for every infinity, at any depth.
  The handlers use the objects they build for nothing but writing and answering, so the
  model keeps every such object as it is written, each property stringified.
\<close>

primrec stringify :: "jsval \<Rightarrow> json" where
  "stringify JNull = JNull"
| "stringify (JBool b) = JBool b"
| "stringify (JNum n) = (case n of Finite r \<Rightarrow> JNum r | PlusInfinity \<Rightarrow> JNull | MinusInfinity \<Rightarrow> JNull)"
| "stringify (JStr s) = JStr s"
| "stringify (JArr xs) = JArr (map stringify xs)"
| "stringify (JObj kvs) = JObj (map (map_prod id stringify) kvs)"

datatype jstype = TUndefined | TObject | TBoolean | TNumber | TString

text \<open>\<^verbatim>\<open>typeof v\<close>; \<^verbatim>\<open>null\<close> and arrays are of type object, an infinity is a number.\<close>

fun typeof :: "'n jsvalue option \<Rightarrow> jstype" where
  "typeof None = TUndefined"
| "typeof (Some JNull) = TObject"
| "typeof (Some (JBool b)) = TBoolean"
| "typeof (Some (JNum n)) = TNumber"
| "typeof (Some (JStr s)) = TString"
| "typeof (Some (JArr xs)) = TObject"
| "typeof (Some (JObj kvs)) = TObject"

text \<open>
  The truth value of a value in a condition (\<^verbatim>\<open>!v\<close>, \<^verbatim>\<open>v || d\<close>, \<^verbatim>\<open>!!v\<close>): \<^verbatim>\<open>undefined\<close>,
  \<^verbatim>\<open>null\<close>, \<^verbatim>\<open>false\<close>, \<^verbatim>\<open>0\<close> and the empty string are false, everything else (every
  array and object, and an infinity) is true.
\<close>

fun truthy :: "('n::zero) jsvalue option \<Rightarrow> bool" where
  "truthy None = False"
| "truthy (Some JNull) = False"
| "truthy (Some (JBool b)) = b"
| "truthy (Some (JNum n)) = (n \<noteq> 0)"
| "truthy (Some (JStr s)) = (s \<noteq> [])"
| "truthy (Some (JArr xs)) = True"
| "truthy (Some (JObj kvs)) = True"

text \<open>\<^verbatim>\<open>v || d\<close> for a defined \<open>d\<close>.\<close>

fun js_or :: "('n::zero) jsvalue option \<Rightarrow> 'n jsvalue \<Rightarrow> 'n jsvalue" where
  "js_or None d = d"
| "js_or (Some v) d = (if truthy (Some v) then v else d)"

text \<open>
  A default of a destructuring pattern, \<^verbatim>\<open>const { address = '' } = body\<close>: the default
  stands in for \<^verbatim>\<open>undefined\<close> only (\<^verbatim>\<open>null\<close> is kept).
\<close>

fun defaulted :: "'a option \<Rightarrow> 'a \<Rightarrow> 'a" where
  "defaulted None d = d"
| "defaulted (Some v) d = v"

text \<open>A property read \<^verbatim>\<open>body.k\<close> on an object.\<close>

definition lookup :: "(string \<times> 'a) list \<Rightarrow> string \<Rightarrow> 'a option" where
  "lookup body k = map_of body k"

text \<open>
  An object literal as \<open>JSON.stringify\<close> writes it: the properties whose value is
  \<^verbatim>\<open>undefined\<close> are left out.
\<close>

fun object :: "(string \<times> 'a option) list \<Rightarrow> (string \<times> 'a) list" where
  "object [] = []"
| "object ((k, None) # kvs) = object kvs"
| "object ((k, Some v) # kvs) = (k, v) # object kvs"

text \<open>\<^verbatim>\<open>Array.isArray(v) && v.length > 0\<close>, the negation of the test in the route creation.\<close>

fun nonEmptyArray :: "'n jsvalue option \<Rightarrow> bool" where
  "nonEmptyArray (Some (JArr xs)) = (xs \<noteq> [])"
| "nonEmptyArray v = False"

text \<open>\<^verbatim>\<open>xs.findIndex(p)\<close>: the first index whose element satisfies \<open>p\<close>; \<open>None\<close> is \<open>-1\<close>.\<close>

fun findIndex :: "('a \<Rightarrow> bool) \<Rightarrow> 'a list \<Rightarrow> nat option" where
  "findIndex p [] = None"
| "findIndex p (x # xs) =
     (if p x then Some 0 else (case findIndex p xs of None \<Rightarrow> None | Some i \<Rightarrow> Some (Suc i)))"

section \<open>The clock and the identifiers\<close>

text \<open>
  The handlers read the clock through \<^verbatim>\<open>Date.now()\<close> (milliseconds since the epoch)
  and \<^verbatim>\<open>new Date().toISOString()\<close>. Every reading is an input. A \<open>clock\<close> holds one
  reading of each kind, independent of each other. A handler takes the readings of its
  own body as \<open>clk\<close> and the two readings of \<open>logOp\<close>, which are taken later, as
  \<open>lclk\<close>; the creation of a history record reads the time a third time (\<open>created\<close>).
\<close>

record clock =
  now_ms :: nat
  now_iso :: string

text \<open>\<^verbatim>\<open>n.toString(36)\<close> for a natural number: digits \<open>0-9a-z\<close>, most significant first.\<close>

definition digit36 :: "nat \<Rightarrow> char" where
  "digit36 d = ''0123456789abcdefghijklmnopqrstuvwxyz'' ! d"

fun toString36 :: "nat \<Rightarrow> string" where
  "toString36 n = (if n < 36 then [digit36 n] else toString36 (n div 36) @ [digit36 (n mod 36)])"

declare toString36.simps [simp del]

section \<open>The stored documents\<close>

text \<open>
  The collection files are written by the server alone, so a stored document has the
  properties that its creation writes, with written values. A field is typed by what the
  handlers write into it: \<open>string\<close> for the identifier and the timestamps the server
  generates, \<open>bool\<close> where the creation has coerced the value, \<open>json\<close> where any
  value of a request body can arrive, \<open>json option\<close> where the property can be absent.
\<close>

record route =
  route_id :: string
  route_name :: json
  coords :: json
  route_createdAt :: string

record poi =
  poi_id :: string
  poi_name :: json
  poi_lng :: json
  poi_lat :: json
  poi_address :: json
  poi_tags :: json

record attraction =
  attr_id :: string
  attr_name :: json
  attr_lng :: "json option"
  attr_lat :: "json option"
  attr_address :: json
  attr_tags :: json
  attr_desc :: json

record hydro_record =
  hist_id :: string
  hist_name :: json
  longitude :: json
  latitude :: json
  heading :: json
  temperature :: json
  humidity :: json
  pressure :: json
  salinity :: json
  shipDetected :: bool
  shipType :: json
  timestamp :: json
  hist_createdAt :: string
  sentAt :: json

record log_entry =
  log_id :: nat
  log_type :: string
  log_detail :: json
  log_ts :: string

section \<open>JSON file storage\<close>

text \<open>
  What \<^verbatim>\<open>JSON.parse(fs.readFileSync(file))\<close> does on a file: it throws (the file is
  missing, or its text is not JSON), or it returns the stored value.
\<close>

datatype 'a json_file = Unreadable | Content 'a

record store =
  poisFile :: "poi list json_file"
  routesFile :: "route list json_file"
  logsFile :: "log_entry list json_file"
  statsFile :: "json json_file"
  attractionsFile :: "attraction list json_file"
  hydrophoneFile :: "json json_file"
  hydroHistoryFile :: "hydro_record list json_file"

fun readJson :: "'a json_file \<Rightarrow> 'a \<Rightarrow> 'a" where
  "readJson Unreadable fallback = fallback"
| "readJson (Content v) fallback = v"

definition readPois :: "store \<Rightarrow> poi list" where
  "readPois s = readJson (poisFile s) []"

definition writePois :: "poi list \<Rightarrow> store \<Rightarrow> store" where
  "writePois list s = s\<lparr>poisFile := Content list\<rparr>"

definition readRoutes :: "store \<Rightarrow> route list" where
  "readRoutes s = readJson (routesFile s) []"

definition writeRoutes :: "route list \<Rightarrow> store \<Rightarrow> store" where
  "writeRoutes list s = s\<lparr>routesFile := Content list\<rparr>"

definition readAttractions :: "store \<Rightarrow> attraction list" where
  "readAttractions s = readJson (attractionsFile s) []"

definition writeAttractions :: "attraction list \<Rightarrow> store \<Rightarrow> store" where
  "writeAttractions list s = s\<lparr>attractionsFile := Content list\<rparr>"

text \<open>\<^verbatim>\<open>v && typeof v === 'object' ? v : {}\<close> on what \<open>readJson\<close> returns.\<close>

definition readHydrophone :: "store \<Rightarrow> json" where
  "readHydrophone s =
     (let v = readJson (hydrophoneFile s) (JObj [])
      in if truthy (Some v) \<and> typeof (Some v) = TObject then v else JObj [])"

text \<open>
  \<^verbatim>\<open>writeJson(hydrophoneFile, obj || {})\<close>; every caller passes an object in memory,
  which \<open>writeJson\<close> stringifies.
\<close>

definition writeHydrophone :: "body \<Rightarrow> store \<Rightarrow> store" where
  "writeHydrophone obj s =
     s\<lparr>hydrophoneFile := Content (stringify (js_or (Some (JObj obj)) (JObj [])))\<rparr>"

definition readHydroHistory :: "store \<Rightarrow> hydro_record list" where
  "readHydroHistory s = readJson (hydroHistoryFile s) []"

text \<open>\<^verbatim>\<open>Array.isArray(list) ? list : []\<close> is \<open>list\<close>: the argument is an array by its type.\<close>

definition writeHydroHistory :: "hydro_record list \<Rightarrow> store \<Rightarrow> store" where
  "writeHydroHistory list s = s\<lparr>hydroHistoryFile := Content list\<rparr>"

text \<open>The reads of \<^verbatim>\<open>GET /api/logs\<close> and \<^verbatim>\<open>GET /api/stats\<close> (and of \<open>logOp\<close>, \<open>incRequest\<close>).\<close>

definition readLogs :: "store \<Rightarrow> log_entry list" where
  "readLogs s = readJson (logsFile s) []"

definition readStats :: "store \<Rightarrow> json" where
  "readStats s = readJson (statsFile s) (JObj [])"

section \<open>The audit log\<close>

text \<open>
  \<^verbatim>\<open>logs.unshift(entry); if (logs.length > 500) logs.length = 500\<close>: the entry goes to
  the head, and setting the length keeps the first 500 elements.
\<close>

definition logOp :: "clock \<Rightarrow> string \<Rightarrow> jsval option \<Rightarrow> store \<Rightarrow> store" where
  "logOp lclk type detail s =
     (let logs = readJson (logsFile s) [];
          logs = \<lparr>log_id = now_ms lclk, log_type = type,
                  log_detail = stringify (js_or detail (JObj [])), log_ts = now_iso lclk\<rparr> # logs;
          logs = (if length logs > 500 then take 500 logs else logs)
      in s\<lparr>logsFile := Content logs\<rparr>)"

section \<open>Responses\<close>

text \<open>
  What a handler answers: 200 with a body, 201 with a body, 204, 400 and 404 with a
  message, and \<open>TypeError\<close> for an exception that no handler catches.
\<close>

datatype 'a response =
    OK 'a
  | Created 'a
  | NoContent
  | BadRequest string
  | NotFound string
  | TypeError

section \<open>Sorting with a comparison function\<close>

text \<open>
  \<^verbatim>\<open>list.sort(cmp)\<close>. The comparison function can throw (\<open>None\<close>), which ends the
  sort. For a consistent comparison function the language fixes the result: the stable
  sorted arrangement, which insertion from the right computes. For an inconsistent one
  (the comparison of the routes never answers 0, so two equal dates are each "before"
  the other) the language leaves the order to the implementation; the insertion below is
  one such implementation (Node's own puts equal dates in the opposite order). A list of
  one element is returned without any comparison. Which pairs an implementation compares
  is not fixed either, so on a list in which some names are strings and others are not
  this function and Node's can differ in whether a comparison throws. The results below
  do not depend on either choice: they are about the documents that a listing returns,
  in whatever order, about comparison functions that never throw on the stored
  documents, and about a list on which every comparison throws.
\<close>

fun insert_by :: "('a \<Rightarrow> 'a \<Rightarrow> int option) \<Rightarrow> 'a \<Rightarrow> 'a list \<Rightarrow> 'a list option" where
  "insert_by cmp x [] = Some [x]"
| "insert_by cmp x (y # ys) =
     (case cmp x y of
        None \<Rightarrow> None
      | Some c \<Rightarrow>
          if c \<le> 0 then Some (x # y # ys)
          else (case insert_by cmp x ys of None \<Rightarrow> None | Some zs \<Rightarrow> Some (y # zs)))"

fun sort_by :: "('a \<Rightarrow> 'a \<Rightarrow> int option) \<Rightarrow> 'a list \<Rightarrow> 'a list option" where
  "sort_by cmp [] = Some []"
| "sort_by cmp (x # xs) =
     (case sort_by cmp xs of None \<Rightarrow> None | Some ys \<Rightarrow> insert_by cmp x ys)"

section \<open>Routes\<close>

text \<open>How a route is written to the file and to a response.\<close>

definition route_json :: "route \<Rightarrow> doc" where
  "route_json r =
     [(''id'', JStr (route_id r)), (''name'', route_name r), (''coords'', coords r),
      (''createdAt'', JStr (route_createdAt r))]"

text \<open>\<^verbatim>\<open>(a,b) => (a.createdAt < b.createdAt ? 1 : -1)\<close>\<close>

definition routes_compare :: "route \<Rightarrow> route \<Rightarrow> int option" where
  "routes_compare a b = Some (if route_createdAt a < route_createdAt b then 1 else - 1)"

definition get_routes :: "store \<Rightarrow> route list response \<times> store" where
  "get_routes s =
     (case sort_by routes_compare (readRoutes s) of
        None \<Rightarrow> (TypeError, s)
      | Some list \<Rightarrow> (OK list, s))"

text \<open>
  In the creations, the inner \<open>case\<close> only names the values that the test before it
  has found defined; its last branch is never taken.
\<close>

definition post_routes ::
  "clock \<Rightarrow> clock \<Rightarrow> body \<Rightarrow> store \<Rightarrow> route response \<times> store" where
  "post_routes clk lclk body s =
     (let name = lookup body ''name''; coords_in = lookup body ''coords'' in
      if \<not> truthy name \<or> \<not> nonEmptyArray coords_in
      then (BadRequest ''Invalid payload'', s)
      else
        (case (name, coords_in) of
           (Some name_v, Some coords_v) \<Rightarrow>
             let list = readRoutes s;
                 item = \<lparr>route_id = toString36 (now_ms clk), route_name = stringify name_v,
                         coords = stringify coords_v, route_createdAt = now_iso clk\<rparr>;
                 list = list @ [item];
                 s = writeRoutes list s;
                 s = logOp lclk ''route_create''
                       (Some (JObj (object [(''id'', Some (JStr (route_id item))), (''name'', name)]))) s
             in (Created item, s)
         | _ \<Rightarrow> (BadRequest ''Invalid payload'', s)))"

definition put_routes :: "clock \<Rightarrow> string \<Rightarrow> body \<Rightarrow> store \<Rightarrow> route response \<times> store" where
  "put_routes lclk ident body s =
     (let list = readRoutes s in
      case findIndex (\<lambda>x. route_id x = ident) list of
        None \<Rightarrow> (NotFound ''Not found'', s)
      | Some idx \<Rightarrow>
          let cur = list ! idx;
              next = cur;
              next = (case lookup body ''name'' of None \<Rightarrow> next | Some v \<Rightarrow> next\<lparr>route_name := stringify v\<rparr>);
              next = (case lookup body ''coords'' of None \<Rightarrow> next | Some v \<Rightarrow> next\<lparr>coords := stringify v\<rparr>);
              list = list[idx := next];
              s = writeRoutes list s;
              s = logOp lclk ''route_update'' (Some (JObj [(''id'', JStr ident)])) s
          in (OK next, s))"

definition delete_routes :: "clock \<Rightarrow> string \<Rightarrow> store \<Rightarrow> unit response \<times> store" where
  "delete_routes lclk ident s =
     (let list = readRoutes s;
          next = filter (\<lambda>x. route_id x \<noteq> ident) list in
      if length next = length list then (NotFound ''Not found'', s)
      else
        let s = writeRoutes next s;
            s = logOp lclk ''route_delete'' (Some (JObj [(''id'', JStr ident)])) s
        in (NoContent, s))"

section \<open>Points of interest\<close>

definition poi_json :: "poi \<Rightarrow> doc" where
  "poi_json p =
     [(''id'', JStr (poi_id p)), (''name'', poi_name p), (''lng'', poi_lng p),
      (''lat'', poi_lat p), (''address'', poi_address p), (''tags'', poi_tags p)]"

text \<open>
  \<^verbatim>\<open>(a,b) => a.name.localeCompare(b.name)\<close>. The method exists on strings only: on any
  other name the call throws. \<open>String.prototype.localeCompare\<close> is the platform's
  collation, a parameter here; it converts its argument to a string itself.
\<close>

definition pois_compare :: "(string \<Rightarrow> json \<Rightarrow> int) \<Rightarrow> poi \<Rightarrow> poi \<Rightarrow> int option" where
  "pois_compare localeCompare a b =
     (case poi_name a of JStr n \<Rightarrow> Some (localeCompare n (poi_name b)) | _ \<Rightarrow> None)"

definition get_pois :: "(string \<Rightarrow> json \<Rightarrow> int) \<Rightarrow> store \<Rightarrow> poi list response \<times> store" where
  "get_pois localeCompare s =
     (case sort_by (pois_compare localeCompare) (readPois s) of
        None \<Rightarrow> (TypeError, s)
      | Some list \<Rightarrow> (OK list, s))"

definition post_pois ::
  "clock \<Rightarrow> clock \<Rightarrow> body \<Rightarrow> store \<Rightarrow> poi response \<times> store" where
  "post_pois clk lclk body s =
     (let name = lookup body ''name''; lng = lookup body ''lng''; lat = lookup body ''lat'';
          address = defaulted (lookup body ''address'') (JStr []);
          tags = defaulted (lookup body ''tags'') (JArr []) in
      if \<not> truthy name \<or> typeof lng \<noteq> TNumber \<or> typeof lat \<noteq> TNumber
      then (BadRequest ''Invalid payload'', s)
      else
        (case (name, lng, lat) of
           (Some name_v, Some lng_v, Some lat_v) \<Rightarrow>
             let list = readPois s;
                 item = \<lparr>poi_id = toString36 (now_ms clk), poi_name = stringify name_v,
                         poi_lng = stringify lng_v, poi_lat = stringify lat_v,
                         poi_address = stringify address, poi_tags = stringify tags\<rparr>;
                 list = list @ [item];
                 s = writePois list s;
                 s = logOp lclk ''poi_create''
                       (Some (JObj (object [(''id'', Some (JStr (poi_id item))), (''name'', name)]))) s
             in (Created item, s)
         | _ \<Rightarrow> (BadRequest ''Invalid payload'', s)))"

definition put_pois :: "clock \<Rightarrow> string \<Rightarrow> body \<Rightarrow> store \<Rightarrow> poi response \<times> store" where
  "put_pois lclk ident body s =
     (let list = readPois s in
      case findIndex (\<lambda>x. poi_id x = ident) list of
        None \<Rightarrow> (NotFound ''Not found'', s)
      | Some idx \<Rightarrow>
          let cur = list ! idx;
              next = cur;
              next = (case lookup body ''name'' of None \<Rightarrow> next | Some v \<Rightarrow> next\<lparr>poi_name := stringify v\<rparr>);
              next = (case lookup body ''lng'' of None \<Rightarrow> next | Some v \<Rightarrow> next\<lparr>poi_lng := stringify v\<rparr>);
              next = (case lookup body ''lat'' of None \<Rightarrow> next | Some v \<Rightarrow> next\<lparr>poi_lat := stringify v\<rparr>);
              next = (case lookup body ''address'' of None \<Rightarrow> next | Some v \<Rightarrow> next\<lparr>poi_address := stringify v\<rparr>);
              next = (case lookup body ''tags'' of None \<Rightarrow> next | Some v \<Rightarrow> next\<lparr>poi_tags := stringify v\<rparr>);
              list = list[idx := next];
              s = writePois list s;
              s = logOp lclk ''poi_update'' (Some (JObj [(''id'', JStr ident)])) s
          in (OK next, s))"

definition delete_pois :: "clock \<Rightarrow> string \<Rightarrow> store \<Rightarrow> unit response \<times> store" where
  "delete_pois lclk ident s =
     (let list = readPois s;
          next = filter (\<lambda>x. poi_id x \<noteq> ident) list in
      if length next = length list then (NotFound ''Not found'', s)
      else
        let s = writePois next s;
            s = logOp lclk ''poi_delete'' (Some (JObj [(''id'', JStr ident)])) s
        in (NoContent, s))"

section \<open>Attractions\<close>

definition attraction_json :: "attraction \<Rightarrow> doc" where
  "attraction_json a =
     object [(''id'', Some (JStr (attr_id a))), (''name'', Some (attr_name a)),
       (''lng'', attr_lng a), (''lat'', attr_lat a), (''address'', Some (attr_address a)),
       (''tags'', Some (attr_tags a)), (''desc'', Some (attr_desc a))]"

definition attractions_compare ::
  "(string \<Rightarrow> json \<Rightarrow> int) \<Rightarrow> attraction \<Rightarrow> attraction \<Rightarrow> int option" where
  "attractions_compare localeCompare a b =
     (case attr_name a of JStr n \<Rightarrow> Some (localeCompare n (attr_name b)) | _ \<Rightarrow> None)"

definition get_attractions ::
  "(string \<Rightarrow> json \<Rightarrow> int) \<Rightarrow> store \<Rightarrow> attraction list response \<times> store" where
  "get_attractions localeCompare s =
     (case sort_by (attractions_compare localeCompare) (readAttractions s) of
        None \<Rightarrow> (TypeError, s)
      | Some list \<Rightarrow> (OK list, s))"

definition post_attractions ::
  "clock \<Rightarrow> clock \<Rightarrow> body \<Rightarrow> store \<Rightarrow> attraction response \<times> store" where
  "post_attractions clk lclk body s =
     (let name = lookup body ''name''; lng = lookup body ''lng''; lat = lookup body ''lat'';
          address = defaulted (lookup body ''address'') (JStr []);
          tags = defaulted (lookup body ''tags'') (JArr []);
          desc = defaulted (lookup body ''desc'') (JStr []) in
      if \<not> truthy name then (BadRequest ''Invalid payload'', s)
      else
        (case name of
           Some name_v \<Rightarrow>
             let list = readAttractions s;
                 item = \<lparr>attr_id = toString36 (now_ms clk), attr_name = stringify name_v,
                         attr_lng = map_option stringify lng, attr_lat = map_option stringify lat,
                         attr_address = stringify address, attr_tags = stringify tags,
                         attr_desc = stringify desc\<rparr>;
                 list = list @ [item];
                 s = writeAttractions list s;
                 s = logOp lclk ''attraction_create''
                       (Some (JObj (object [(''id'', Some (JStr (attr_id item))), (''name'', name)]))) s
             in (Created item, s)
         | _ \<Rightarrow> (BadRequest ''Invalid payload'', s)))"

text \<open>
  \<^verbatim>\<open>['name','lng','lat','address','tags','desc'].forEach(k => { if (req.body[k] !==
  undefined) next[k] = req.body[k]; })\<close>, one step for each key of the array.
\<close>

definition put_attractions ::
  "clock \<Rightarrow> string \<Rightarrow> body \<Rightarrow> store \<Rightarrow> attraction response \<times> store" where
  "put_attractions lclk ident body s =
     (let list = readAttractions s in
      case findIndex (\<lambda>x. attr_id x = ident) list of
        None \<Rightarrow> (NotFound ''Not found'', s)
      | Some idx \<Rightarrow>
          let cur = list ! idx;
              next = cur;
              next = (case lookup body ''name'' of None \<Rightarrow> next | Some v \<Rightarrow> next\<lparr>attr_name := stringify v\<rparr>);
              next = (case lookup body ''lng'' of None \<Rightarrow> next | Some v \<Rightarrow> next\<lparr>attr_lng := Some (stringify v)\<rparr>);
              next = (case lookup body ''lat'' of None \<Rightarrow> next | Some v \<Rightarrow> next\<lparr>attr_lat := Some (stringify v)\<rparr>);
              next = (case lookup body ''address'' of None \<Rightarrow> next | Some v \<Rightarrow> next\<lparr>attr_address := stringify v\<rparr>);
              next = (case lookup body ''tags'' of None \<Rightarrow> next | Some v \<Rightarrow> next\<lparr>attr_tags := stringify v\<rparr>);
              next = (case lookup body ''desc'' of None \<Rightarrow> next | Some v \<Rightarrow> next\<lparr>attr_desc := stringify v\<rparr>);
              list = list[idx := next];
              s = writeAttractions list s;
              s = logOp lclk ''attraction_update'' (Some (JObj [(''id'', JStr ident)])) s
          in (OK next, s))"

definition delete_attractions :: "clock \<Rightarrow> string \<Rightarrow> store \<Rightarrow> unit response \<times> store" where
  "delete_attractions lclk ident s =
     (let list = readAttractions s;
          next = filter (\<lambda>x. attr_id x \<noteq> ident) list in
      if length next = length list then (NotFound ''Not found'', s)
      else
        let s = writeAttractions next s;
            s = logOp lclk ''attraction_delete'' (Some (JObj [(''id'', JStr ident)])) s
        in (NoContent, s))"

section \<open>The hydrophone snapshot\<close>

definition get_hydrophone_latest :: "store \<Rightarrow> json response \<times> store" where
  "get_hydrophone_latest s = (OK (readHydrophone s), s)"

text \<open>\<^verbatim>\<open>typeof v === 'number' ? v : null\<close>\<close>

definition numberOrNull :: "jsval option \<Rightarrow> jsval" where
  "numberOrNull v = (if typeof v = TNumber then defaulted v JNull else JNull)"

text \<open>\<^verbatim>\<open>typeof v === 'boolean' ? v : !!v\<close>\<close>

definition booleanOrTruth :: "jsval option \<Rightarrow> jsval" where
  "booleanOrTruth v = (if typeof v = TBoolean then defaulted v JNull else JBool (truthy v))"

definition post_hydrophone_update ::
  "clock \<Rightarrow> clock \<Rightarrow> body \<Rightarrow> store \<Rightarrow> json response \<times> store" where
  "post_hydrophone_update clk lclk body s =
     (let longitude_in = lookup body ''longitude''; latitude_in = lookup body ''latitude'' in
      if typeof longitude_in \<noteq> TNumber \<or> typeof latitude_in \<noteq> TNumber
      then (BadRequest ''Invalid payload: longitude/latitude must be numbers'', s)
      else
        (case (longitude_in, latitude_in) of
           (Some longitude_v, Some latitude_v) \<Rightarrow>
             let timestamp_v = js_or (lookup body ''timestamp'') (JStr (now_iso clk));
                 payload =
                   [(''longitude'', longitude_v),
                    (''latitude'', latitude_v),
                    (''heading'', numberOrNull (lookup body ''heading'')),
                    (''temperature'', numberOrNull (lookup body ''temperature'')),
                    (''humidity'', numberOrNull (lookup body ''humidity'')),
                    (''pressure'', numberOrNull (lookup body ''pressure'')),
                    (''salinity'', numberOrNull (lookup body ''salinity'')),
                    (''shipDetected'', booleanOrTruth (lookup body ''shipDetected'')),
                    (''shipType'', js_or (lookup body ''shipType'') (JStr [])),
                    (''timestamp'', timestamp_v)];
                 s = writeHydrophone payload s;
                 s = logOp lclk ''hydrophone_update'' (Some (JObj [(''ts'', timestamp_v)])) s
             in (Created (JObj [(''ok'', JBool True)]), s)
         | _ \<Rightarrow> (BadRequest ''Invalid payload: longitude/latitude must be numbers'', s)))"

section \<open>The hydrophone history\<close>

text \<open>\<^verbatim>\<open>(a,b) => (a.createdAt < b.createdAt ? 1 : -1)\<close>\<close>

definition history_compare :: "hydro_record \<Rightarrow> hydro_record \<Rightarrow> int option" where
  "history_compare a b = Some (if hist_createdAt a < hist_createdAt b then 1 else - 1)"

definition get_hydro_history :: "store \<Rightarrow> hydro_record list response \<times> store" where
  "get_hydro_history s =
     (case sort_by history_compare (readHydroHistory s) of
        None \<Rightarrow> (TypeError, s)
      | Some list \<Rightarrow> (OK list, s))"

text \<open>The placeholder name of a record, three Chinese characters, in UTF-8.\<close>

definition unnamed :: string where
  "unnamed = [CHR 0xE6, CHR 0x9C, CHR 0xAA, CHR 0xE5, CHR 0x91, CHR 0xBD, CHR 0xE5, CHR 0x90, CHR 0x8D]"

text \<open>
  \<open>rnd\<close> is \<^verbatim>\<open>Math.random().toString(36).slice(2,6)\<close>, an input like the clock.
  \<open>clk\<close> holds the reading of \<^verbatim>\<open>Date.now()\<close> for the identifier and the reading
  of the time that stands in for a missing timestamp; \<open>created\<close> is the later reading
  for \<open>createdAt\<close>. The longitude and the latitude have passed the test for numbers; an
  infinity among them is written as \<^verbatim>\<open>null\<close> like everywhere. The log entry holds the
  name of the object in memory.
\<close>

definition post_hydro_history ::
  "clock \<Rightarrow> string \<Rightarrow> string \<Rightarrow> clock \<Rightarrow> body \<Rightarrow> store \<Rightarrow> hydro_record response \<times> store"
  where
  "post_hydro_history clk rnd created lclk body s =
     (let longitude_in = lookup body ''longitude''; latitude_in = lookup body ''latitude'';
          heading_v = defaulted (lookup body ''heading'') JNull;
          temperature_v = defaulted (lookup body ''temperature'') JNull;
          humidity_v = defaulted (lookup body ''humidity'') JNull;
          pressure_v = defaulted (lookup body ''pressure'') JNull;
          salinity_v = defaulted (lookup body ''salinity'') JNull;
          shipDetected_v = defaulted (lookup body ''shipDetected'') (JBool False);
          shipType_v = defaulted (lookup body ''shipType'') (JStr []);
          timestamp_v = defaulted (lookup body ''timestamp'') JNull;
          name_v = defaulted (lookup body ''name'') (JStr []) in
      if typeof longitude_in \<noteq> TNumber \<or> typeof latitude_in \<noteq> TNumber
      then (BadRequest ''Invalid payload: longitude/latitude must be numbers'', s)
      else
        (case (longitude_in, latitude_in) of
           (Some longitude_v, Some latitude_v) \<Rightarrow>
             let list = readHydroHistory s;
                 item_name = js_or (Some name_v) (JStr unnamed);
                 item = \<lparr>hist_id = toString36 (now_ms clk) @ rnd,
                         hist_name = stringify item_name,
                         longitude = stringify longitude_v, latitude = stringify latitude_v,
                         heading = stringify heading_v, temperature = stringify temperature_v,
                         humidity = stringify humidity_v, pressure = stringify pressure_v,
                         salinity = stringify salinity_v,
                         shipDetected = truthy (Some shipDetected_v),
                         shipType = stringify (js_or (Some shipType_v) (JStr [])),
                         timestamp = stringify (js_or (Some timestamp_v) (JStr (now_iso clk))),
                         hist_createdAt = created,
                         sentAt = JNull\<rparr>;
                 list = list @ [item];
                 s = writeHydroHistory list s;
                 s = logOp lclk ''hydro_history_create''
                       (Some (JObj [(''id'', JStr (hist_id item)), (''name'', item_name)])) s
             in (Created item, s)
         | _ \<Rightarrow> (BadRequest ''Invalid payload: longitude/latitude must be numbers'', s)))"

definition delete_hydro_history :: "clock \<Rightarrow> string \<Rightarrow> store \<Rightarrow> unit response \<times> store" where
  "delete_hydro_history lclk ident s =
     (let list = readHydroHistory s;
          next = filter (\<lambda>x. hist_id x \<noteq> ident) list in
      if length next = length list then (NotFound ''Not found'', s)
      else
        let s = writeHydroHistory next s;
            s = logOp lclk ''hydro_history_delete'' (Some (JObj [(''id'', JStr ident)])) s
        in (NoContent, s))"

text \<open>
  \<^verbatim>\<open>list.find(x => x.id === id)\<close> returns the first record with the identifier, the
  very object that the list holds: the assignment \<^verbatim>\<open>item.sentAt = payload.timestamp\<close>
  changes the list at that index, and the list is written afterwards. A record is an
  object, so \<^verbatim>\<open>!item\<close> holds exactly when there is no such record. \<^verbatim>\<open>!!item.shipDetected\<close>
  is the stored boolean. \<open>parsed v\<close> is a stored value as \<open>JSON.parse\<close> reads it.
\<close>

primrec parsed :: "json \<Rightarrow> jsval" where
  "parsed JNull = JNull"
| "parsed (JBool b) = JBool b"
| "parsed (JNum r) = JNum (Finite r)"
| "parsed (JStr s) = JStr s"
| "parsed (JArr xs) = JArr (map parsed xs)"
| "parsed (JObj kvs) = JObj (map (map_prod id parsed) kvs)"

definition snapshot_of :: "hydro_record \<Rightarrow> string \<Rightarrow> body" where
  "snapshot_of item now =
     [(''longitude'', parsed (longitude item)),
      (''latitude'', parsed (latitude item)),
      (''heading'', parsed (heading item)),
      (''temperature'', parsed (temperature item)),
      (''humidity'', parsed (humidity item)),
      (''pressure'', parsed (pressure item)),
      (''salinity'', parsed (salinity item)),
      (''shipDetected'', JBool (shipDetected item)),
      (''shipType'', js_or (Some (parsed (shipType item))) (JStr [])),
      (''timestamp'', JStr now)]"

definition post_hydro_history_send ::
  "clock \<Rightarrow> clock \<Rightarrow> string \<Rightarrow> store \<Rightarrow> json response \<times> store" where
  "post_hydro_history_send clk lclk ident s =
     (let list = readHydroHistory s in
      case findIndex (\<lambda>x. hist_id x = ident) list of
        None \<Rightarrow> (NotFound ''Not found'', s)
      | Some idx \<Rightarrow>
          let item = list ! idx;
              payload = snapshot_of item (now_iso clk);
              s = writeHydrophone payload s;
              item = item\<lparr>sentAt := stringify (defaulted (lookup payload ''timestamp'') JNull)\<rparr>;
              list = list[idx := item];
              s = writeHydroHistory list s;
              s = logOp lclk ''hydro_history_send''
                    (Some (JObj (object [(''id'', Some (JStr ident)), (''ts'', lookup payload ''timestamp'')]))) s
          in (OK (stringify (JObj [(''ok'', JBool True), (''applied'', JObj payload)])), s))"

section \<open>Statistics and logs\<close>

definition get_stats :: "store \<Rightarrow> json response \<times> store" where
  "get_stats s = (OK (readStats s), s)"

definition get_logs :: "store \<Rightarrow> log_entry list response \<times> store" where
  "get_logs s = (OK (readLogs s), s)"

section \<open>Sequences of requests\<close>

text \<open>
  At its start the server writes \<^verbatim>\<open>{}\<close> into a missing statistics file and \<^verbatim>\<open>[]\<close> into
  every other missing file (the snapshot file too).
\<close>

definition initial_store :: store where
  "initial_store =
     \<lparr>poisFile = Content [], routesFile = Content [], logsFile = Content [],
      statsFile = Content (JObj []), attractionsFile = Content [],
      hydrophoneFile = Content (JArr []), hydroHistoryFile = Content []\<rparr>"

text \<open>
  The requests that write a collection, each with the clock it reads. \<open>handle\<close> is the
  route callback of the request. The request counter that runs before every callback
  (\<open>incRequest\<close>) reads and writes the statistics file only, which no callback
  touches; it is left out, and so are the \<open>GET\<close> requests, which write nothing else.
\<close>

datatype request =
    PostRoutes clock clock body
  | PutRoutes clock string body
  | DeleteRoutes clock string
  | PostPois clock clock body
  | PutPois clock string body
  | DeletePois clock string
  | PostAttractions clock clock body
  | PutAttractions clock string body
  | DeleteAttractions clock string
  | PostHydrophoneUpdate clock clock body
  | PostHydroHistory clock string string clock body
  | DeleteHydroHistory clock string
  | PostHydroHistorySend clock clock string

fun handle :: "request \<Rightarrow> store \<Rightarrow> store" where
  "handle (PostRoutes clk lclk body) s = snd (post_routes clk lclk body s)"
| "handle (PutRoutes lclk ident body) s = snd (put_routes lclk ident body s)"
| "handle (DeleteRoutes lclk ident) s = snd (delete_routes lclk ident s)"
| "handle (PostPois clk lclk body) s = snd (post_pois clk lclk body s)"
| "handle (PutPois lclk ident body) s = snd (put_pois lclk ident body s)"
| "handle (DeletePois lclk ident) s = snd (delete_pois lclk ident s)"
| "handle (PostAttractions clk lclk body) s = snd (post_attractions clk lclk body s)"
| "handle (PutAttractions lclk ident body) s = snd (put_attractions lclk ident body s)"
| "handle (DeleteAttractions lclk ident) s = snd (delete_attractions lclk ident s)"
| "handle (PostHydrophoneUpdate clk lclk body) s = snd (post_hydrophone_update clk lclk body s)"
| "handle (PostHydroHistory clk rnd created lclk body) s =
     snd (post_hydro_history clk rnd created lclk body s)"
| "handle (DeleteHydroHistory lclk ident) s = snd (delete_hydro_history lclk ident s)"
| "handle (PostHydroHistorySend clk lclk ident) s = snd (post_hydro_history_send clk lclk ident s)"

text \<open>The store after a sequence of requests, the first request first.\<close>

fun run :: "request list \<Rightarrow> store \<Rightarrow> store" where
  "run [] s = s"
| "run (r # rs) s = run rs (handle r s)"

text \<open>
  The clock readings of the creations in a sequence of requests, one function for each
  collection whose identifier is the clock reading alone, and for the hydrophone history
  the identifiers that the creations make from the clock reading and the random suffix.
\<close>

fun poi_post_times :: "request list \<Rightarrow> nat list" where
  "poi_post_times [] = []"
| "poi_post_times (PostPois clk lclk body # rs) = now_ms clk # poi_post_times rs"
| "poi_post_times (r # rs) = poi_post_times rs"

fun route_post_times :: "request list \<Rightarrow> nat list" where
  "route_post_times [] = []"
| "route_post_times (PostRoutes clk lclk body # rs) = now_ms clk # route_post_times rs"
| "route_post_times (r # rs) = route_post_times rs"

fun attraction_post_times :: "request list \<Rightarrow> nat list" where
  "attraction_post_times [] = []"
| "attraction_post_times (PostAttractions clk lclk body # rs) =
     now_ms clk # attraction_post_times rs"
| "attraction_post_times (r # rs) = attraction_post_times rs"

fun history_post_ids :: "request list \<Rightarrow> string list" where
  "history_post_ids [] = []"
| "history_post_ids (PostHydroHistory clk rnd created lclk body # rs) =
     (toString36 (now_ms clk) @ rnd) # history_post_ids rs"
| "history_post_ids (r # rs) = history_post_ids rs"

text \<open>
  An update of a route keeps the coordinates or replaces them by a non-empty array.
\<close>

fun keeps_coords :: "request \<Rightarrow> bool" where
  "keeps_coords (PutRoutes clk ident body) =
     (lookup body ''coords'' = None \<or> nonEmptyArray (lookup body ''coords''))"
| "keeps_coords r = True"

section \<open>Order of a sorted list\<close>

text \<open>
  \<open>before cmp a b\<close>: the comparison function puts \<open>a\<close> before \<open>b\<close> or leaves their
  order open (it answers a number that is not positive). \<open>consistent_on A cmp\<close>: on the
  documents of \<open>A\<close> the comparison function never throws, and \<open>before\<close> is total and
  transitive.
\<close>

definition before :: "('a \<Rightarrow> 'a \<Rightarrow> int option) \<Rightarrow> 'a \<Rightarrow> 'a \<Rightarrow> bool" where
  "before cmp a b = (case cmp a b of None \<Rightarrow> False | Some c \<Rightarrow> c \<le> 0)"

definition consistent_on :: "'a set \<Rightarrow> ('a \<Rightarrow> 'a \<Rightarrow> int option) \<Rightarrow> bool" where
  "consistent_on A cmp =
     ((\<forall>a\<in>A. \<forall>b\<in>A. cmp a b \<noteq> None) \<and>
      (\<forall>a\<in>A. \<forall>b\<in>A. before cmp a b \<or> before cmp b a) \<and>
      (\<forall>a\<in>A. \<forall>b\<in>A. \<forall>c\<in>A. before cmp a b \<and> before cmp b c \<longrightarrow> before cmp a c))"

text \<open>
  What the sorted lists of names need from the platform's \<open>localeCompare\<close>: on strings
  it is total and transitive.
\<close>

definition collation_order :: "(string \<Rightarrow> json \<Rightarrow> int) \<Rightarrow> bool" where
  "collation_order localeCompare =
     ((\<forall>a b. localeCompare a (JStr b) \<le> 0 \<or> localeCompare b (JStr a) \<le> 0) \<and>
      (\<forall>a b c. localeCompare a (JStr b) \<le> 0 \<and> localeCompare b (JStr c) \<le> 0 \<longrightarrow>
         localeCompare a (JStr c) \<le> 0))"

section \<open>The keys that an update copies\<close>

text \<open>
  The properties that each \<open>PUT\<close> handler tests in the body and copies: the two
  assignments of the routes, the five of the points of interest, and the array that the
  handler of the attractions walks through.
\<close>

definition route_patch_keys :: "string list" where
  "route_patch_keys = [''name'', ''coords'']"

definition poi_patch_keys :: "string list" where
  "poi_patch_keys = [''name'', ''lng'', ''lat'', ''address'', ''tags'']"

definition attraction_patch_keys :: "string list" where
  "attraction_patch_keys = [''name'', ''lng'', ''lat'', ''address'', ''tags'', ''desc'']"

section \<open>Examples\<close>

text \<open>Clock readings, and the request body of the creation scenario.\<close>

definition clock0 :: clock where
  "clock0 = \<lparr>now_ms = 1700000000000, now_iso = ''2023-11-14T22:13:20.000Z''\<rparr>"

definition clock1 :: clock where
  "clock1 = \<lparr>now_ms = 1700000000001, now_iso = ''2023-11-14T22:13:20.001Z''\<rparr>"

definition pier :: body where
  "pier = [(''name'', JStr ''Pier''), (''lng'', JNum (Finite 120.5)), (''lat'', JNum (Finite 30.25))]"

definition pier_poi :: poi where
  "pier_poi =
     \<lparr>poi_id = ''loyw3v28'', poi_name = JStr ''Pier'', poi_lng = JNum 120.5,
      poi_lat = JNum 30.25, poi_address = JStr [], poi_tags = JArr []\<rparr>"

text \<open>A store that holds the given points of interest and nothing else.\<close>

definition store_of_pois :: "poi list \<Rightarrow> store" where
  "store_of_pois list = initial_store\<lparr>poisFile := Content list\<rparr>"

text \<open>
  An update body with a key that the handler does not copy and a longitude beyond the
  range of the doubles, \<^verbatim>\<open>{"id": "other", "lng": 1e400}\<close>.
\<close>

definition far_update :: body where
  "far_update = [(''id'', JStr ''other''), (''lng'', JNum PlusInfinity)]"

text \<open>
  A creation body whose name is not a string and whose longitude is beyond the range of
  the doubles, \<^verbatim>\<open>{"name": true, "lng": 1e400, "lat": 2}\<close>.
\<close>

definition true_far :: body where
  "true_far = [(''name'', JBool True), (''lng'', JNum PlusInfinity), (''lat'', JNum (Finite 2))]"

text \<open>
  A collation for the examples: the order of the code units of two strings (and 0 on an
  argument that is not a string).
\<close>

definition code_unit_compare :: "string \<Rightarrow> json \<Rightarrow> int" where
  "code_unit_compare a b =
     (case b of JStr t \<Rightarrow> (if a < t then - 1 else if a = t then 0 else 1) | _ \<Rightarrow> 0)"

text \<open>Two points of interest whose names are numbers, and the bodies that create them.\<close>

definition five :: body where
  "five = [(''name'', JNum (Finite 5)), (''lng'', JNum (Finite 1)), (''lat'', JNum (Finite 2))]"

definition six :: body where
  "six = [(''name'', JNum (Finite 6)), (''lng'', JNum (Finite 1)), (''lat'', JNum (Finite 2))]"

definition five_poi :: poi where
  "five_poi =
     \<lparr>poi_id = ''loyw3v28'', poi_name = JNum 5, poi_lng = JNum 1, poi_lat = JNum 2,
      poi_address = JStr [], poi_tags = JArr []\<rparr>"

definition six_poi :: poi where
  "six_poi =
     \<lparr>poi_id = ''loyw3v29'', poi_name = JNum 6, poi_lng = JNum 1, poi_lat = JNum 2,
      poi_address = JStr [], poi_tags = JArr []\<rparr>"

definition park_poi :: poi where
  "park_poi =
     \<lparr>poi_id = ''loyw3v29'', poi_name = JStr ''Park'', poi_lng = JNum 1, poi_lat = JNum 2,
      poi_address = JStr [], poi_tags = JArr []\<rparr>"

text \<open>
  Two snapshot updates: one with values of the expected types, and one with a heading
  beyond the range of the doubles and values of other types in three optional fields.
\<close>

definition plain_update :: body where
  "plain_update =
     [(''longitude'', JNum (Finite 120.5)), (''latitude'', JNum (Finite 30.25)),
      (''heading'', JNum (Finite 90)), (''shipDetected'', JBool True),
      (''shipType'', JStr ''cargo'')]"

definition sample_update :: body where
  "sample_update =
     [(''longitude'', JNum (Finite 120.5)), (''latitude'', JNum (Finite 30.25)),
      (''heading'', JNum PlusInfinity), (''shipDetected'', JStr ''yes''),
      (''shipType'', JNum (Finite 7)), (''timestamp'', JBool True)]"

text \<open>A store in which no file can be read.\<close>

definition unreadable_store :: store where
  "unreadable_store =
     \<lparr>poisFile = Unreadable, routesFile = Unreadable, logsFile = Unreadable,
      statsFile = Unreadable, attractionsFile = Unreadable, hydrophoneFile = Unreadable,
      hydroHistoryFile = Unreadable\<rparr>"

text \<open>
  A store whose audit log holds 500 entries that differ in their identifiers, the entry
  with the identifier 0 first and the one with 499 last.
\<close>

definition numbered_entry :: "nat \<Rightarrow> log_entry" where
  "numbered_entry i =
     \<lparr>log_id = i, log_type = ''poi_delete'', log_detail = JObj [],
      log_ts = ''2023-11-14T22:13:19.000Z''\<rparr>"

definition full_log_store :: store where
  "full_log_store = initial_store\<lparr>logsFile := Content (map numbered_entry [0..<500])\<rparr>"

text \<open>The route of the scenarios.\<close>

definition loop :: body where
  "loop =
     [(''name'', JStr ''Loop''),
      (''coords'', JArr [JArr [JNum (Finite 120.5), JNum (Finite 30.25)],
                         JArr [JNum (Finite 120.75), JNum (Finite 30.5)]])]"

definition loop_route :: route where
  "loop_route =
     \<lparr>route_id = ''loyw3v28'', route_name = JStr ''Loop'',
      coords = JArr [JArr [JNum 120.5, JNum 30.25], JArr [JNum 120.75, JNum 30.5]],
      route_createdAt = ''2023-11-14T22:13:20.000Z''\<rparr>"

text \<open>
  Hydrophone readings with the records they create: a plain one; one whose ship type is
  a number beyond the range of the doubles, \<^verbatim>\<open>1e400\<close>; and one with another longitude.
\<close>

definition reading :: body where
  "reading =
     [(''longitude'', JNum (Finite 120.5)), (''latitude'', JNum (Finite 30.25)),
      (''heading'', JNum (Finite 90)), (''shipDetected'', JBool True),
      (''shipType'', JStr ''cargo''), (''name'', JStr ''R1'')]"

definition reading_record :: hydro_record where
  "reading_record =
     \<lparr>hist_id = ''loyw3v28ab12'', hist_name = JStr ''R1'', longitude = JNum 120.5,
      latitude = JNum 30.25, heading = JNum 90, temperature = JNull, humidity = JNull,
      pressure = JNull, salinity = JNull, shipDetected = True, shipType = JStr ''cargo'',
      timestamp = JStr ''2023-11-14T22:13:20.000Z'',
      hist_createdAt = ''2023-11-14T22:13:20.000Z'', sentAt = JNull\<rparr>"

definition far_reading :: body where
  "far_reading =
     [(''longitude'', JNum (Finite 120.5)), (''latitude'', JNum (Finite 30.25)),
      (''shipType'', JNum PlusInfinity), (''name'', JStr ''R1'')]"

definition far_record :: hydro_record where
  "far_record =
     \<lparr>hist_id = ''loyw3v28ab12'', hist_name = JStr ''R1'', longitude = JNum 120.5,
      latitude = JNum 30.25, heading = JNull, temperature = JNull, humidity = JNull,
      pressure = JNull, salinity = JNull, shipDetected = False, shipType = JNull,
      timestamp = JStr ''2023-11-14T22:13:20.000Z'',
      hist_createdAt = ''2023-11-14T22:13:20.000Z'', sentAt = JNull\<rparr>"

definition east_reading :: body where
  "east_reading =
     [(''longitude'', JNum (Finite 121.5)), (''latitude'', JNum (Finite 30.25)),
      (''shipType'', JStr ''cargo''), (''name'', JStr ''R2'')]"

definition east_record :: hydro_record where
  "east_record =
     \<lparr>hist_id = ''loyw3v28ab12'', hist_name = JStr ''R2'', longitude = JNum 121.5,
      latitude = JNum 30.25, heading = JNull, temperature = JNull, humidity = JNull,
      pressure = JNull, salinity = JNull, shipDetected = False, shipType = JStr ''cargo'',
      timestamp = JStr ''2023-11-14T22:13:20.000Z'',
      hist_createdAt = ''2023-11-14T22:13:20.000Z'', sentAt = JNull\<rparr>"

section \<open>Results of the storage layer and of the audit log\<close>

text \<open>
  Claim C7. When the stored content of a collection is missing or cannot be parsed, its
  load returns the empty default and no error: the empty list for the points of interest,
  the routes, the attractions, the hydrophone history and the logs, the empty object for
  the hydrophone snapshot and the usage counters. (Every load is a total function that
  returns a value of the collection's type; there is no error result.)
\<close>

theorem load_unreadable_gives_empty_default:
  "(poisFile s = Unreadable \<longrightarrow> readPois s = []) \<and>
   (routesFile s = Unreadable \<longrightarrow> readRoutes s = []) \<and>
   (attractionsFile s = Unreadable \<longrightarrow> readAttractions s = []) \<and>
   (hydroHistoryFile s = Unreadable \<longrightarrow> readHydroHistory s = []) \<and>
   (logsFile s = Unreadable \<longrightarrow> readLogs s = []) \<and>
   (hydrophoneFile s = Unreadable \<longrightarrow> readHydrophone s = JObj []) \<and>
   (statsFile s = Unreadable \<longrightarrow> readStats s = JObj [])"
  by (simp add: readPois_def readRoutes_def readAttractions_def readHydroHistory_def
      readLogs_def readHydrophone_def readStats_def)

theorem load_unreadable_gives_empty_default_witness:
  "readPois unreadable_store = [] \<and> readRoutes unreadable_store = [] \<and>
   readAttractions unreadable_store = [] \<and> readHydroHistory unreadable_store = [] \<and>
   readLogs unreadable_store = [] \<and> readHydrophone unreadable_store = JObj [] \<and>
   readStats unreadable_store = JObj []"
  using load_unreadable_gives_empty_default [of unreadable_store]
  by (simp add: unreadable_store_def)

lemma readLogs_logOp:
  "readLogs (logOp lclk type detail s) =
     take 500 (\<lparr>log_id = now_ms lclk, log_type = type,
                log_detail = stringify (js_or detail (JObj [])), log_ts = now_iso lclk\<rparr> #
               readLogs s)"
  by (simp add: logOp_def readLogs_def Let_def)

text \<open>
  Claim C3. For every state of the audit log, the log after an append is the new entry
  followed by the old entries in their order, cut after 500 entries. So the new entry is
  at position 0, the old entries keep their order behind it (most recent first), and the
  log has at most 500 entries. A log of fewer than 500 entries loses none; a log of 500
  entries loses its last (oldest) entry and no other.
\<close>

theorem logOp_head_and_cap:
  "readLogs (logOp lclk type detail s) =
     take 500 (\<lparr>log_id = now_ms lclk, log_type = type,
                log_detail = stringify (js_or detail (JObj [])), log_ts = now_iso lclk\<rparr> #
               readLogs s) \<and>
   readLogs (logOp lclk type detail s) \<noteq> [] \<and>
   readLogs (logOp lclk type detail s) ! 0 =
     \<lparr>log_id = now_ms lclk, log_type = type,
      log_detail = stringify (js_or detail (JObj [])), log_ts = now_iso lclk\<rparr> \<and>
   length (readLogs (logOp lclk type detail s)) \<le> 500 \<and>
   (length (readLogs s) < 500 \<longrightarrow>
      readLogs (logOp lclk type detail s) =
        \<lparr>log_id = now_ms lclk, log_type = type,
         log_detail = stringify (js_or detail (JObj [])), log_ts = now_iso lclk\<rparr> # readLogs s) \<and>
   (length (readLogs s) = 500 \<longrightarrow>
      readLogs (logOp lclk type detail s) =
        \<lparr>log_id = now_ms lclk, log_type = type,
         log_detail = stringify (js_or detail (JObj [])), log_ts = now_iso lclk\<rparr> #
        butlast (readLogs s))"
proof -
  have "length (readLogs s) = 500 \<Longrightarrow> take 499 (readLogs s) = butlast (readLogs s)"
    by (simp add: butlast_conv_take)
  then show ?thesis
    by (simp add: readLogs_logOp take_Cons')
qed

text \<open>
  The witness of claim C3: on the log of the 500 entries numbered 0 to 499, the append
  returns the new entry followed by the entries 0 to 498; the entry 499, the last and
  oldest, is the one that is gone.
\<close>

theorem logOp_head_and_cap_witness:
  "readLogs (logOp clock0 ''poi_create'' None full_log_store) =
     \<lparr>log_id = 1700000000000, log_type = ''poi_create'', log_detail = JObj [],
      log_ts = ''2023-11-14T22:13:20.000Z''\<rparr> # map numbered_entry [0..<499]"
proof -
  have l: "readLogs full_log_store = map numbered_entry [0..<500]"
    by (simp add: readLogs_def full_log_store_def)
  have u: "[0..<500::nat] = [0..<499] @ [499]"
    using upt_Suc_append [of 0 499] by simp
  have b: "butlast (map numbered_entry [0..<500]) = map numbered_entry [0..<499]"
    unfolding u by (simp only: map_append butlast_snoc list.map)
  have len: "length (readLogs full_log_store) = 500"
    unfolding l by simp
  from logOp_head_and_cap [of clock0 "''poi_create''" None full_log_store] len
  have "readLogs (logOp clock0 ''poi_create'' None full_log_store) =
        \<lparr>log_id = now_ms clock0, log_type = ''poi_create'',
         log_detail = stringify (js_or None (JObj [])), log_ts = now_iso clock0\<rparr> #
        butlast (readLogs full_log_store)"
    by blast
  then show ?thesis unfolding l b by (simp add: clock0_def)
qed

section \<open>Reading after writing\<close>

lemma findIndex_Some:
  "findIndex p xs = Some i \<Longrightarrow> i < length xs \<and> p (xs ! i) \<and> (\<forall>j<i. \<not> p (xs ! j))"
proof (induction xs arbitrary: i)
  case Nil
  then show ?case by simp
next
  case (Cons x xs)
  show ?case
  proof (cases "p x")
    case True
    with Cons.prems show ?thesis by simp
  next
    case False
    with Cons.prems obtain k where k: "findIndex p xs = Some k" "i = Suc k"
      by (auto split: option.splits)
    from Cons.IH [OF k(1)] False k(2) show ?thesis
      by (auto simp: less_Suc_eq_0_disj)
  qed
qed

lemma findIndex_None: "(findIndex p xs = None) = (\<forall>x\<in>set xs. \<not> p x)"
  by (induction xs) (auto split: option.splits)

lemma read_logOp:
  "readPois (logOp clk type detail s) = readPois s"
  "readRoutes (logOp clk type detail s) = readRoutes s"
  "readAttractions (logOp clk type detail s) = readAttractions s"
  "readHydroHistory (logOp clk type detail s) = readHydroHistory s"
  "readHydrophone (logOp clk type detail s) = readHydrophone s"
  by (simp_all add: logOp_def Let_def readPois_def readRoutes_def readAttractions_def
      readHydroHistory_def readHydrophone_def)

lemma read_write_same:
  "readPois (writePois l s) = l"
  "readRoutes (writeRoutes r s) = r"
  "readAttractions (writeAttractions a s) = a"
  "readHydroHistory (writeHydroHistory h s) = h"
  "readHydrophone (writeHydrophone obj s) = stringify (JObj obj)"
  by (simp_all add: writePois_def writeRoutes_def writeAttractions_def writeHydroHistory_def
      writeHydrophone_def readPois_def readRoutes_def readAttractions_def readHydroHistory_def
      readHydrophone_def)

lemma read_write_other:
  "readPois (writeRoutes r s) = readPois s"
  "readPois (writeAttractions a s) = readPois s"
  "readPois (writeHydroHistory h s) = readPois s"
  "readPois (writeHydrophone obj s) = readPois s"
  "readRoutes (writePois l s) = readRoutes s"
  "readRoutes (writeAttractions a s) = readRoutes s"
  "readRoutes (writeHydroHistory h s) = readRoutes s"
  "readRoutes (writeHydrophone obj s) = readRoutes s"
  "readAttractions (writePois l s) = readAttractions s"
  "readAttractions (writeRoutes r s) = readAttractions s"
  "readAttractions (writeHydroHistory h s) = readAttractions s"
  "readAttractions (writeHydrophone obj s) = readAttractions s"
  "readHydroHistory (writePois l s) = readHydroHistory s"
  "readHydroHistory (writeRoutes r s) = readHydroHistory s"
  "readHydroHistory (writeAttractions a s) = readHydroHistory s"
  "readHydroHistory (writeHydrophone obj s) = readHydroHistory s"
  "readHydrophone (writePois l s) = readHydrophone s"
  "readHydrophone (writeRoutes r s) = readHydrophone s"
  "readHydrophone (writeAttractions a s) = readHydrophone s"
  "readHydrophone (writeHydroHistory h s) = readHydrophone s"
  by (simp_all add: writePois_def writeRoutes_def writeAttractions_def writeHydroHistory_def
      writeHydrophone_def readPois_def readRoutes_def readAttractions_def readHydroHistory_def
      readHydrophone_def)

section \<open>Updates\<close>

lemma Some_defaulted: "Some (defaulted v d) = (if v \<noteq> None then v else Some d)"
  by (cases v) simp_all

lemma Some_defaulted_stringify:
  "Some (defaulted (map_option stringify v) d) =
     (if v \<noteq> None then map_option stringify v else Some d)"
  by (cases v) simp_all

lemma case_option_stringify:
  "(case v of None \<Rightarrow> d | Some x \<Rightarrow> Some (stringify x)) =
     (if v \<noteq> None then map_option stringify v else d)"
  by (cases v) simp_all

lemma put_routes_found:
  assumes "findIndex (\<lambda>x. route_id x = ident) (readRoutes s) = Some idx"
  shows "\<exists>next. fst (put_routes clk ident body s) = OK next \<and>
           readRoutes (snd (put_routes clk ident body s)) = (readRoutes s)[idx := next] \<and>
           (\<forall>k. lookup (route_json next) k =
              (if k \<in> set route_patch_keys \<and> lookup body k \<noteq> None
               then map_option stringify (lookup body k) else lookup (route_json (readRoutes s ! idx)) k))"
  using assms
  by (auto simp add: put_routes_def Let_def read_logOp read_write_same lookup_def
      route_json_def route_patch_keys_def split: option.splits)

lemma put_pois_found:
  assumes "findIndex (\<lambda>x. poi_id x = ident) (readPois s) = Some idx"
  shows "\<exists>next. fst (put_pois clk ident body s) = OK next \<and>
           readPois (snd (put_pois clk ident body s)) = (readPois s)[idx := next] \<and>
           (\<forall>k. lookup (poi_json next) k =
              (if k \<in> set poi_patch_keys \<and> lookup body k \<noteq> None
               then map_option stringify (lookup body k) else lookup (poi_json (readPois s ! idx)) k))"
  using assms
  by (auto simp add: put_pois_def Let_def read_logOp read_write_same lookup_def
      poi_json_def poi_patch_keys_def split: option.splits)

lemma lookup_attraction_json:
  "lookup (attraction_json a) k =
     (if k = ''id'' then Some (JStr (attr_id a)) else if k = ''name'' then Some (attr_name a)
      else if k = ''lng'' then attr_lng a else if k = ''lat'' then attr_lat a
      else if k = ''address'' then Some (attr_address a)
      else if k = ''tags'' then Some (attr_tags a)
      else if k = ''desc'' then Some (attr_desc a) else None)"
  by (cases "attr_lng a"; cases "attr_lat a") (simp_all add: lookup_def attraction_json_def)

lemma put_attractions_next:
  assumes "findIndex (\<lambda>x. attr_id x = ident) (readAttractions s) = Some idx"
  shows "fst (put_attractions clk ident body s) =
           OK \<lparr>attr_id = attr_id (readAttractions s ! idx),
               attr_name = defaulted (map_option stringify (lookup body ''name'')) (attr_name (readAttractions s ! idx)),
               attr_lng = (case lookup body ''lng'' of
                             None \<Rightarrow> attr_lng (readAttractions s ! idx) | Some v \<Rightarrow> Some (stringify v)),
               attr_lat = (case lookup body ''lat'' of
                             None \<Rightarrow> attr_lat (readAttractions s ! idx) | Some v \<Rightarrow> Some (stringify v)),
               attr_address =
                 defaulted (map_option stringify (lookup body ''address'')) (attr_address (readAttractions s ! idx)),
               attr_tags = defaulted (map_option stringify (lookup body ''tags'')) (attr_tags (readAttractions s ! idx)),
               attr_desc = defaulted (map_option stringify (lookup body ''desc'')) (attr_desc (readAttractions s ! idx))\<rparr>"
  using assms
  by (simp add: put_attractions_def Let_def split: option.split)

lemma put_attractions_list:
  assumes "findIndex (\<lambda>x. attr_id x = ident) (readAttractions s) = Some idx"
  shows "\<exists>next. fst (put_attractions clk ident body s) = OK next \<and>
           readAttractions (snd (put_attractions clk ident body s)) =
             (readAttractions s)[idx := next]"
  using assms
  by (simp add: put_attractions_def Let_def read_logOp read_write_same)

lemma put_attractions_found:
  assumes "findIndex (\<lambda>x. attr_id x = ident) (readAttractions s) = Some idx"
  shows "\<exists>next. fst (put_attractions clk ident body s) = OK next \<and>
           readAttractions (snd (put_attractions clk ident body s)) =
             (readAttractions s)[idx := next] \<and>
           (\<forall>k. lookup (attraction_json next) k =
              (if k \<in> set attraction_patch_keys \<and> lookup body k \<noteq> None
               then map_option stringify (lookup body k) else lookup (attraction_json (readAttractions s ! idx)) k))"
proof -
  from put_attractions_list [OF assms] obtain nxt where
    n: "fst (put_attractions clk ident body s) = OK nxt"
       "readAttractions (snd (put_attractions clk ident body s)) = (readAttractions s)[idx := nxt]"
    by blast
  from n(1) put_attractions_next [OF assms, of clk body]
  have nxt: "nxt = \<lparr>attr_id = attr_id (readAttractions s ! idx),
               attr_name = defaulted (map_option stringify (lookup body ''name'')) (attr_name (readAttractions s ! idx)),
               attr_lng = (case lookup body ''lng'' of
                             None \<Rightarrow> attr_lng (readAttractions s ! idx) | Some v \<Rightarrow> Some (stringify v)),
               attr_lat = (case lookup body ''lat'' of
                             None \<Rightarrow> attr_lat (readAttractions s ! idx) | Some v \<Rightarrow> Some (stringify v)),
               attr_address =
                 defaulted (map_option stringify (lookup body ''address'')) (attr_address (readAttractions s ! idx)),
               attr_tags = defaulted (map_option stringify (lookup body ''tags'')) (attr_tags (readAttractions s ! idx)),
               attr_desc = defaulted (map_option stringify (lookup body ''desc'')) (attr_desc (readAttractions s ! idx))\<rparr>"
    by simp
  have "\<And>k. lookup (attraction_json nxt) k =
              (if k \<in> set attraction_patch_keys \<and> lookup body k \<noteq> None
               then map_option stringify (lookup body k) else lookup (attraction_json (readAttractions s ! idx)) k)"
    unfolding nxt lookup_attraction_json attraction_patch_keys_def
    by (simp add: Some_defaulted_stringify case_option_stringify)
  with n show ?thesis by blast
qed

lemma toString36_clock0: "toString36 (now_ms clock0) = ''loyw3v28''"
  by (simp add: clock0_def toString36.simps digit36_def)

lemma findIndex_pier: "findIndex (\<lambda>x. poi_id x = ''loyw3v28'') [pier_poi] = Some 0"
  by (simp add: pier_poi_def)

lemma readPois_store_of_pois: "readPois (store_of_pois list) = list"
  by (simp add: store_of_pois_def readPois_def)

text \<open>
  Claim C1, as it holds. An update of a point of interest, a route or an attraction whose
  identifier is found (at the first index \<open>idx\<close> that holds it) answers 200 with the
  merged document and stores the list with that document at \<open>idx\<close>, every other position
  unchanged. For every key that the handler copies (\<open>route_patch_keys\<close>,
  \<open>poi_patch_keys\<close>, \<open>attraction_patch_keys\<close>) and that the body has, the merged
  document has the value of the body as JSON writes it (\<open>stringify\<close>: a number beyond
  the range of a double, which the parser reads as an infinity, is written as null, also
  inside an array or an object); every other key, whether the body has it or not, keeps
  the stored value.
\<close>

theorem update_merges_copied_keys:
  "(findIndex (\<lambda>x. poi_id x = ident) (readPois s) = Some idx \<longrightarrow>
      (\<exists>next. fst (put_pois clk ident body s) = OK next \<and>
         readPois (snd (put_pois clk ident body s)) = (readPois s)[idx := next] \<and>
         (\<forall>k. lookup (poi_json next) k =
            (if k \<in> set poi_patch_keys \<and> lookup body k \<noteq> None
             then map_option stringify (lookup body k)
             else lookup (poi_json (readPois s ! idx)) k)))) \<and>
   (findIndex (\<lambda>x. route_id x = ident) (readRoutes s) = Some idx \<longrightarrow>
      (\<exists>next. fst (put_routes clk ident body s) = OK next \<and>
         readRoutes (snd (put_routes clk ident body s)) = (readRoutes s)[idx := next] \<and>
         (\<forall>k. lookup (route_json next) k =
            (if k \<in> set route_patch_keys \<and> lookup body k \<noteq> None
             then map_option stringify (lookup body k)
             else lookup (route_json (readRoutes s ! idx)) k)))) \<and>
   (findIndex (\<lambda>x. attr_id x = ident) (readAttractions s) = Some idx \<longrightarrow>
      (\<exists>next. fst (put_attractions clk ident body s) = OK next \<and>
         readAttractions (snd (put_attractions clk ident body s)) =
           (readAttractions s)[idx := next] \<and>
         (\<forall>k. lookup (attraction_json next) k =
            (if k \<in> set attraction_patch_keys \<and> lookup body k \<noteq> None
             then map_option stringify (lookup body k)
             else lookup (attraction_json (readAttractions s ! idx)) k))))"
  using put_pois_found [of ident s idx clk body] put_routes_found [of ident s idx clk body]
    put_attractions_found [of ident s idx clk body]
  by blast

theorem update_merges_copied_keys_witness:
  "\<exists>next. fst (put_pois clock0 ''loyw3v28'' [(''tags'', JArr [JStr ''park''])]
              (store_of_pois [pier_poi])) = OK next \<and>
     readPois (snd (put_pois clock0 ''loyw3v28'' [(''tags'', JArr [JStr ''park''])]
              (store_of_pois [pier_poi]))) = [next] \<and>
     lookup (poi_json next) ''tags'' = Some (JArr [JStr ''park'']) \<and>
     lookup (poi_json next) ''name'' = Some (JStr ''Pier'')"
proof -
  have h: "findIndex (\<lambda>x. poi_id x = ''loyw3v28'') (readPois (store_of_pois [pier_poi])) = Some 0"
    by (simp only: readPois_store_of_pois findIndex_pier)
  from update_merges_copied_keys
    [of "''loyw3v28''" "store_of_pois [pier_poi]" 0 clock0 "[(''tags'', JArr [JStr ''park''])]"] h
  obtain nxt where
    n: "fst (put_pois clock0 ''loyw3v28'' [(''tags'', JArr [JStr ''park''])]
              (store_of_pois [pier_poi])) = OK nxt"
       "readPois (snd (put_pois clock0 ''loyw3v28'' [(''tags'', JArr [JStr ''park''])]
              (store_of_pois [pier_poi]))) = (readPois (store_of_pois [pier_poi]))[0 := nxt]"
       "\<forall>k. lookup (poi_json nxt) k =
            (if k \<in> set poi_patch_keys \<and>
                lookup ([(''tags'', JArr [JStr ''park''])] :: body) k \<noteq> None
             then map_option stringify (lookup [(''tags'', JArr [JStr ''park''])] k)
             else lookup (poi_json (readPois (store_of_pois [pier_poi]) ! 0)) k)"
    by blast
  from n(3) [THEN spec, of "''tags''"]
  have "lookup (poi_json nxt) ''tags'' = Some (JArr [JStr ''park''])"
    by (simp add: poi_patch_keys_def lookup_def)
  moreover from n(3) [THEN spec, of "''name''"]
  have "lookup (poi_json nxt) ''name'' = Some (JStr ''Pier'')"
    by (simp add: poi_patch_keys_def lookup_def readPois_store_of_pois poi_json_def pier_poi_def)
  moreover from n(2) have "readPois (snd (put_pois clock0 ''loyw3v28'' [(''tags'', JArr [JStr ''park''])]
              (store_of_pois [pier_poi]))) = [nxt]"
    by (simp add: readPois_store_of_pois)
  ultimately show ?thesis using n(1) by blast
qed

text \<open>
  Claim C1 as it is written fails twice on the stored point of interest \<open>pier_poi\<close> and
  the body \<^verbatim>\<open>{"id": "other", "lng": 1e400}\<close>, which the parser reads as \<open>far_update\<close>.
  The body has the key \<open>id\<close>, which the handler does not copy: the answer keeps the
  stored \<^verbatim>\<open>"loyw3v28"\<close>. The body has the key \<open>lng\<close>, which the handler copies, with
  an infinite number: the answer and the stored document have null there.
\<close>

theorem update_ignores_other_keys_counterexample:
  "fst (put_pois clock0 ''loyw3v28'' far_update (store_of_pois [pier_poi])) =
     OK (pier_poi\<lparr>poi_lng := JNull\<rparr>) \<and>
   readPois (snd (put_pois clock0 ''loyw3v28'' far_update (store_of_pois [pier_poi]))) =
     [pier_poi\<lparr>poi_lng := JNull\<rparr>] \<and>
   lookup far_update ''id'' = Some (JStr ''other'') \<and>
   lookup (poi_json (pier_poi\<lparr>poi_lng := JNull\<rparr>)) ''id'' = Some (JStr ''loyw3v28'') \<and>
   lookup far_update ''lng'' = Some (JNum PlusInfinity) \<and>
   lookup (poi_json (pier_poi\<lparr>poi_lng := JNull\<rparr>)) ''lng'' = Some JNull"
proof -
  have a: "put_pois clock0 ''loyw3v28'' far_update (store_of_pois [pier_poi]) =
     (OK (pier_poi\<lparr>poi_lng := JNull\<rparr>),
      logOp clock0 ''poi_update'' (Some (JObj [(''id'', JStr ''loyw3v28'')]))
        (writePois ([pier_poi\<lparr>poi_lng := JNull\<rparr>]) (store_of_pois [pier_poi])))"
    unfolding put_pois_def Let_def readPois_store_of_pois findIndex_pier
    by (simp add: lookup_def far_update_def)
  have "lookup (poi_json (pier_poi\<lparr>poi_lng := JNull\<rparr>)) ''id'' = Some (JStr ''loyw3v28'')"
    "lookup (poi_json (pier_poi\<lparr>poi_lng := JNull\<rparr>)) ''lng'' = Some JNull"
    by (simp_all add: lookup_def poi_json_def pier_poi_def)
  moreover have "lookup far_update ''id'' = Some (JStr ''other'')"
    "lookup far_update ''lng'' = Some (JNum PlusInfinity)"
    by (simp_all add: lookup_def far_update_def)
  ultimately show ?thesis unfolding a by (simp add: read_logOp read_write_same)
qed

section \<open>The sorted list is a sorted arrangement of the list\<close>

lemma insert_by_mset: "insert_by cmp x ys = Some zs \<Longrightarrow> mset zs = add_mset x (mset ys)"
proof (induction ys arbitrary: zs)
  case Nil
  then show ?case by auto
next
  case (Cons y ys)
  from Cons.prems obtain c where c: "cmp x y = Some c"
    by (cases "cmp x y") simp_all
  show ?case
  proof (cases "c \<le> 0")
    case True
    with Cons.prems c show ?thesis by auto
  next
    case False
    with Cons.prems c obtain ws where ws: "insert_by cmp x ys = Some ws" "zs = y # ws"
      by (cases "insert_by cmp x ys") simp_all
    from Cons.IH [OF ws(1)] ws(2) show ?thesis by simp
  qed
qed

lemma insert_by_set: "insert_by cmp x ys = Some zs \<Longrightarrow> set zs = insert x (set ys)"
proof -
  assume "insert_by cmp x ys = Some zs"
  then have "set_mset (mset zs) = set_mset (add_mset x (mset ys))"
    by (simp add: insert_by_mset)
  then show ?thesis by simp
qed

lemma sort_by_mset: "sort_by cmp xs = Some ys \<Longrightarrow> mset ys = mset xs"
proof (induction xs arbitrary: ys)
  case Nil
  then show ?case by simp
next
  case (Cons x xs)
  from Cons.prems obtain ws where ws: "sort_by cmp xs = Some ws" "insert_by cmp x ws = Some ys"
    by (cases "sort_by cmp xs") simp_all
  from Cons.IH [OF ws(1)] insert_by_mset [OF ws(2)] show ?case by simp
qed

lemma sort_by_set: "sort_by cmp xs = Some ys \<Longrightarrow> set ys = set xs"
proof -
  assume "sort_by cmp xs = Some ys"
  then have "set_mset (mset ys) = set_mset (mset xs)"
    by (simp add: sort_by_mset)
  then show ?thesis by simp
qed

lemma consistent_on_defined:
  assumes "consistent_on A cmp" "a \<in> A" "b \<in> A"
  shows "\<exists>c. cmp a b = Some c"
proof -
  from assms(1) have "\<forall>a\<in>A. \<forall>b\<in>A. cmp a b \<noteq> None"
    unfolding consistent_on_def by (rule conjunct1)
  with assms(2,3) have "cmp a b \<noteq> None" by simp
  then show ?thesis by simp
qed

lemma consistent_on_total:
  assumes "consistent_on A cmp" "a \<in> A" "b \<in> A"
  shows "before cmp a b \<or> before cmp b a"
proof -
  from assms(1) have "\<forall>a\<in>A. \<forall>b\<in>A. before cmp a b \<or> before cmp b a"
    unfolding consistent_on_def by (rule conjunct1 [OF conjunct2])
  with assms(2,3) show ?thesis by simp
qed

lemma consistent_on_trans:
  assumes "consistent_on A cmp" "a \<in> A" "b \<in> A" "c \<in> A" "before cmp a b" "before cmp b c"
  shows "before cmp a c"
proof -
  from assms(1)
  have "\<forall>a\<in>A. \<forall>b\<in>A. \<forall>c\<in>A. before cmp a b \<and> before cmp b c \<longrightarrow> before cmp a c"
    unfolding consistent_on_def by (rule conjunct2 [OF conjunct2])
  then have "\<forall>b\<in>A. \<forall>c\<in>A. before cmp a b \<and> before cmp b c \<longrightarrow> before cmp a c"
    using assms(2) by (rule bspec)
  then have "\<forall>c\<in>A. before cmp a b \<and> before cmp b c \<longrightarrow> before cmp a c"
    using assms(3) by (rule bspec)
  then have "before cmp a b \<and> before cmp b c \<longrightarrow> before cmp a c"
    using assms(4) by (rule bspec)
  with assms(5,6) show ?thesis by simp
qed

lemma consistent_on_subset:
  assumes "consistent_on A cmp" "B \<subseteq> A"
  shows "consistent_on B cmp"
  unfolding consistent_on_def
proof (intro conjI ballI impI)
  fix a b assume "a \<in> B" "b \<in> B"
  with assms(2) have ab: "a \<in> A" "b \<in> A" by (simp_all add: subsetD)
  from consistent_on_defined [OF assms(1) ab] show "cmp a b \<noteq> None" by simp
  from consistent_on_total [OF assms(1) ab] show "before cmp a b \<or> before cmp b a" .
next
  fix a b c assume "a \<in> B" "b \<in> B" "c \<in> B" and h: "before cmp a b \<and> before cmp b c"
  with assms(2) have abc: "a \<in> A" "b \<in> A" "c \<in> A" by (simp_all add: subsetD)
  from consistent_on_trans [OF assms(1) abc] h show "before cmp a c" by simp
qed

lemma insert_by_sorted:
  assumes con: "consistent_on (insert x (set ys)) cmp"
    and sorted: "sorted_wrt (before cmp) ys"
  shows "\<exists>zs. insert_by cmp x ys = Some zs \<and> sorted_wrt (before cmp) zs"
  using assms
proof (induction ys)
  case Nil
  then show ?case by simp
next
  case (Cons y ys)
  from consistent_on_total [OF Cons.prems(1), of x y]
  have total: "before cmp x y \<or> before cmp y x" by simp
  from consistent_on_defined [OF Cons.prems(1), of x y]
  obtain c where c: "cmp x y = Some c" by auto
  show ?case
  proof (cases "c \<le> 0")
    case True
    then have xy: "before cmp x y" using c by (simp add: before_def)
    have "\<forall>z\<in>set ys. before cmp x z"
    proof
      fix z assume z: "z \<in> set ys"
      with Cons.prems(2) have "before cmp y z" by simp
      with consistent_on_trans [OF Cons.prems(1), of x y z] xy z show "before cmp x z"
        by simp
    qed
    with True c xy Cons.prems(2) show ?thesis by simp
  next
    case False
    then have "\<not> before cmp x y" using c by (simp add: before_def)
    with total have yx: "before cmp y x" by simp
    have "consistent_on (insert x (set ys)) cmp"
      by (rule consistent_on_subset [OF Cons.prems(1)]) auto
    moreover have "sorted_wrt (before cmp) ys" using Cons.prems(2) by simp
    ultimately obtain zs where
      zs: "insert_by cmp x ys = Some zs" "sorted_wrt (before cmp) zs"
      using Cons.IH by blast
    from insert_by_set [OF zs(1)] yx Cons.prems(2) have "\<forall>z\<in>set zs. before cmp y z" by simp
    with zs c False show ?thesis by simp
  qed
qed

lemma sort_by_sorted:
  assumes "consistent_on (set xs) cmp"
  shows "\<exists>ys. sort_by cmp xs = Some ys \<and> mset ys = mset xs \<and> sorted_wrt (before cmp) ys"
  using assms
proof (induction xs)
  case Nil
  then show ?case by simp
next
  case (Cons x xs)
  have "consistent_on (set xs) cmp"
    by (rule consistent_on_subset [OF Cons.prems]) auto
  with Cons.IH obtain ys where
    ys: "sort_by cmp xs = Some ys" "mset ys = mset xs" "sorted_wrt (before cmp) ys"
    by blast
  from sort_by_set [OF ys(1)] Cons.prems have "consistent_on (insert x (set ys)) cmp" by simp
  from insert_by_sorted [OF this ys(3)]
  obtain zs where zs: "insert_by cmp x ys = Some zs" "sorted_wrt (before cmp) zs"
    by blast
  from insert_by_mset [OF zs(1)] ys(2) have "mset zs = mset (x # xs)" by simp
  with ys(1) zs show ?case by simp
qed

section \<open>Creations\<close>

lemma typeof_number: "(typeof v = TNumber) = (\<exists>x. v = Some (JNum x))"
  by (cases v rule: typeof.cases) simp_all

lemma truthy_defined: "truthy v \<Longrightarrow> \<exists>n. v = Some n"
  by (cases v) simp_all

lemma post_pois_invalid:
  assumes "\<not> truthy (lookup body ''name'') \<or> typeof (lookup body ''lng'') \<noteq> TNumber \<or>
           typeof (lookup body ''lat'') \<noteq> TNumber"
  shows "post_pois clk lclk body s = (BadRequest ''Invalid payload'', s)"
  using assms by (simp add: post_pois_def Let_def)

lemma post_pois_valid:
  assumes "lookup body ''name'' = Some n" "truthy (Some n)"
    "lookup body ''lng'' = Some (JNum x)" "lookup body ''lat'' = Some (JNum y)"
  shows "fst (post_pois clk lclk body s) =
           Created \<lparr>poi_id = toString36 (now_ms clk), poi_name = stringify n,
             poi_lng = stringify (JNum x), poi_lat = stringify (JNum y),
             poi_address = stringify (defaulted (lookup body ''address'') (JStr [])),
             poi_tags = stringify (defaulted (lookup body ''tags'') (JArr []))\<rparr>"
    and "readPois (snd (post_pois clk lclk body s)) =
           readPois s @ [\<lparr>poi_id = toString36 (now_ms clk), poi_name = stringify n,
             poi_lng = stringify (JNum x), poi_lat = stringify (JNum y),
             poi_address = stringify (defaulted (lookup body ''address'') (JStr [])),
             poi_tags = stringify (defaulted (lookup body ''tags'') (JArr []))\<rparr>]"
  using assms by (simp_all add: post_pois_def Let_def read_logOp read_write_same)

lemma toString36_clock1: "toString36 (now_ms clock1) = ''loyw3v29''"
  by (simp add: clock1_def toString36.simps digit36_def)

lemma readPois_initial: "readPois initial_store = []"
  by (simp add: initial_store_def readPois_def)

lemma defaulted_case: "defaulted v d = (case v of None \<Rightarrow> d | Some x \<Rightarrow> x)"
  by (cases v) simp_all

text \<open>
  Claim C5, as it holds. The creation of a point of interest answers 400 (and leaves the
  store as it is) exactly when the name does not count as true (it is absent, \<^verbatim>\<open>null\<close>,
  \<^verbatim>\<open>false\<close>, \<^verbatim>\<open>0\<close> or the empty string) or the longitude or the latitude is not a
  number. Otherwise it answers 201 with a document that has the identifier made from the
  clock and the name, the longitude, the latitude, the address and the tags of the body as
  JSON writes them (\<open>stringify\<close>: a number beyond the range of a double, which the parser
  reads as an infinity, passes the test for a number and is written as null), with
  \<^verbatim>\<open>""\<close> and \<^verbatim>\<open>[]\<close> where the body has no address or no tags, and appends this
  document to the list.
\<close>

theorem post_pois_validation:
  "((fst (post_pois clk lclk body s) = BadRequest ''Invalid payload'') =
      (\<not> truthy (lookup body ''name'') \<or> typeof (lookup body ''lng'') \<noteq> TNumber \<or>
       typeof (lookup body ''lat'') \<noteq> TNumber)) \<and>
   (\<not> truthy (lookup body ''name'') \<or> typeof (lookup body ''lng'') \<noteq> TNumber \<or>
      typeof (lookup body ''lat'') \<noteq> TNumber \<longrightarrow>
      snd (post_pois clk lclk body s) = s) \<and>
   (truthy (lookup body ''name'') \<and> typeof (lookup body ''lng'') = TNumber \<and>
      typeof (lookup body ''lat'') = TNumber \<longrightarrow>
      (\<exists>n x y. lookup body ''name'' = Some n \<and> lookup body ''lng'' = Some (JNum x) \<and>
         lookup body ''lat'' = Some (JNum y) \<and>
         fst (post_pois clk lclk body s) =
           Created \<lparr>poi_id = toString36 (now_ms clk), poi_name = stringify n,
             poi_lng = stringify (JNum x), poi_lat = stringify (JNum y),
             poi_address =
               stringify (case lookup body ''address'' of None \<Rightarrow> JStr [] | Some v \<Rightarrow> v),
             poi_tags =
               stringify (case lookup body ''tags'' of None \<Rightarrow> JArr [] | Some v \<Rightarrow> v)\<rparr> \<and>
         readPois (snd (post_pois clk lclk body s)) =
           readPois s @ [\<lparr>poi_id = toString36 (now_ms clk), poi_name = stringify n,
             poi_lng = stringify (JNum x), poi_lat = stringify (JNum y),
             poi_address =
               stringify (case lookup body ''address'' of None \<Rightarrow> JStr [] | Some v \<Rightarrow> v),
             poi_tags =
               stringify (case lookup body ''tags'' of None \<Rightarrow> JArr [] | Some v \<Rightarrow> v)\<rparr>]))"
proof (cases "\<not> truthy (lookup body ''name'') \<or> typeof (lookup body ''lng'') \<noteq> TNumber \<or>
       typeof (lookup body ''lat'') \<noteq> TNumber")
  case True
  from post_pois_invalid [OF True, of clk lclk s] True show ?thesis by auto
next
  case False
  then obtain n x y where v: "lookup body ''name'' = Some n" "truthy (Some n)"
      "lookup body ''lng'' = Some (JNum x)" "lookup body ''lat'' = Some (JNum y)"
    using truthy_defined [of "lookup body ''name''"] by (auto simp: typeof_number)
  from post_pois_valid [OF v, of clk lclk s] v False show ?thesis
    by (simp add: defaulted_case)
qed

theorem post_pois_validation_witness:
  "fst (post_pois clock0 clock0 pier initial_store) = Created pier_poi \<and>
   readPois (snd (post_pois clock0 clock0 pier initial_store)) = [pier_poi]"
proof -
  have h: "truthy (lookup pier ''name'') \<and> typeof (lookup pier ''lng'') = TNumber \<and>
      typeof (lookup pier ''lat'') = TNumber"
    by (simp add: pier_def lookup_def)
  from post_pois_validation [of clock0 clock0 pier initial_store] h
  obtain n x y where v: "lookup pier ''name'' = Some n" "lookup pier ''lng'' = Some (JNum x)"
      "lookup pier ''lat'' = Some (JNum y)"
    and r: "fst (post_pois clock0 clock0 pier initial_store) =
           Created \<lparr>poi_id = toString36 (now_ms clock0), poi_name = stringify n,
             poi_lng = stringify (JNum x), poi_lat = stringify (JNum y),
             poi_address =
               stringify (case lookup pier ''address'' of None \<Rightarrow> JStr [] | Some v \<Rightarrow> v),
             poi_tags =
               stringify (case lookup pier ''tags'' of None \<Rightarrow> JArr [] | Some v \<Rightarrow> v)\<rparr>"
      "readPois (snd (post_pois clock0 clock0 pier initial_store)) =
           readPois initial_store @ [\<lparr>poi_id = toString36 (now_ms clock0),
             poi_name = stringify n, poi_lng = stringify (JNum x), poi_lat = stringify (JNum y),
             poi_address =
               stringify (case lookup pier ''address'' of None \<Rightarrow> JStr [] | Some v \<Rightarrow> v),
             poi_tags =
               stringify (case lookup pier ''tags'' of None \<Rightarrow> JArr [] | Some v \<Rightarrow> v)\<rparr>]"
    by blast
  from v have "n = JStr ''Pier''" "x = Finite 120.5" "y = Finite 30.25"
    by (simp_all add: pier_def lookup_def)
  with r show ?thesis
    by (simp add: pier_def lookup_def toString36_clock0 pier_poi_def readPois_initial)
qed

text \<open>
  Claim C5 as it is written fails twice on the body
  \<^verbatim>\<open>{"name": true, "lng": 1e400, "lat": 2}\<close>, which the parser reads as \<open>true_far\<close>. The
  name counts as true and is not a string, the longitude is the number infinity: the body
  is answered with 201 and a document whose name is \<^verbatim>\<open>true\<close> and whose longitude is
  null, and this document is stored.
\<close>

theorem post_pois_accepts_true_name_counterexample:
  "fst (post_pois clock0 clock0 true_far initial_store) =
     Created \<lparr>poi_id = ''loyw3v28'', poi_name = JBool True, poi_lng = JNull, poi_lat = JNum 2,
       poi_address = JStr [], poi_tags = JArr []\<rparr> \<and>
   readPois (snd (post_pois clock0 clock0 true_far initial_store)) =
     [\<lparr>poi_id = ''loyw3v28'', poi_name = JBool True, poi_lng = JNull, poi_lat = JNum 2,
       poi_address = JStr [], poi_tags = JArr []\<rparr>]"
  using post_pois_valid [of true_far "JBool True" PlusInfinity "Finite 2" clock0 clock0
      initial_store]
  by (simp add: true_far_def lookup_def toString36_clock0 readPois_initial)

section \<open>The snapshot update\<close>

lemma post_hydrophone_update_valid:
  assumes "lookup body ''longitude'' = Some (JNum lo)" "lookup body ''latitude'' = Some (JNum la)"
  shows "fst (post_hydrophone_update clk lclk body s) = Created (JObj [(''ok'', JBool True)])"
    and "readHydrophone (snd (post_hydrophone_update clk lclk body s)) =
      JObj [(''longitude'', stringify (JNum lo)),
            (''latitude'', stringify (JNum la)),
            (''heading'', stringify (numberOrNull (lookup body ''heading''))),
            (''temperature'', stringify (numberOrNull (lookup body ''temperature''))),
            (''humidity'', stringify (numberOrNull (lookup body ''humidity''))),
            (''pressure'', stringify (numberOrNull (lookup body ''pressure''))),
            (''salinity'', stringify (numberOrNull (lookup body ''salinity''))),
            (''shipDetected'', stringify (booleanOrTruth (lookup body ''shipDetected''))),
            (''shipType'', stringify (js_or (lookup body ''shipType'') (JStr []))),
            (''timestamp'', stringify (js_or (lookup body ''timestamp'') (JStr (now_iso clk))))]"
  using assms
  by (simp_all add: post_hydrophone_update_def Let_def read_logOp read_write_same
      del: js_or.simps)

lemma numberOrNull_case:
  "stringify (numberOrNull v) = (case v of Some (JNum x) \<Rightarrow> stringify (JNum x) | _ \<Rightarrow> JNull)"
  by (cases v rule: typeof.cases) (simp_all add: numberOrNull_def)

lemma booleanOrTruth_case:
  "stringify (booleanOrTruth v) =
     (case v of Some (JBool b) \<Rightarrow> JBool b | _ \<Rightarrow> JBool (truthy v))"
  by (cases v rule: typeof.cases) (simp_all add: booleanOrTruth_def)

lemma Some_js_or: "Some (js_or v d) = (if truthy v then v else Some d)"
  by (cases v) simp_all

lemma Some_stringify_js_or:
  "Some (stringify (js_or v d)) =
     (if truthy v then map_option stringify v else Some (stringify d))"
  by (cases v) simp_all

text \<open>
  Claim C6, as it holds. A snapshot update whose longitude and latitude are numbers
  answers 201 and stores a snapshot with exactly the ten properties of the handler, in
  which every value is written as JSON writes it
  (\<open>stringify\<close>: a number beyond the range of a double, which the parser reads as an
  infinity, passes the test for a number and is written as null). Longitude and latitude
  are the numbers of the body; heading, temperature, humidity, pressure and salinity are
  the number of the body, and \<^verbatim>\<open>null\<close> when the body has no number there;
  \<open>shipDetected\<close> is the boolean of the body, and otherwise the truth value of what the
  body has (false when it has nothing); \<open>shipType\<close> is the value of the body when it
  counts as true, of whatever type, and otherwise the empty string; \<open>timestamp\<close> is the
  value of the body when it counts as true, of whatever type, and otherwise the current
  time.
\<close>

theorem hydrophone_update_coerces:
  "lookup body ''longitude'' = Some (JNum lo) \<and> lookup body ''latitude'' = Some (JNum la) \<longrightarrow>
     fst (post_hydrophone_update clk lclk body s) = Created (JObj [(''ok'', JBool True)]) \<and>
     (\<exists>snap. readHydrophone (snd (post_hydrophone_update clk lclk body s)) = JObj snap \<and>
        map fst snap =
          [''longitude'', ''latitude'', ''heading'', ''temperature'', ''humidity'', ''pressure'',
           ''salinity'', ''shipDetected'', ''shipType'', ''timestamp''] \<and>
        lookup snap ''longitude'' = Some (stringify (JNum lo)) \<and>
        lookup snap ''latitude'' = Some (stringify (JNum la)) \<and>
        (\<forall>k\<in>set [''heading'', ''temperature'', ''humidity'', ''pressure'', ''salinity''].
           lookup snap k =
             Some (case lookup body k of Some (JNum x) \<Rightarrow> stringify (JNum x) | _ \<Rightarrow> JNull)) \<and>
        lookup snap ''shipDetected'' =
          Some (case lookup body ''shipDetected'' of
                  Some (JBool b) \<Rightarrow> JBool b
                | _ \<Rightarrow> JBool (truthy (lookup body ''shipDetected''))) \<and>
        lookup snap ''shipType'' =
          (if truthy (lookup body ''shipType'')
           then map_option stringify (lookup body ''shipType'') else Some (JStr [])) \<and>
        lookup snap ''timestamp'' =
          (if truthy (lookup body ''timestamp'')
           then map_option stringify (lookup body ''timestamp'')
           else Some (JStr (now_iso clk))))"
proof (intro impI, elim conjE)
  assume v: "lookup body ''longitude'' = Some (JNum lo)" "lookup body ''latitude'' = Some (JNum la)"
  let ?snap = "[(''longitude'', stringify (JNum lo)),
            (''latitude'', stringify (JNum la)),
            (''heading'', stringify (numberOrNull (lookup body ''heading''))),
            (''temperature'', stringify (numberOrNull (lookup body ''temperature''))),
            (''humidity'', stringify (numberOrNull (lookup body ''humidity''))),
            (''pressure'', stringify (numberOrNull (lookup body ''pressure''))),
            (''salinity'', stringify (numberOrNull (lookup body ''salinity''))),
            (''shipDetected'', stringify (booleanOrTruth (lookup body ''shipDetected''))),
            (''shipType'', stringify (js_or (lookup body ''shipType'') (JStr []))),
            (''timestamp'', stringify (js_or (lookup body ''timestamp'') (JStr (now_iso clk))))]"
  have 1: "lookup ?snap ''longitude'' = Some (stringify (JNum lo))"
    "lookup ?snap ''latitude'' = Some (stringify (JNum la))"
    by (simp_all add: lookup_def del: stringify.simps js_or.simps)
  have 2: "\<forall>k\<in>set [''heading'', ''temperature'', ''humidity'', ''pressure'', ''salinity''].
           lookup ?snap k =
             Some (case lookup body k of Some (JNum x) \<Rightarrow> stringify (JNum x) | _ \<Rightarrow> JNull)"
    unfolding numberOrNull_case [symmetric]
    by (simp add: lookup_def del: stringify.simps js_or.simps)
  have 3: "lookup ?snap ''shipDetected'' =
          Some (case lookup body ''shipDetected'' of
                  Some (JBool b) \<Rightarrow> JBool b
                | _ \<Rightarrow> JBool (truthy (lookup body ''shipDetected'')))"
    unfolding booleanOrTruth_case [symmetric]
    by (simp add: lookup_def del: stringify.simps js_or.simps)
  have 4: "lookup ?snap ''shipType'' =
          (if truthy (lookup body ''shipType'')
           then map_option stringify (lookup body ''shipType'') else Some (JStr []))"
    using Some_stringify_js_or [of "lookup body ''shipType''" "JStr []"]
    by (simp add: lookup_def del: js_or.simps)
  have 5: "lookup ?snap ''timestamp'' =
          (if truthy (lookup body ''timestamp'')
           then map_option stringify (lookup body ''timestamp'')
           else Some (JStr (now_iso clk)))"
    using Some_stringify_js_or [of "lookup body ''timestamp''" "JStr (now_iso clk)"]
    by (simp add: lookup_def del: js_or.simps)
  have 6: "map fst ?snap =
          [''longitude'', ''latitude'', ''heading'', ''temperature'', ''humidity'', ''pressure'',
           ''salinity'', ''shipDetected'', ''shipType'', ''timestamp'']"
    by simp
  show "fst (post_hydrophone_update clk lclk body s) = Created (JObj [(''ok'', JBool True)]) \<and>
     (\<exists>snap. readHydrophone (snd (post_hydrophone_update clk lclk body s)) = JObj snap \<and>
        map fst snap =
          [''longitude'', ''latitude'', ''heading'', ''temperature'', ''humidity'', ''pressure'',
           ''salinity'', ''shipDetected'', ''shipType'', ''timestamp''] \<and>
        lookup snap ''longitude'' = Some (stringify (JNum lo)) \<and>
        lookup snap ''latitude'' = Some (stringify (JNum la)) \<and>
        (\<forall>k\<in>set [''heading'', ''temperature'', ''humidity'', ''pressure'', ''salinity''].
           lookup snap k =
             Some (case lookup body k of Some (JNum x) \<Rightarrow> stringify (JNum x) | _ \<Rightarrow> JNull)) \<and>
        lookup snap ''shipDetected'' =
          Some (case lookup body ''shipDetected'' of
                  Some (JBool b) \<Rightarrow> JBool b
                | _ \<Rightarrow> JBool (truthy (lookup body ''shipDetected''))) \<and>
        lookup snap ''shipType'' =
          (if truthy (lookup body ''shipType'')
           then map_option stringify (lookup body ''shipType'') else Some (JStr [])) \<and>
        lookup snap ''timestamp'' =
          (if truthy (lookup body ''timestamp'')
           then map_option stringify (lookup body ''timestamp'')
           else Some (JStr (now_iso clk))))"
  proof (intro conjI exI)
    show "fst (post_hydrophone_update clk lclk body s) = Created (JObj [(''ok'', JBool True)])"
      by (rule post_hydrophone_update_valid(1) [OF v])
    show "readHydrophone (snd (post_hydrophone_update clk lclk body s)) = JObj ?snap"
      by (rule post_hydrophone_update_valid(2) [OF v])
  qed (rule 6 1 2 3 4 5)+
qed

theorem hydrophone_update_coerces_witness:
  "fst (post_hydrophone_update clock0 clock0 plain_update initial_store) =
     Created (JObj [(''ok'', JBool True)]) \<and>
   (\<exists>snap. readHydrophone (snd (post_hydrophone_update clock0 clock0 plain_update initial_store)) =
        JObj snap \<and>
      lookup snap ''longitude'' = Some (JNum 120.5) \<and>
      lookup snap ''heading'' = Some (JNum 90) \<and>
      lookup snap ''salinity'' = Some JNull \<and>
      lookup snap ''shipDetected'' = Some (JBool True) \<and>
      lookup snap ''shipType'' = Some (JStr ''cargo'') \<and>
      lookup snap ''timestamp'' = Some (JStr ''2023-11-14T22:13:20.000Z''))"
proof -
  have h: "lookup plain_update ''longitude'' = Some (JNum (Finite 120.5)) \<and>
      lookup plain_update ''latitude'' = Some (JNum (Finite 30.25))"
    by (simp add: plain_update_def lookup_def)
  from hydrophone_update_coerces
    [of plain_update "Finite 120.5" "Finite 30.25" clock0 clock0 initial_store] h
  obtain snap where s:
     "fst (post_hydrophone_update clock0 clock0 plain_update initial_store) =
       Created (JObj [(''ok'', JBool True)])"
     "readHydrophone (snd (post_hydrophone_update clock0 clock0 plain_update initial_store)) =
       JObj snap"
     "lookup snap ''longitude'' = Some (stringify (JNum (Finite 120.5)))"
     "\<forall>k\<in>set [''heading'', ''temperature'', ''humidity'', ''pressure'', ''salinity''].
           lookup snap k =
             Some (case lookup plain_update k of
                     Some (JNum x) \<Rightarrow> stringify (JNum x) | _ \<Rightarrow> JNull)"
     "lookup snap ''shipDetected'' =
          Some (case lookup plain_update ''shipDetected'' of
                  Some (JBool b) \<Rightarrow> JBool b
                | _ \<Rightarrow> JBool (truthy (lookup plain_update ''shipDetected'')))"
     "lookup snap ''shipType'' =
          (if truthy (lookup plain_update ''shipType'')
           then map_option stringify (lookup plain_update ''shipType'') else Some (JStr []))"
     "lookup snap ''timestamp'' =
          (if truthy (lookup plain_update ''timestamp'')
           then map_option stringify (lookup plain_update ''timestamp'')
           else Some (JStr (now_iso clock0)))"
    by blast
  from s(4) have "lookup snap ''heading'' = Some (JNum 90)" "lookup snap ''salinity'' = Some JNull"
    by (simp_all add: plain_update_def lookup_def)
  moreover from s(3) have "lookup snap ''longitude'' = Some (JNum 120.5)" by simp
  moreover from s(5) have "lookup snap ''shipDetected'' = Some (JBool True)"
    by (simp add: plain_update_def lookup_def)
  moreover from s(6) have "lookup snap ''shipType'' = Some (JStr ''cargo'')"
    by (simp add: plain_update_def lookup_def)
  moreover from s(7) have "lookup snap ''timestamp'' = Some (JStr ''2023-11-14T22:13:20.000Z'')"
    by (simp add: plain_update_def lookup_def clock0_def)
  ultimately show ?thesis using s(1,2) by blast
qed

text \<open>
  Claim C6 as it is written fails on the body \<open>sample_update\<close>, which is how the parser
  reads \<^verbatim>\<open>{"longitude": 120.5, "latitude": 30.25, "heading": 1e400, "shipDetected": "yes",
  "shipType": 7, "timestamp": true}\<close>. The heading is a number, the infinity, and is
  stored as null, not as the value given. The values of the wrong type that count as true
  are not replaced by the defaults of the claim: the string \<^verbatim>\<open>"yes"\<close> for
  \<open>shipDetected\<close> is stored as \<^verbatim>\<open>true\<close> (not \<^verbatim>\<open>false\<close>), the number 7 for
  \<open>shipType\<close> and the boolean for \<open>timestamp\<close> are stored as they are (not as the
  empty string and the current time).
\<close>

theorem hydrophone_update_keeps_wrong_types_counterexample:
  "lookup sample_update ''heading'' = Some (JNum PlusInfinity) \<and>
   readHydrophone (snd (post_hydrophone_update clock0 clock0 sample_update initial_store)) =
     JObj [(''longitude'', JNum 120.5), (''latitude'', JNum 30.25), (''heading'', JNull),
           (''temperature'', JNull), (''humidity'', JNull), (''pressure'', JNull),
           (''salinity'', JNull), (''shipDetected'', JBool True), (''shipType'', JNum 7),
           (''timestamp'', JBool True)]"
  using post_hydrophone_update_valid(2)
    [of sample_update "Finite 120.5" "Finite 30.25" clock0 clock0 initial_store]
  by (simp add: sample_update_def lookup_def numberOrNull_def booleanOrTruth_def
      zero_number_def)

section \<open>Listings\<close>

lemma before_routes_compare:
  "before routes_compare a b = (route_createdAt b \<le> route_createdAt a)"
  by (auto simp add: before_def routes_compare_def)

lemma before_history_compare:
  "before history_compare a b = (hist_createdAt b \<le> hist_createdAt a)"
  by (auto simp add: before_def history_compare_def)

lemma consistent_routes_compare: "consistent_on A routes_compare"
  unfolding consistent_on_def before_routes_compare
  by (auto simp: routes_compare_def)

lemma consistent_history_compare: "consistent_on A history_compare"
  unfolding consistent_on_def before_history_compare
  by (auto simp: history_compare_def)

lemma before_pois_compare:
  "before (pois_compare lc) a b = (\<exists>n. poi_name a = JStr n \<and> lc n (poi_name b) \<le> 0)"
  by (cases "poi_name a") (simp_all add: before_def pois_compare_def)

lemma before_attractions_compare:
  "before (attractions_compare lc) a b = (\<exists>n. attr_name a = JStr n \<and> lc n (attr_name b) \<le> 0)"
  by (cases "attr_name a") (simp_all add: before_def attractions_compare_def)

lemma collation_total:
  assumes "collation_order lc"
  shows "lc a (JStr b) \<le> 0 \<or> lc b (JStr a) \<le> 0"
proof -
  from assms have "\<forall>a b. lc a (JStr b) \<le> 0 \<or> lc b (JStr a) \<le> 0"
    unfolding collation_order_def by (rule conjunct1)
  then show ?thesis by (elim allE)
qed

lemma collation_trans:
  assumes "collation_order lc" "lc a (JStr b) \<le> 0" "lc b (JStr c) \<le> 0"
  shows "lc a (JStr c) \<le> 0"
proof -
  from assms(1)
  have "\<forall>a b c. lc a (JStr b) \<le> 0 \<and> lc b (JStr c) \<le> 0 \<longrightarrow> lc a (JStr c) \<le> 0"
    unfolding collation_order_def by (rule conjunct2)
  then have "lc a (JStr b) \<le> 0 \<and> lc b (JStr c) \<le> 0 \<longrightarrow> lc a (JStr c) \<le> 0"
    by (elim allE)
  with assms(2,3) show ?thesis by simp
qed

lemma consistent_pois_compare:
  assumes co: "collation_order lc"
    and names: "\<forall>p\<in>A. \<exists>n. poi_name p = JStr n"
  shows "consistent_on A (pois_compare lc)"
  unfolding consistent_on_def
proof (intro conjI ballI impI)
  fix a b assume "a \<in> A" "b \<in> A"
  with names obtain n m where nm: "poi_name a = JStr n" "poi_name b = JStr m" by blast
  then show "pois_compare lc a b \<noteq> None" by (simp add: pois_compare_def)
  from collation_total [OF co, of n m] nm
  show "before (pois_compare lc) a b \<or> before (pois_compare lc) b a"
    by (simp add: before_pois_compare)
next
  fix a b c assume "a \<in> A" "b \<in> A" "c \<in> A"
    and h: "before (pois_compare lc) a b \<and> before (pois_compare lc) b c"
  with names obtain n m k where
    nm: "poi_name a = JStr n" "poi_name b = JStr m" "poi_name c = JStr k" by blast
  from h nm collation_trans [OF co, of n m k] show "before (pois_compare lc) a c"
    by (simp add: before_pois_compare)
qed

lemma consistent_attractions_compare:
  assumes co: "collation_order lc"
    and names: "\<forall>p\<in>A. \<exists>n. attr_name p = JStr n"
  shows "consistent_on A (attractions_compare lc)"
  unfolding consistent_on_def
proof (intro conjI ballI impI)
  fix a b assume "a \<in> A" "b \<in> A"
  with names obtain n m where nm: "attr_name a = JStr n" "attr_name b = JStr m" by blast
  then show "attractions_compare lc a b \<noteq> None" by (simp add: attractions_compare_def)
  from collation_total [OF co, of n m] nm
  show "before (attractions_compare lc) a b \<or> before (attractions_compare lc) b a"
    by (simp add: before_attractions_compare)
next
  fix a b c assume "a \<in> A" "b \<in> A" "c \<in> A"
    and h: "before (attractions_compare lc) a b \<and> before (attractions_compare lc) b c"
  with names obtain n m k where
    nm: "attr_name a = JStr n" "attr_name b = JStr m" "attr_name c = JStr k" by blast
  from h nm collation_trans [OF co, of n m k] show "before (attractions_compare lc) a c"
    by (simp add: before_attractions_compare)
qed

lemma get_routes_sorted:
  "\<exists>list. get_routes s = (OK list, s) \<and> mset list = mset (readRoutes s) \<and>
     sorted_wrt (\<lambda>a b. route_createdAt b \<le> route_createdAt a) list"
proof -
  from sort_by_sorted [OF consistent_routes_compare, of "readRoutes s"]
  obtain ys where ys: "sort_by routes_compare (readRoutes s) = Some ys"
    "mset ys = mset (readRoutes s)" "sorted_wrt (before routes_compare) ys" by blast
  from ys(3) have "sorted_wrt (\<lambda>a b. route_createdAt b \<le> route_createdAt a) ys"
    by (simp add: before_routes_compare [abs_def])
  with ys(1,2) show ?thesis by (simp add: get_routes_def)
qed

lemma get_hydro_history_sorted:
  "\<exists>list. get_hydro_history s = (OK list, s) \<and> mset list = mset (readHydroHistory s) \<and>
     sorted_wrt (\<lambda>a b. hist_createdAt b \<le> hist_createdAt a) list"
proof -
  from sort_by_sorted [OF consistent_history_compare, of "readHydroHistory s"]
  obtain ys where ys: "sort_by history_compare (readHydroHistory s) = Some ys"
    "mset ys = mset (readHydroHistory s)" "sorted_wrt (before history_compare) ys" by blast
  from ys(3) have "sorted_wrt (\<lambda>a b. hist_createdAt b \<le> hist_createdAt a) ys"
    by (simp add: before_history_compare [abs_def])
  with ys(1,2) show ?thesis by (simp add: get_hydro_history_def)
qed

lemma get_pois_sorted:
  assumes "collation_order lc" "\<forall>p\<in>set (readPois s). \<exists>n. poi_name p = JStr n"
  shows "\<exists>list. get_pois lc s = (OK list, s) \<and> mset list = mset (readPois s) \<and>
     sorted_wrt (\<lambda>a b. \<exists>n. poi_name a = JStr n \<and> lc n (poi_name b) \<le> 0) list"
proof -
  from sort_by_sorted [OF consistent_pois_compare [OF assms]]
  obtain ys where ys: "sort_by (pois_compare lc) (readPois s) = Some ys"
    "mset ys = mset (readPois s)" "sorted_wrt (before (pois_compare lc)) ys" by blast
  from ys(3) have "sorted_wrt (\<lambda>a b. \<exists>n. poi_name a = JStr n \<and> lc n (poi_name b) \<le> 0) ys"
    by (simp add: before_pois_compare [abs_def])
  with ys(1,2) show ?thesis by (simp add: get_pois_def)
qed

lemma get_attractions_sorted:
  assumes "collation_order lc" "\<forall>p\<in>set (readAttractions s). \<exists>n. attr_name p = JStr n"
  shows "\<exists>list. get_attractions lc s = (OK list, s) \<and> mset list = mset (readAttractions s) \<and>
     sorted_wrt (\<lambda>a b. \<exists>n. attr_name a = JStr n \<and> lc n (attr_name b) \<le> 0) list"
proof -
  from sort_by_sorted [OF consistent_attractions_compare [OF assms]]
  obtain ys where ys: "sort_by (attractions_compare lc) (readAttractions s) = Some ys"
    "mset ys = mset (readAttractions s)" "sorted_wrt (before (attractions_compare lc)) ys" by blast
  from ys(3) have "sorted_wrt (\<lambda>a b. \<exists>n. attr_name a = JStr n \<and> lc n (attr_name b) \<le> 0) ys"
    by (simp add: before_attractions_compare [abs_def])
  with ys(1,2) show ?thesis by (simp add: get_attractions_def)
qed

lemma post_five:
  "readPois (snd (post_pois clock0 clock0 five s)) = readPois s @ [five_poi]"
  using post_pois_valid(2) [of five "JNum (Finite 5)" "Finite 1" "Finite 2" clock0 clock0 s]
  by (simp add: five_def lookup_def toString36_clock0 five_poi_def zero_number_def)

lemma post_six:
  "readPois (snd (post_pois clock1 clock1 six s)) = readPois s @ [six_poi]"
  using post_pois_valid(2) [of six "JNum (Finite 6)" "Finite 1" "Finite 2" clock1 clock1 s]
  by (simp add: six_def lookup_def toString36_clock1 six_poi_def zero_number_def)

lemma post_five_created:
  "fst (post_pois clock0 clock0 five s) = Created five_poi"
  using post_pois_valid(1) [of five "JNum (Finite 5)" "Finite 1" "Finite 2" clock0 clock0 s]
  by (simp add: five_def lookup_def toString36_clock0 five_poi_def zero_number_def)

lemma post_six_created:
  "fst (post_pois clock1 clock1 six s) = Created six_poi"
  using post_pois_valid(1) [of six "JNum (Finite 6)" "Finite 1" "Finite 2" clock1 clock1 s]
  by (simp add: six_def lookup_def toString36_clock1 six_poi_def zero_number_def)

lemma run_five_six:
  "readPois (run [PostPois clock0 clock0 five, PostPois clock1 clock1 six] initial_store) =
     [five_poi, six_poi]"
  by (simp add: post_five post_six readPois_initial)

lemma sort_five_six: "sort_by (pois_compare lc) [five_poi, six_poi] = None"
  by (simp add: pois_compare_def five_poi_def six_poi_def)

text \<open>
  Claim C10 does not hold of the code: the listing of the points of interest throws on
  stored documents that the creation accepts. The creation takes every name that counts
  as true, so the bodies \<^verbatim>\<open>{"name": 5, "lng": 1, "lat": 2}\<close> and
  \<^verbatim>\<open>{"name": 6, "lng": 1, "lat": 2}\<close> are both answered with 201 and stored. The
  comparison of the listing calls \<open>localeCompare\<close> on the stored name, which only a
  string has: on the store with these two documents the listing ends with a
  \<open>TypeError\<close> instead of the two documents in order, whatever the collation is. The
  listings of the routes and of the history compare \<open>createdAt\<close> with \<open><\<close> and
  cannot throw (\<open>get_routes_sorted\<close>, \<open>get_hydro_history_sorted\<close>).
\<close>

theorem list_throws_on_number_names:
  "fst (post_pois clock0 clock0 five initial_store) = Created five_poi \<and>
   fst (post_pois clock1 clock1 six (snd (post_pois clock0 clock0 five initial_store))) =
     Created six_poi \<and>
   readPois (run [PostPois clock0 clock0 five, PostPois clock1 clock1 six] initial_store) =
     [five_poi, six_poi] \<and>
   fst (get_pois localeCompare
          (run [PostPois clock0 clock0 five, PostPois clock1 clock1 six] initial_store)) =
     TypeError"
  unfolding get_pois_def run_five_six sort_five_six
  by (simp add: post_five_created post_six_created)

theorem list_throws_on_number_names_witness:
  "readPois (run [PostPois clock0 clock0 five, PostPois clock1 clock1 six] initial_store) =
     [five_poi, six_poi] \<and>
   fst (get_pois code_unit_compare
          (run [PostPois clock0 clock0 five, PostPois clock1 clock1 six] initial_store)) =
     TypeError"
  using list_throws_on_number_names [of code_unit_compare] by simp

section \<open>Handlers leave the other collections alone\<close>

lemma routes_handlers_frame:
  "readPois (snd (post_routes clk lclk body s)) = readPois s"
  "readAttractions (snd (post_routes clk lclk body s)) = readAttractions s"
  "readHydroHistory (snd (post_routes clk lclk body s)) = readHydroHistory s"
  "readPois (snd (put_routes clk ident body s)) = readPois s"
  "readAttractions (snd (put_routes clk ident body s)) = readAttractions s"
  "readHydroHistory (snd (put_routes clk ident body s)) = readHydroHistory s"
  "readPois (snd (delete_routes clk ident s)) = readPois s"
  "readAttractions (snd (delete_routes clk ident s)) = readAttractions s"
  "readHydroHistory (snd (delete_routes clk ident s)) = readHydroHistory s"
  by (simp_all add: post_routes_def put_routes_def delete_routes_def Let_def read_logOp
      read_write_other split: option.split)

lemma pois_handlers_frame:
  "readRoutes (snd (post_pois clk lclk body s)) = readRoutes s"
  "readAttractions (snd (post_pois clk lclk body s)) = readAttractions s"
  "readHydroHistory (snd (post_pois clk lclk body s)) = readHydroHistory s"
  "readRoutes (snd (put_pois clk ident body s)) = readRoutes s"
  "readAttractions (snd (put_pois clk ident body s)) = readAttractions s"
  "readHydroHistory (snd (put_pois clk ident body s)) = readHydroHistory s"
  "readRoutes (snd (delete_pois clk ident s)) = readRoutes s"
  "readAttractions (snd (delete_pois clk ident s)) = readAttractions s"
  "readHydroHistory (snd (delete_pois clk ident s)) = readHydroHistory s"
  by (simp_all add: post_pois_def put_pois_def delete_pois_def Let_def read_logOp
      read_write_other split: option.split)

lemma attractions_handlers_frame:
  "readRoutes (snd (post_attractions clk lclk body s)) = readRoutes s"
  "readPois (snd (post_attractions clk lclk body s)) = readPois s"
  "readHydroHistory (snd (post_attractions clk lclk body s)) = readHydroHistory s"
  "readRoutes (snd (put_attractions clk ident body s)) = readRoutes s"
  "readPois (snd (put_attractions clk ident body s)) = readPois s"
  "readHydroHistory (snd (put_attractions clk ident body s)) = readHydroHistory s"
  "readRoutes (snd (delete_attractions clk ident s)) = readRoutes s"
  "readPois (snd (delete_attractions clk ident s)) = readPois s"
  "readHydroHistory (snd (delete_attractions clk ident s)) = readHydroHistory s"
  by (simp_all add: post_attractions_def put_attractions_def delete_attractions_def Let_def
      read_logOp read_write_other split: option.split)

lemma hydro_handlers_frame:
  "readRoutes (snd (post_hydrophone_update clk lclk body s)) = readRoutes s"
  "readPois (snd (post_hydrophone_update clk lclk body s)) = readPois s"
  "readAttractions (snd (post_hydrophone_update clk lclk body s)) = readAttractions s"
  "readHydroHistory (snd (post_hydrophone_update clk lclk body s)) = readHydroHistory s"
  "readRoutes (snd (post_hydro_history clk rnd created lclk body s)) = readRoutes s"
  "readPois (snd (post_hydro_history clk rnd created lclk body s)) = readPois s"
  "readAttractions (snd (post_hydro_history clk rnd created lclk body s)) = readAttractions s"
  "readRoutes (snd (delete_hydro_history clk ident s)) = readRoutes s"
  "readPois (snd (delete_hydro_history clk ident s)) = readPois s"
  "readAttractions (snd (delete_hydro_history clk ident s)) = readAttractions s"
  "readRoutes (snd (post_hydro_history_send clk lclk ident s)) = readRoutes s"
  "readPois (snd (post_hydro_history_send clk lclk ident s)) = readPois s"
  "readAttractions (snd (post_hydro_history_send clk lclk ident s)) = readAttractions s"
  by (simp_all add: post_hydrophone_update_def post_hydro_history_def delete_hydro_history_def
      post_hydro_history_send_def Let_def read_logOp read_write_other
      split: option.split jsvalue.split)

section \<open>Deletions\<close>

lemma filter_keeps_length: "(\<forall>x\<in>set xs. f x \<noteq> i) \<Longrightarrow> filter (\<lambda>x. f x \<noteq> i) xs = xs"
  by (simp add: filter_id_conv)

lemma filter_drops_length:
  assumes "\<exists>x\<in>set xs. f x = i"
  shows "length (filter (\<lambda>x. f x \<noteq> i) xs) \<noteq> length xs"
proof -
  from assms obtain x where "x \<in> set xs" "f x = i" by auto
  with length_filter_less [of x xs "\<lambda>x. f x \<noteq> i"] show ?thesis by simp
qed

lemma filter_drops_one:
  assumes "distinct (map f xs)" "\<exists>x\<in>set xs. f x = i"
  shows "Suc (length (filter (\<lambda>x. f x \<noteq> i) xs)) = length xs"
  using assms
proof (induction xs)
  case Nil
  then show ?case by simp
next
  case (Cons a xs)
  show ?case
  proof (cases "f a = i")
    case True
    with Cons.prems(1) have "\<forall>y\<in>set xs. f y \<noteq> i" by (auto simp: image_iff)
    then have "filter (\<lambda>x. f x \<noteq> i) xs = xs" by (rule filter_keeps_length)
    with True show ?thesis by simp
  next
    case False
    with Cons.prems have "distinct (map f xs)" "\<exists>x\<in>set xs. f x = i" by auto
    from Cons.IH [OF this] False show ?thesis by simp
  qed
qed

lemma get_pois_set: "fst (get_pois lc s) = OK list \<Longrightarrow> set list = set (readPois s)"
  by (auto simp: get_pois_def split: option.splits dest: sort_by_set)

lemma get_routes_set: "fst (get_routes s) = OK list \<Longrightarrow> set list = set (readRoutes s)"
  by (auto simp: get_routes_def split: option.splits dest: sort_by_set)

lemma get_attractions_set:
  "fst (get_attractions lc s) = OK list \<Longrightarrow> set list = set (readAttractions s)"
  by (auto simp: get_attractions_def split: option.splits dest: sort_by_set)

lemma get_hydro_history_set:
  "fst (get_hydro_history s) = OK list \<Longrightarrow> set list = set (readHydroHistory s)"
  by (auto simp: get_hydro_history_def split: option.splits dest: sort_by_set)

lemma delete_pois_absent:
  "\<forall>x\<in>set (readPois s). poi_id x \<noteq> ident \<Longrightarrow>
     delete_pois clk ident s = (NotFound ''Not found'', s)"
  by (simp add: delete_pois_def Let_def filter_keeps_length)

lemma delete_pois_present:
  assumes "\<exists>x\<in>set (readPois s). poi_id x = ident"
  shows "fst (delete_pois clk ident s) = NoContent"
    and "readPois (snd (delete_pois clk ident s)) = filter (\<lambda>x. poi_id x \<noteq> ident) (readPois s)"
  using filter_drops_length [OF assms]
  by (simp_all add: delete_pois_def Let_def read_logOp read_write_same)

lemma delete_routes_absent:
  "\<forall>x\<in>set (readRoutes s). route_id x \<noteq> ident \<Longrightarrow>
     delete_routes clk ident s = (NotFound ''Not found'', s)"
  by (simp add: delete_routes_def Let_def filter_keeps_length)

lemma delete_routes_present:
  assumes "\<exists>x\<in>set (readRoutes s). route_id x = ident"
  shows "fst (delete_routes clk ident s) = NoContent"
    and "readRoutes (snd (delete_routes clk ident s)) =
           filter (\<lambda>x. route_id x \<noteq> ident) (readRoutes s)"
  using filter_drops_length [OF assms]
  by (simp_all add: delete_routes_def Let_def read_logOp read_write_same)

lemma delete_attractions_absent:
  "\<forall>x\<in>set (readAttractions s). attr_id x \<noteq> ident \<Longrightarrow>
     delete_attractions clk ident s = (NotFound ''Not found'', s)"
  by (simp add: delete_attractions_def Let_def filter_keeps_length)

lemma delete_attractions_present:
  assumes "\<exists>x\<in>set (readAttractions s). attr_id x = ident"
  shows "fst (delete_attractions clk ident s) = NoContent"
    and "readAttractions (snd (delete_attractions clk ident s)) =
           filter (\<lambda>x. attr_id x \<noteq> ident) (readAttractions s)"
  using filter_drops_length [OF assms]
  by (simp_all add: delete_attractions_def Let_def read_logOp read_write_same)

lemma delete_hydro_history_absent:
  "\<forall>x\<in>set (readHydroHistory s). hist_id x \<noteq> ident \<Longrightarrow>
     delete_hydro_history clk ident s = (NotFound ''Not found'', s)"
  by (simp add: delete_hydro_history_def Let_def filter_keeps_length)

lemma delete_hydro_history_present:
  assumes "\<exists>x\<in>set (readHydroHistory s). hist_id x = ident"
  shows "fst (delete_hydro_history clk ident s) = NoContent"
    and "readHydroHistory (snd (delete_hydro_history clk ident s)) =
           filter (\<lambda>x. hist_id x \<noteq> ident) (readHydroHistory s)"
  using filter_drops_length [OF assms]
  by (simp_all add: delete_hydro_history_def Let_def read_logOp read_write_same)

lemma delete_pois_spec:
  "((\<forall>x\<in>set (readPois s). poi_id x \<noteq> ident) \<longrightarrow>
      delete_pois clk ident s = (NotFound ''Not found'', s)) \<and>
   ((\<exists>x\<in>set (readPois s). poi_id x = ident) \<longrightarrow>
      fst (delete_pois clk ident s) = NoContent \<and>
      readPois (snd (delete_pois clk ident s)) = filter (\<lambda>x. poi_id x \<noteq> ident) (readPois s) \<and>
      (distinct (map poi_id (readPois s)) \<longrightarrow>
         Suc (length (readPois (snd (delete_pois clk ident s)))) = length (readPois s)) \<and>
      (\<forall>lc list. fst (get_pois lc (snd (delete_pois clk ident s))) = OK list \<longrightarrow>
         (\<forall>x\<in>set list. poi_id x \<noteq> ident)))"
proof (intro conjI impI allI)
  assume "\<forall>x\<in>set (readPois s). poi_id x \<noteq> ident"
  then show "delete_pois clk ident s = (NotFound ''Not found'', s)" by (rule delete_pois_absent)
next
  assume p: "\<exists>x\<in>set (readPois s). poi_id x = ident"
  from delete_pois_present [OF p] show "fst (delete_pois clk ident s) = NoContent"
    and l: "readPois (snd (delete_pois clk ident s)) = filter (\<lambda>x. poi_id x \<noteq> ident) (readPois s)"
    by simp_all
  { assume "distinct (map poi_id (readPois s))"
    from filter_drops_one [OF this p] l
    show "Suc (length (readPois (snd (delete_pois clk ident s)))) = length (readPois s)" by simp }
  { fix lc list assume "fst (get_pois lc (snd (delete_pois clk ident s))) = OK list"
    from get_pois_set [OF this] l show "\<forall>x\<in>set list. poi_id x \<noteq> ident" by simp }
qed

lemma delete_routes_spec:
  "((\<forall>x\<in>set (readRoutes s). route_id x \<noteq> ident) \<longrightarrow>
      delete_routes clk ident s = (NotFound ''Not found'', s)) \<and>
   ((\<exists>x\<in>set (readRoutes s). route_id x = ident) \<longrightarrow>
      fst (delete_routes clk ident s) = NoContent \<and>
      readRoutes (snd (delete_routes clk ident s)) = filter (\<lambda>x. route_id x \<noteq> ident) (readRoutes s) \<and>
      (distinct (map route_id (readRoutes s)) \<longrightarrow>
         Suc (length (readRoutes (snd (delete_routes clk ident s)))) = length (readRoutes s)) \<and>
      (\<forall>list. fst (get_routes (snd (delete_routes clk ident s))) = OK list \<longrightarrow>
         (\<forall>x\<in>set list. route_id x \<noteq> ident)))"
proof (intro conjI impI allI)
  assume "\<forall>x\<in>set (readRoutes s). route_id x \<noteq> ident"
  then show "delete_routes clk ident s = (NotFound ''Not found'', s)" by (rule delete_routes_absent)
next
  assume p: "\<exists>x\<in>set (readRoutes s). route_id x = ident"
  from delete_routes_present [OF p] show "fst (delete_routes clk ident s) = NoContent"
    and l: "readRoutes (snd (delete_routes clk ident s)) = filter (\<lambda>x. route_id x \<noteq> ident) (readRoutes s)"
    by simp_all
  { assume "distinct (map route_id (readRoutes s))"
    from filter_drops_one [OF this p] l
    show "Suc (length (readRoutes (snd (delete_routes clk ident s)))) = length (readRoutes s)" by simp }
  { fix list assume "fst (get_routes (snd (delete_routes clk ident s))) = OK list"
    from get_routes_set [OF this] l show "\<forall>x\<in>set list. route_id x \<noteq> ident" by simp }
qed

lemma delete_attractions_spec:
  "((\<forall>x\<in>set (readAttractions s). attr_id x \<noteq> ident) \<longrightarrow>
      delete_attractions clk ident s = (NotFound ''Not found'', s)) \<and>
   ((\<exists>x\<in>set (readAttractions s). attr_id x = ident) \<longrightarrow>
      fst (delete_attractions clk ident s) = NoContent \<and>
      readAttractions (snd (delete_attractions clk ident s)) = filter (\<lambda>x. attr_id x \<noteq> ident) (readAttractions s) \<and>
      (distinct (map attr_id (readAttractions s)) \<longrightarrow>
         Suc (length (readAttractions (snd (delete_attractions clk ident s)))) = length (readAttractions s)) \<and>
      (\<forall>lc list. fst (get_attractions lc (snd (delete_attractions clk ident s))) = OK list \<longrightarrow>
         (\<forall>x\<in>set list. attr_id x \<noteq> ident)))"
proof (intro conjI impI allI)
  assume "\<forall>x\<in>set (readAttractions s). attr_id x \<noteq> ident"
  then show "delete_attractions clk ident s = (NotFound ''Not found'', s)" by (rule delete_attractions_absent)
next
  assume p: "\<exists>x\<in>set (readAttractions s). attr_id x = ident"
  from delete_attractions_present [OF p] show "fst (delete_attractions clk ident s) = NoContent"
    and l: "readAttractions (snd (delete_attractions clk ident s)) = filter (\<lambda>x. attr_id x \<noteq> ident) (readAttractions s)"
    by simp_all
  { assume "distinct (map attr_id (readAttractions s))"
    from filter_drops_one [OF this p] l
    show "Suc (length (readAttractions (snd (delete_attractions clk ident s)))) = length (readAttractions s)" by simp }
  { fix lc list assume "fst (get_attractions lc (snd (delete_attractions clk ident s))) = OK list"
    from get_attractions_set [OF this] l show "\<forall>x\<in>set list. attr_id x \<noteq> ident" by simp }
qed

lemma delete_hydro_history_spec:
  "((\<forall>x\<in>set (readHydroHistory s). hist_id x \<noteq> ident) \<longrightarrow>
      delete_hydro_history clk ident s = (NotFound ''Not found'', s)) \<and>
   ((\<exists>x\<in>set (readHydroHistory s). hist_id x = ident) \<longrightarrow>
      fst (delete_hydro_history clk ident s) = NoContent \<and>
      readHydroHistory (snd (delete_hydro_history clk ident s)) = filter (\<lambda>x. hist_id x \<noteq> ident) (readHydroHistory s) \<and>
      (distinct (map hist_id (readHydroHistory s)) \<longrightarrow>
         Suc (length (readHydroHistory (snd (delete_hydro_history clk ident s)))) = length (readHydroHistory s)) \<and>
      (\<forall>list. fst (get_hydro_history (snd (delete_hydro_history clk ident s))) = OK list \<longrightarrow>
         (\<forall>x\<in>set list. hist_id x \<noteq> ident)))"
proof (intro conjI impI allI)
  assume "\<forall>x\<in>set (readHydroHistory s). hist_id x \<noteq> ident"
  then show "delete_hydro_history clk ident s = (NotFound ''Not found'', s)" by (rule delete_hydro_history_absent)
next
  assume p: "\<exists>x\<in>set (readHydroHistory s). hist_id x = ident"
  from delete_hydro_history_present [OF p] show "fst (delete_hydro_history clk ident s) = NoContent"
    and l: "readHydroHistory (snd (delete_hydro_history clk ident s)) = filter (\<lambda>x. hist_id x \<noteq> ident) (readHydroHistory s)"
    by simp_all
  { assume "distinct (map hist_id (readHydroHistory s))"
    from filter_drops_one [OF this p] l
    show "Suc (length (readHydroHistory (snd (delete_hydro_history clk ident s)))) = length (readHydroHistory s)" by simp }
  { fix list assume "fst (get_hydro_history (snd (delete_hydro_history clk ident s))) = OK list"
    from get_hydro_history_set [OF this] l show "\<forall>x\<in>set list. hist_id x \<noteq> ident" by simp }
qed

text \<open>
  Claim C4, as it holds. For the points of interest, the routes, the attractions and the
  hydrophone history: when no stored document has the identifier, the deletion answers
  404 and leaves the store as it is. Otherwise it answers 204 and stores the list without
  every document that has the identifier, the others unchanged and in their order; that
  is one document less when the stored identifiers are pairwise distinct; and no listing
  of the new store contains a document with the identifier.
\<close>

theorem delete_removes_documents_with_id:
  "(((\<forall>x\<in>set (readPois s). poi_id x \<noteq> ident) \<longrightarrow>
      delete_pois clk ident s = (NotFound ''Not found'', s)) \<and>
   ((\<exists>x\<in>set (readPois s). poi_id x = ident) \<longrightarrow>
      fst (delete_pois clk ident s) = NoContent \<and>
      readPois (snd (delete_pois clk ident s)) = filter (\<lambda>x. poi_id x \<noteq> ident) (readPois s) \<and>
      (distinct (map poi_id (readPois s)) \<longrightarrow>
         Suc (length (readPois (snd (delete_pois clk ident s)))) = length (readPois s)) \<and>
      (\<forall>lc list. fst (get_pois lc (snd (delete_pois clk ident s))) = OK list \<longrightarrow>
         (\<forall>x\<in>set list. poi_id x \<noteq> ident)))) \<and>
   (((\<forall>x\<in>set (readRoutes s). route_id x \<noteq> ident) \<longrightarrow>
      delete_routes clk ident s = (NotFound ''Not found'', s)) \<and>
   ((\<exists>x\<in>set (readRoutes s). route_id x = ident) \<longrightarrow>
      fst (delete_routes clk ident s) = NoContent \<and>
      readRoutes (snd (delete_routes clk ident s)) = filter (\<lambda>x. route_id x \<noteq> ident) (readRoutes s) \<and>
      (distinct (map route_id (readRoutes s)) \<longrightarrow>
         Suc (length (readRoutes (snd (delete_routes clk ident s)))) = length (readRoutes s)) \<and>
      (\<forall>list. fst (get_routes (snd (delete_routes clk ident s))) = OK list \<longrightarrow>
         (\<forall>x\<in>set list. route_id x \<noteq> ident)))) \<and>
   (((\<forall>x\<in>set (readAttractions s). attr_id x \<noteq> ident) \<longrightarrow>
      delete_attractions clk ident s = (NotFound ''Not found'', s)) \<and>
   ((\<exists>x\<in>set (readAttractions s). attr_id x = ident) \<longrightarrow>
      fst (delete_attractions clk ident s) = NoContent \<and>
      readAttractions (snd (delete_attractions clk ident s)) = filter (\<lambda>x. attr_id x \<noteq> ident) (readAttractions s) \<and>
      (distinct (map attr_id (readAttractions s)) \<longrightarrow>
         Suc (length (readAttractions (snd (delete_attractions clk ident s)))) = length (readAttractions s)) \<and>
      (\<forall>lc list. fst (get_attractions lc (snd (delete_attractions clk ident s))) = OK list \<longrightarrow>
         (\<forall>x\<in>set list. attr_id x \<noteq> ident)))) \<and>
   (((\<forall>x\<in>set (readHydroHistory s). hist_id x \<noteq> ident) \<longrightarrow>
      delete_hydro_history clk ident s = (NotFound ''Not found'', s)) \<and>
   ((\<exists>x\<in>set (readHydroHistory s). hist_id x = ident) \<longrightarrow>
      fst (delete_hydro_history clk ident s) = NoContent \<and>
      readHydroHistory (snd (delete_hydro_history clk ident s)) = filter (\<lambda>x. hist_id x \<noteq> ident) (readHydroHistory s) \<and>
      (distinct (map hist_id (readHydroHistory s)) \<longrightarrow>
         Suc (length (readHydroHistory (snd (delete_hydro_history clk ident s)))) = length (readHydroHistory s)) \<and>
      (\<forall>list. fst (get_hydro_history (snd (delete_hydro_history clk ident s))) = OK list \<longrightarrow>
         (\<forall>x\<in>set list. hist_id x \<noteq> ident))))"
  using delete_pois_spec [of s ident clk] delete_routes_spec [of s ident clk]
    delete_attractions_spec [of s ident clk] delete_hydro_history_spec [of s ident clk]
  by (intro conjI) (elim conjE, assumption)+

lemma post_pier:
  "fst (post_pois clock0 clock0 pier s) = Created pier_poi"
  "readPois (snd (post_pois clock0 clock0 pier s)) = readPois s @ [pier_poi]"
  using post_pois_valid [of pier "JStr ''Pier''" "Finite 120.5" "Finite 30.25" clock0 clock0 s]
  by (simp_all add: pier_def lookup_def toString36_clock0 pier_poi_def)

lemma run_pier_pier:
  "readPois (run [PostPois clock0 clock0 pier, PostPois clock0 clock0 pier] initial_store) = [pier_poi, pier_poi]"
  by (simp add: post_pier readPois_initial)

theorem delete_removes_documents_with_id_witness:
  "fst (delete_pois clock1 ''loyw3v28'' (store_of_pois [pier_poi, park_poi])) = NoContent \<and>
   readPois (snd (delete_pois clock1 ''loyw3v28'' (store_of_pois [pier_poi, park_poi]))) = [park_poi] \<and>
   delete_pois clock1 ''zzzzzzzz'' (store_of_pois [pier_poi, park_poi]) =
     (NotFound ''Not found'', store_of_pois [pier_poi, park_poi])"
proof -
  have 1: "\<exists>x\<in>set (readPois (store_of_pois [pier_poi, park_poi])). poi_id x = ''loyw3v28''"
    by (simp add: readPois_store_of_pois pier_poi_def)
  have 2: "\<forall>x\<in>set (readPois (store_of_pois [pier_poi, park_poi])). poi_id x \<noteq> ''zzzzzzzz''"
    by (simp add: readPois_store_of_pois pier_poi_def park_poi_def)
  from delete_removes_documents_with_id [of "store_of_pois [pier_poi, park_poi]" "''loyw3v28''" clock1] 1
  have "fst (delete_pois clock1 ''loyw3v28'' (store_of_pois [pier_poi, park_poi])) = NoContent"
    "readPois (snd (delete_pois clock1 ''loyw3v28'' (store_of_pois [pier_poi, park_poi]))) =
       filter (\<lambda>x. poi_id x \<noteq> ''loyw3v28'') (readPois (store_of_pois [pier_poi, park_poi]))"
    by blast+
  moreover
  from delete_removes_documents_with_id [of "store_of_pois [pier_poi, park_poi]" "''zzzzzzzz''" clock1] 2
  have "delete_pois clock1 ''zzzzzzzz'' (store_of_pois [pier_poi, park_poi]) =
     (NotFound ''Not found'', store_of_pois [pier_poi, park_poi])"
    by blast
  ultimately show ?thesis
    by (simp add: readPois_store_of_pois pier_poi_def park_poi_def)
qed

text \<open>
  Claim C4 as it is written fails when two stored documents share the identifier: two
  creations within one millisecond store two points of interest with the identifier
  \<^verbatim>\<open>loyw3v28\<close>, and the deletion of that identifier removes both, not exactly one.
\<close>

theorem delete_removes_two_counterexample:
  "readPois (run [PostPois clock0 clock0 pier, PostPois clock0 clock0 pier] initial_store) =
     [pier_poi, pier_poi] \<and>
   fst (delete_pois clock1 ''loyw3v28''
          (run [PostPois clock0 clock0 pier, PostPois clock0 clock0 pier] initial_store)) = NoContent \<and>
   readPois (snd (delete_pois clock1 ''loyw3v28''
          (run [PostPois clock0 clock0 pier, PostPois clock0 clock0 pier] initial_store))) = []"
proof -
  have "\<exists>x\<in>set (readPois (run [PostPois clock0 clock0 pier, PostPois clock0 clock0 pier] initial_store)).
          poi_id x = ''loyw3v28''"
    unfolding run_pier_pier by (simp add: pier_poi_def)
  from delete_pois_present [OF this, of clock1] show ?thesis
    unfolding run_pier_pier by (simp add: pier_poi_def)
qed

section \<open>Records of the hydrophone history\<close>

lemma post_hydro_history_invalid:
  assumes "typeof (lookup body ''longitude'') \<noteq> TNumber \<or>
           typeof (lookup body ''latitude'') \<noteq> TNumber"
  shows "post_hydro_history clk rnd created lclk body s =
           (BadRequest ''Invalid payload: longitude/latitude must be numbers'', s)"
  using assms by (simp add: post_hydro_history_def Let_def)

lemma post_hydro_history_valid:
  assumes "lookup body ''longitude'' = Some (JNum lo)" "lookup body ''latitude'' = Some (JNum la)"
  shows "fst (post_hydro_history clk rnd created lclk body s) =
      Created \<lparr>hist_id = toString36 (now_ms clk) @ rnd,
        hist_name =
          stringify (js_or (Some (defaulted (lookup body ''name'') (JStr []))) (JStr unnamed)),
        longitude = stringify (JNum lo), latitude = stringify (JNum la),
        heading = stringify (defaulted (lookup body ''heading'') JNull),
        temperature = stringify (defaulted (lookup body ''temperature'') JNull),
        humidity = stringify (defaulted (lookup body ''humidity'') JNull),
        pressure = stringify (defaulted (lookup body ''pressure'') JNull),
        salinity = stringify (defaulted (lookup body ''salinity'') JNull),
        shipDetected = truthy (Some (defaulted (lookup body ''shipDetected'') (JBool False))),
        shipType =
          stringify (js_or (Some (defaulted (lookup body ''shipType'') (JStr []))) (JStr [])),
        timestamp =
          stringify (js_or (Some (defaulted (lookup body ''timestamp'') JNull))
                       (JStr (now_iso clk))),
        hist_createdAt = created,
        sentAt = JNull\<rparr>"
    and "readHydroHistory (snd (post_hydro_history clk rnd created lclk body s)) =
      readHydroHistory s @ [\<lparr>hist_id = toString36 (now_ms clk) @ rnd,
        hist_name =
          stringify (js_or (Some (defaulted (lookup body ''name'') (JStr []))) (JStr unnamed)),
        longitude = stringify (JNum lo), latitude = stringify (JNum la),
        heading = stringify (defaulted (lookup body ''heading'') JNull),
        temperature = stringify (defaulted (lookup body ''temperature'') JNull),
        humidity = stringify (defaulted (lookup body ''humidity'') JNull),
        pressure = stringify (defaulted (lookup body ''pressure'') JNull),
        salinity = stringify (defaulted (lookup body ''salinity'') JNull),
        shipDetected = truthy (Some (defaulted (lookup body ''shipDetected'') (JBool False))),
        shipType =
          stringify (js_or (Some (defaulted (lookup body ''shipType'') (JStr []))) (JStr [])),
        timestamp =
          stringify (js_or (Some (defaulted (lookup body ''timestamp'') JNull))
                       (JStr (now_iso clk))),
        hist_createdAt = created,
        sentAt = JNull\<rparr>]"
  using assms
  by (simp_all add: post_hydro_history_def Let_def read_logOp read_write_same
      del: js_or.simps stringify.simps)

lemma post_hydro_history_cases:
  "post_hydro_history clk rnd created lclk body s =
     (BadRequest ''Invalid payload: longitude/latitude must be numbers'', s) \<or>
   (\<exists>item. hist_id item = toString36 (now_ms clk) @ rnd \<and>
      fst (post_hydro_history clk rnd created lclk body s) = Created item \<and>
      readHydroHistory (snd (post_hydro_history clk rnd created lclk body s)) =
        readHydroHistory s @ [item])"
proof (cases "typeof (lookup body ''longitude'') \<noteq> TNumber \<or>
           typeof (lookup body ''latitude'') \<noteq> TNumber")
  case True
  from post_hydro_history_invalid [OF True] show ?thesis by simp
next
  case False
  then obtain lo la where
    v: "lookup body ''longitude'' = Some (JNum lo)" "lookup body ''latitude'' = Some (JNum la)"
    by (auto simp: typeof_number)
  from post_hydro_history_valid [OF v, of clk rnd created lclk s] show ?thesis
    by (simp del: js_or.simps stringify.simps)
qed

lemma stringify_parsed: "stringify (parsed v) = v"
proof (induction v)
  case (JArr xs)
  then have "map (\<lambda>x. stringify (parsed x)) xs = xs" by (simp add: map_idI)
  then show ?case by (simp add: comp_def)
next
  case (JObj kvs)
  have "map (map_prod id (\<lambda>x. stringify (parsed x))) kvs = kvs"
  proof (rule map_idI)
    fix p assume p: "p \<in> set kvs"
    obtain k x where kx: "p = (k, x)" by (cases p)
    from JObj [OF p, of x] kx show "map_prod id (\<lambda>x. stringify (parsed x)) p = p" by simp
  qed
  then show ?case by (simp add: prod.map_comp comp_def id_def)
qed simp_all

lemma truthy_parsed: "truthy (Some (parsed v)) = truthy (Some v)"
  by (cases v) (simp_all add: zero_number_def)

lemma stringify_js_or_parsed:
  "stringify (js_or (Some (parsed v)) (JStr [])) =
     (if truthy (Some v) then v else JStr [])"
  using truthy_parsed [of v] stringify_parsed [of v] by simp

lemma send_absent:
  assumes "\<forall>x\<in>set (readHydroHistory s). hist_id x \<noteq> ident"
  shows "post_hydro_history_send clk lclk ident s = (NotFound ''Not found'', s)"
proof -
  from assms have "findIndex (\<lambda>x. hist_id x = ident) (readHydroHistory s) = None"
    by (simp add: findIndex_None)
  then show ?thesis by (simp add: post_hydro_history_send_def Let_def)
qed

lemma stringify_snapshot_of:
  "stringify (JObj (snapshot_of item now)) =
     JObj [(''longitude'', longitude item),
           (''latitude'', latitude item),
           (''heading'', heading item),
           (''temperature'', temperature item),
           (''humidity'', humidity item),
           (''pressure'', pressure item),
           (''salinity'', salinity item),
           (''shipDetected'', JBool (shipDetected item)),
           (''shipType'', if truthy (Some (shipType item)) then shipType item else JStr []),
           (''timestamp'', JStr now)]"
  unfolding snapshot_of_def
  by (simp add: stringify_parsed stringify_js_or_parsed del: js_or.simps)

lemma send_found:
  assumes "findIndex (\<lambda>x. hist_id x = ident) (readHydroHistory s) = Some idx"
  shows "fst (post_hydro_history_send clk lclk ident s) =
           OK (JObj [(''ok'', JBool True),
                     (''applied'',
                      stringify (JObj (snapshot_of (readHydroHistory s ! idx) (now_iso clk))))])"
    and "readHydrophone (snd (post_hydro_history_send clk lclk ident s)) =
           stringify (JObj (snapshot_of (readHydroHistory s ! idx) (now_iso clk)))"
    and "readHydroHistory (snd (post_hydro_history_send clk lclk ident s)) =
           (readHydroHistory s)[idx := (readHydroHistory s ! idx)\<lparr>sentAt := JStr (now_iso clk)\<rparr>]"
proof -
  have t: "lookup (snapshot_of item now) ''timestamp'' = Some (JStr now)" for item now
    by (simp add: snapshot_of_def lookup_def)
  from assms show "fst (post_hydro_history_send clk lclk ident s) =
           OK (JObj [(''ok'', JBool True),
                     (''applied'',
                      stringify (JObj (snapshot_of (readHydroHistory s ! idx) (now_iso clk))))])"
    by (simp add: post_hydro_history_send_def Let_def)
  from assms show "readHydrophone (snd (post_hydro_history_send clk lclk ident s)) =
           stringify (JObj (snapshot_of (readHydroHistory s ! idx) (now_iso clk)))"
    by (simp add: post_hydro_history_send_def Let_def read_logOp read_write_same
        read_write_other del: stringify.simps)
  from assms show "readHydroHistory (snd (post_hydro_history_send clk lclk ident s)) =
           (readHydroHistory s)[idx := (readHydroHistory s ! idx)\<lparr>sentAt := JStr (now_iso clk)\<rparr>]"
    by (simp add: post_hydro_history_send_def Let_def read_logOp read_write_same t)
qed

lemma map_update_same:
  assumes "i < length xs" "f y = f (xs ! i)"
  shows "map f (xs[i := y]) = map f xs"
proof -
  have "map f (xs[i := y]) = (map f xs)[i := f (xs ! i)]" using assms(2) by (simp add: map_update)
  also have "\<dots> = (map f xs)[i := map f xs ! i]" using assms(1) by simp
  also have "\<dots> = map f xs" by (rule list_update_id)
  finally show ?thesis .
qed

lemma send_ids:
  "map hist_id (readHydroHistory (snd (post_hydro_history_send clk lclk ident s))) =
     map hist_id (readHydroHistory s)"
proof (cases "findIndex (\<lambda>x. hist_id x = ident) (readHydroHistory s)")
  case None
  then show ?thesis by (simp add: post_hydro_history_send_def Let_def)
next
  case (Some idx)
  from findIndex_Some [OF Some] send_found(3) [OF Some, of clk lclk] show ?thesis
    by (simp add: map_update_same)
qed

section \<open>Identifiers\<close>

lemma digit36_inj:
  assumes "a < 36" "b < 36" "digit36 a = digit36 b"
  shows "a = b"
proof -
  have d: "distinct ''0123456789abcdefghijklmnopqrstuvwxyz''" by simp
  have l: "length ''0123456789abcdefghijklmnopqrstuvwxyz'' = 36" by simp
  from assms nth_eq_iff_index_eq [OF d, of a b] l show ?thesis
    by (simp add: digit36_def)
qed

lemma toString36_small: "n < 36 \<Longrightarrow> toString36 n = [digit36 n]"
  by (simp add: toString36.simps)

lemma toString36_large:
  "\<not> n < 36 \<Longrightarrow> toString36 n = toString36 (n div 36) @ [digit36 (n mod 36)]"
  by (subst toString36.simps) simp

lemma toString36_nonempty: "toString36 n \<noteq> []"
  by (cases "n < 36") (simp_all add: toString36_small toString36_large)

lemma toString36_inj: "toString36 n = toString36 m \<Longrightarrow> n = m"
proof (induction n arbitrary: m rule: toString36.induct)
  case (1 n)
  show ?case
  proof (cases "n < 36")
    case True
    show ?thesis
    proof (cases "m < 36")
      case m: True
      with True "1.prems" digit36_inj [of n m] show ?thesis
        by (simp add: toString36_small)
    next
      case m: False
      with True "1.prems" toString36_nonempty [of "m div 36"] show ?thesis
        by (simp add: toString36_small toString36_large)
    qed
  next
    case False
    show ?thesis
    proof (cases "m < 36")
      case m: True
      with False "1.prems" toString36_nonempty [of "n div 36"] show ?thesis
        by (simp add: toString36_small toString36_large)
    next
      case m: False
      with False "1.prems" have e: "toString36 (n div 36) = toString36 (m div 36)"
        "digit36 (n mod 36) = digit36 (m mod 36)"
        by (simp_all add: toString36_large)
      from "1.IH" [OF False e(1)] have q: "n div 36 = m div 36" .
      from digit36_inj [OF _ _ e(2)] have r: "n mod 36 = m mod 36" by simp
      from q r show ?thesis by (metis div_mult_mod_eq)
    qed
  qed
qed

lemma post_routes_invalid:
  assumes "\<not> truthy (lookup body ''name'') \<or> \<not> nonEmptyArray (lookup body ''coords'')"
  shows "post_routes clk lclk body s = (BadRequest ''Invalid payload'', s)"
  using assms by (simp add: post_routes_def Let_def)

lemma nonEmptyArray_defined: "nonEmptyArray v \<Longrightarrow> \<exists>c. v = Some c"
  by (cases v) simp_all

lemma nonEmptyArray_stringify:
  "nonEmptyArray (Some (stringify c)) = nonEmptyArray (Some c)"
  by (cases c) (simp_all split: number.split)

lemma post_routes_valid:
  assumes "lookup body ''name'' = Some n" "truthy (Some n)"
    "lookup body ''coords'' = Some c" "nonEmptyArray (Some c)"
  shows "fst (post_routes clk lclk body s) =
           Created \<lparr>route_id = toString36 (now_ms clk), route_name = stringify n,
             coords = stringify c, route_createdAt = now_iso clk\<rparr>"
    and "readRoutes (snd (post_routes clk lclk body s)) =
           readRoutes s @ [\<lparr>route_id = toString36 (now_ms clk), route_name = stringify n,
             coords = stringify c, route_createdAt = now_iso clk\<rparr>]"
  using assms by (simp_all add: post_routes_def Let_def read_logOp read_write_same)

lemma post_attractions_invalid:
  assumes "\<not> truthy (lookup body ''name'')"
  shows "post_attractions clk lclk body s = (BadRequest ''Invalid payload'', s)"
  using assms by (simp add: post_attractions_def Let_def)

lemma post_attractions_valid:
  assumes "lookup body ''name'' = Some n" "truthy (Some n)"
  shows "fst (post_attractions clk lclk body s) =
           Created \<lparr>attr_id = toString36 (now_ms clk), attr_name = stringify n,
             attr_lng = map_option stringify (lookup body ''lng''),
             attr_lat = map_option stringify (lookup body ''lat''),
             attr_address = stringify (defaulted (lookup body ''address'') (JStr [])),
             attr_tags = stringify (defaulted (lookup body ''tags'') (JArr [])),
             attr_desc = stringify (defaulted (lookup body ''desc'') (JStr []))\<rparr>"
    and "readAttractions (snd (post_attractions clk lclk body s)) =
           readAttractions s @ [\<lparr>attr_id = toString36 (now_ms clk), attr_name = stringify n,
             attr_lng = map_option stringify (lookup body ''lng''),
             attr_lat = map_option stringify (lookup body ''lat''),
             attr_address = stringify (defaulted (lookup body ''address'') (JStr [])),
             attr_tags = stringify (defaulted (lookup body ''tags'') (JArr [])),
             attr_desc = stringify (defaulted (lookup body ''desc'') (JStr []))\<rparr>]"
  using assms by (simp_all add: post_attractions_def Let_def read_logOp read_write_same)

lemma post_pois_cases:
  "post_pois clk lclk body s = (BadRequest ''Invalid payload'', s) \<or>
   (\<exists>item. poi_id item = toString36 (now_ms clk) \<and> fst (post_pois clk lclk body s) = Created item \<and>
      readPois (snd (post_pois clk lclk body s)) = readPois s @ [item])"
proof (cases "\<not> truthy (lookup body ''name'') \<or> typeof (lookup body ''lng'') \<noteq> TNumber \<or>
       typeof (lookup body ''lat'') \<noteq> TNumber")
  case True
  from post_pois_invalid [OF True] show ?thesis by simp
next
  case False
  then obtain n x y where v: "lookup body ''name'' = Some n" "truthy (Some n)"
      "lookup body ''lng'' = Some (JNum x)" "lookup body ''lat'' = Some (JNum y)"
    using truthy_defined [of "lookup body ''name''"] by (auto simp: typeof_number)
  from post_pois_valid [OF v, of clk lclk s] show ?thesis by simp
qed

lemma post_routes_cases:
  "post_routes clk lclk body s = (BadRequest ''Invalid payload'', s) \<or>
   (\<exists>item. route_id item = toString36 (now_ms clk) \<and> nonEmptyArray (Some (coords item)) \<and>
      fst (post_routes clk lclk body s) = Created item \<and>
      readRoutes (snd (post_routes clk lclk body s)) = readRoutes s @ [item])"
proof (cases "\<not> truthy (lookup body ''name'') \<or> \<not> nonEmptyArray (lookup body ''coords'')")
  case True
  from post_routes_invalid [OF True] show ?thesis by simp
next
  case False
  then obtain n c where v: "lookup body ''name'' = Some n" "truthy (Some n)"
      "lookup body ''coords'' = Some c" "nonEmptyArray (Some c)"
    using truthy_defined [of "lookup body ''name''"] nonEmptyArray_defined [of "lookup body ''coords''"]
    by auto
  from post_routes_valid [OF v, of clk lclk s] v(4) show ?thesis
    by (simp add: nonEmptyArray_stringify del: stringify.simps)
qed

lemma post_attractions_cases:
  "post_attractions clk lclk body s = (BadRequest ''Invalid payload'', s) \<or>
   (\<exists>item. attr_id item = toString36 (now_ms clk) \<and>
      fst (post_attractions clk lclk body s) = Created item \<and>
      readAttractions (snd (post_attractions clk lclk body s)) = readAttractions s @ [item])"
proof (cases "\<not> truthy (lookup body ''name'')")
  case True
  from post_attractions_invalid [OF True] show ?thesis by simp
next
  case False
  then obtain n where v: "lookup body ''name'' = Some n" "truthy (Some n)"
    using truthy_defined [of "lookup body ''name''"] by auto
  from post_attractions_valid [OF v, of clk lclk s] show ?thesis by simp
qed

lemma put_pois_ids:
  "map poi_id (readPois (snd (put_pois clk ident body s))) = map poi_id (readPois s)"
proof (cases "findIndex (\<lambda>x. poi_id x = ident) (readPois s)")
  case None
  then show ?thesis by (simp add: put_pois_def Let_def)
next
  case (Some idx)
  from put_pois_found [OF Some, of clk body] obtain nxt where
    n: "readPois (snd (put_pois clk ident body s)) = (readPois s)[idx := nxt]"
    "\<forall>k. lookup (poi_json nxt) k =
            (if k \<in> set poi_patch_keys \<and> lookup body k \<noteq> None
             then map_option stringify (lookup body k) else lookup (poi_json (readPois s ! idx)) k)"
    by blast
  from n(2) [THEN spec, of "''id''"] have "poi_id nxt = poi_id (readPois s ! idx)"
    by (simp add: poi_patch_keys_def lookup_def poi_json_def)
  with findIndex_Some [OF Some] n(1) show ?thesis by (simp add: map_update_same)
qed

lemma put_routes_ids:
  "map route_id (readRoutes (snd (put_routes clk ident body s))) = map route_id (readRoutes s)"
proof (cases "findIndex (\<lambda>x. route_id x = ident) (readRoutes s)")
  case None
  then show ?thesis by (simp add: put_routes_def Let_def)
next
  case (Some idx)
  from put_routes_found [OF Some, of clk body] obtain nxt where
    n: "readRoutes (snd (put_routes clk ident body s)) = (readRoutes s)[idx := nxt]"
    "\<forall>k. lookup (route_json nxt) k =
            (if k \<in> set route_patch_keys \<and> lookup body k \<noteq> None
             then map_option stringify (lookup body k) else lookup (route_json (readRoutes s ! idx)) k)"
    by blast
  from n(2) [THEN spec, of "''id''"] have "route_id nxt = route_id (readRoutes s ! idx)"
    by (simp add: route_patch_keys_def lookup_def route_json_def)
  with findIndex_Some [OF Some] n(1) show ?thesis by (simp add: map_update_same)
qed

lemma put_attractions_ids:
  "map attr_id (readAttractions (snd (put_attractions clk ident body s))) =
     map attr_id (readAttractions s)"
proof (cases "findIndex (\<lambda>x. attr_id x = ident) (readAttractions s)")
  case None
  then show ?thesis by (simp add: put_attractions_def Let_def)
next
  case (Some idx)
  from put_attractions_list [OF Some, of clk body] obtain nxt where
    n: "fst (put_attractions clk ident body s) = OK nxt"
    "readAttractions (snd (put_attractions clk ident body s)) = (readAttractions s)[idx := nxt]"
    by blast
  from n(1) put_attractions_next [OF Some, of clk body]
  have "attr_id nxt = attr_id (readAttractions s ! idx)" by auto
  with findIndex_Some [OF Some] n(2) show ?thesis by (simp add: map_update_same)
qed

lemma delete_pois_list:
  "readPois (snd (delete_pois clk ident s)) = filter (\<lambda>x. poi_id x \<noteq> ident) (readPois s)"
proof (cases "\<exists>x\<in>set (readPois s). poi_id x = ident")
  case True
  then show ?thesis by (rule delete_pois_present(2))
next
  case False
  then have a: "\<forall>x\<in>set (readPois s). poi_id x \<noteq> ident" by simp
  from delete_pois_absent [OF a, of clk] filter_keeps_length [of "readPois s" poi_id ident] a
  show ?thesis by simp
qed

lemma delete_routes_list:
  "readRoutes (snd (delete_routes clk ident s)) =
     filter (\<lambda>x. route_id x \<noteq> ident) (readRoutes s)"
proof (cases "\<exists>x\<in>set (readRoutes s). route_id x = ident")
  case True
  then show ?thesis by (rule delete_routes_present(2))
next
  case False
  then have a: "\<forall>x\<in>set (readRoutes s). route_id x \<noteq> ident" by simp
  from delete_routes_absent [OF a, of clk] filter_keeps_length [of "readRoutes s" route_id ident] a
  show ?thesis by simp
qed

lemma delete_attractions_list:
  "readAttractions (snd (delete_attractions clk ident s)) =
     filter (\<lambda>x. attr_id x \<noteq> ident) (readAttractions s)"
proof (cases "\<exists>x\<in>set (readAttractions s). attr_id x = ident")
  case True
  then show ?thesis by (rule delete_attractions_present(2))
next
  case False
  then have a: "\<forall>x\<in>set (readAttractions s). attr_id x \<noteq> ident" by simp
  from delete_attractions_absent [OF a, of clk]
    filter_keeps_length [of "readAttractions s" attr_id ident] a
  show ?thesis by simp
qed

lemma delete_hydro_history_list:
  "readHydroHistory (snd (delete_hydro_history clk ident s)) =
     filter (\<lambda>x. hist_id x \<noteq> ident) (readHydroHistory s)"
proof (cases "\<exists>x\<in>set (readHydroHistory s). hist_id x = ident")
  case True
  then show ?thesis by (rule delete_hydro_history_present(2))
next
  case False
  then have a: "\<forall>x\<in>set (readHydroHistory s). hist_id x \<noteq> ident" by simp
  from delete_hydro_history_absent [OF a, of clk]
    filter_keeps_length [of "readHydroHistory s" hist_id ident] a
  show ?thesis by simp
qed

lemma handle_pois_ids:
  "set (map poi_id (readPois (handle r s))) \<subseteq>
     set (map poi_id (readPois s)) \<union> toString36 ` set (poi_post_times [r])"
proof (cases r)
  case (PostPois clk lclk body)
  from post_pois_cases [of clk lclk body s] PostPois show ?thesis by auto
next
  case (PutPois clk ident body)
  then show ?thesis by (simp add: put_pois_ids)
next
  case (DeletePois clk ident)
  then show ?thesis by (auto simp add: delete_pois_list)
qed (simp_all add: routes_handlers_frame attractions_handlers_frame hydro_handlers_frame)

lemma run_pois_ids:
  "set (map poi_id (readPois (run rs s))) \<subseteq>
     set (map poi_id (readPois s)) \<union> toString36 ` set (poi_post_times rs)"
proof (induction rs arbitrary: s)
  case Nil
  then show ?case by simp
next
  case (Cons r rs)
  have t: "set (poi_post_times (r # rs)) = set (poi_post_times [r]) \<union> set (poi_post_times rs)"
    by (cases r) simp_all
  from Cons.IH [of "handle r s"] handle_pois_ids [of r s] show ?case
    unfolding t image_Un by (simp only: run.simps) blast
qed

lemma handle_routes_ids:
  "set (map route_id (readRoutes (handle r s))) \<subseteq>
     set (map route_id (readRoutes s)) \<union> toString36 ` set (route_post_times [r])"
proof (cases r)
  case (PostRoutes clk lclk body)
  from post_routes_cases [of clk lclk body s] PostRoutes show ?thesis by auto
next
  case (PutRoutes clk ident body)
  then show ?thesis by (simp add: put_routes_ids)
next
  case (DeleteRoutes clk ident)
  then show ?thesis by (auto simp add: delete_routes_list)
qed (simp_all add: pois_handlers_frame attractions_handlers_frame hydro_handlers_frame)

lemma run_routes_ids:
  "set (map route_id (readRoutes (run rs s))) \<subseteq>
     set (map route_id (readRoutes s)) \<union> toString36 ` set (route_post_times rs)"
proof (induction rs arbitrary: s)
  case Nil
  then show ?case by simp
next
  case (Cons r rs)
  have t: "set (route_post_times (r # rs)) = set (route_post_times [r]) \<union> set (route_post_times rs)"
    by (cases r) simp_all
  from Cons.IH [of "handle r s"] handle_routes_ids [of r s] show ?case
    unfolding t image_Un by (simp only: run.simps) blast
qed

lemma handle_attractions_ids:
  "set (map attr_id (readAttractions (handle r s))) \<subseteq>
     set (map attr_id (readAttractions s)) \<union> toString36 ` set (attraction_post_times [r])"
proof (cases r)
  case (PostAttractions clk lclk body)
  from post_attractions_cases [of clk lclk body s] PostAttractions show ?thesis by auto
next
  case (PutAttractions clk ident body)
  then show ?thesis by (simp add: put_attractions_ids)
next
  case (DeleteAttractions clk ident)
  then show ?thesis by (auto simp add: delete_attractions_list)
qed (simp_all add: pois_handlers_frame routes_handlers_frame hydro_handlers_frame)

lemma run_attractions_ids:
  "set (map attr_id (readAttractions (run rs s))) \<subseteq>
     set (map attr_id (readAttractions s)) \<union> toString36 ` set (attraction_post_times rs)"
proof (induction rs arbitrary: s)
  case Nil
  then show ?case by simp
next
  case (Cons r rs)
  have t: "set (attraction_post_times (r # rs)) =
      set (attraction_post_times [r]) \<union> set (attraction_post_times rs)"
    by (cases r) simp_all
  from Cons.IH [of "handle r s"] handle_attractions_ids [of r s] show ?case
    unfolding t image_Un by (simp only: run.simps) blast
qed

lemma read_initial:
  "readRoutes initial_store = []" "readAttractions initial_store = []"
  "readHydroHistory initial_store = []"
  by (simp_all add: initial_store_def readRoutes_def readAttractions_def readHydroHistory_def)

lemma fresh_poi_id:
  assumes "now_ms clk \<notin> set (poi_post_times rs)"
    and "fst (post_pois clk lclk body (run rs initial_store)) = Created item"
  shows "\<forall>x\<in>set (readPois (run rs initial_store)). poi_id x \<noteq> poi_id item"
proof
  fix x assume "x \<in> set (readPois (run rs initial_store))"
  with run_pois_ids [of rs initial_store] obtain t where
    t: "t \<in> set (poi_post_times rs)" "poi_id x = toString36 t"
    by (auto simp: readPois_initial)
  from post_pois_cases [of clk lclk body "run rs initial_store"] assms(2)
  have "poi_id item = toString36 (now_ms clk)" by auto
  with t assms(1) toString36_inj [of t "now_ms clk"] show "poi_id x \<noteq> poi_id item" by auto
qed

lemma fresh_route_id:
  assumes "now_ms clk \<notin> set (route_post_times rs)"
    and "fst (post_routes clk lclk body (run rs initial_store)) = Created item"
  shows "\<forall>x\<in>set (readRoutes (run rs initial_store)). route_id x \<noteq> route_id item"
proof
  fix x assume "x \<in> set (readRoutes (run rs initial_store))"
  with run_routes_ids [of rs initial_store] obtain t where
    t: "t \<in> set (route_post_times rs)" "route_id x = toString36 t"
    by (auto simp: read_initial)
  from post_routes_cases [of clk lclk body "run rs initial_store"] assms(2)
  have "route_id item = toString36 (now_ms clk)" by auto
  with t assms(1) toString36_inj [of t "now_ms clk"] show "route_id x \<noteq> route_id item" by auto
qed

lemma fresh_attraction_id:
  assumes "now_ms clk \<notin> set (attraction_post_times rs)"
    and "fst (post_attractions clk lclk body (run rs initial_store)) = Created item"
  shows "\<forall>x\<in>set (readAttractions (run rs initial_store)). attr_id x \<noteq> attr_id item"
proof
  fix x assume "x \<in> set (readAttractions (run rs initial_store))"
  with run_attractions_ids [of rs initial_store] obtain t where
    t: "t \<in> set (attraction_post_times rs)" "attr_id x = toString36 t"
    by (auto simp: read_initial)
  from post_attractions_cases [of clk lclk body "run rs initial_store"] assms(2)
  have "attr_id item = toString36 (now_ms clk)" by auto
  with t assms(1) toString36_inj [of t "now_ms clk"] show "attr_id x \<noteq> attr_id item" by auto
qed

lemma handle_history_ids:
  "set (map hist_id (readHydroHistory (handle r s))) \<subseteq>
     set (map hist_id (readHydroHistory s)) \<union> set (history_post_ids [r])"
proof (cases r)
  case (PostHydroHistory clk rnd created lclk body)
  from post_hydro_history_cases [of clk rnd created lclk body s] PostHydroHistory
  show ?thesis by auto
next
  case (DeleteHydroHistory lclk ident)
  then show ?thesis by (auto simp add: delete_hydro_history_list)
next
  case (PostHydroHistorySend clk lclk ident)
  then show ?thesis by (simp add: send_ids)
qed (simp_all add: pois_handlers_frame routes_handlers_frame attractions_handlers_frame
     hydro_handlers_frame)

lemma run_history_ids:
  "set (map hist_id (readHydroHistory (run rs s))) \<subseteq>
     set (map hist_id (readHydroHistory s)) \<union> set (history_post_ids rs)"
proof (induction rs arbitrary: s)
  case Nil
  then show ?case by simp
next
  case (Cons r rs)
  have t: "set (history_post_ids (r # rs)) =
      set (history_post_ids [r]) \<union> set (history_post_ids rs)"
    by (cases r) simp_all
  from Cons.IH [of "handle r s"] handle_history_ids [of r s] show ?case
    unfolding t by (simp only: run.simps) blast
qed

lemma fresh_history_id:
  assumes "toString36 (now_ms clk) @ rnd \<notin> set (history_post_ids rs)"
    and "fst (post_hydro_history clk rnd created lclk body (run rs initial_store)) = Created item"
  shows "\<forall>x\<in>set (readHydroHistory (run rs initial_store)). hist_id x \<noteq> hist_id item"
proof
  fix x assume "x \<in> set (readHydroHistory (run rs initial_store))"
  with run_history_ids [of rs initial_store] have t: "hist_id x \<in> set (history_post_ids rs)"
    by (auto simp: read_initial)
  from post_hydro_history_cases [of clk rnd created lclk body "run rs initial_store"] assms(2)
  have "hist_id item = toString36 (now_ms clk) @ rnd" by auto
  with t assms(1) show "hist_id x \<noteq> hist_id item" by auto
qed

text \<open>
  Claim C8, as it holds. In the store reached from the initial one by any sequence of
  requests, a creation of a point of interest, a route or an attraction whose clock
  reading (in milliseconds) differs from the readings of all earlier creations in that
  collection returns a document whose identifier no stored document of the collection
  has; a creation of a record of the hydrophone history, whose identifier is the clock
  reading followed by the random suffix, returns a record whose identifier no stored
  record has when no earlier creation of a record made this identifier. No update changes
  the identifier of any stored document, whatever the body holds, and the send operation
  changes the identifier of no stored record.
\<close>

theorem create_id_fresh_update_keeps_id:
  "(now_ms clk \<notin> set (poi_post_times rs) \<and>
      fst (post_pois clk lclk body (run rs initial_store)) = Created new_poi \<longrightarrow>
      (\<forall>x\<in>set (readPois (run rs initial_store)). poi_id x \<noteq> poi_id new_poi)) \<and>
   (now_ms clk \<notin> set (route_post_times rs) \<and>
      fst (post_routes clk lclk body (run rs initial_store)) = Created new_route \<longrightarrow>
      (\<forall>x\<in>set (readRoutes (run rs initial_store)). route_id x \<noteq> route_id new_route)) \<and>
   (now_ms clk \<notin> set (attraction_post_times rs) \<and>
      fst (post_attractions clk lclk body (run rs initial_store)) = Created new_attraction \<longrightarrow>
      (\<forall>x\<in>set (readAttractions (run rs initial_store)). attr_id x \<noteq> attr_id new_attraction)) \<and>
   (toString36 (now_ms clk) @ rnd \<notin> set (history_post_ids rs) \<and>
      fst (post_hydro_history clk rnd created lclk body (run rs initial_store)) =
        Created new_record \<longrightarrow>
      hist_id new_record = toString36 (now_ms clk) @ rnd \<and>
      (\<forall>x\<in>set (readHydroHistory (run rs initial_store)). hist_id x \<noteq> hist_id new_record)) \<and>
   map poi_id (readPois (snd (put_pois lclk ident body s))) = map poi_id (readPois s) \<and>
   map route_id (readRoutes (snd (put_routes lclk ident body s))) = map route_id (readRoutes s) \<and>
   map attr_id (readAttractions (snd (put_attractions lclk ident body s))) =
     map attr_id (readAttractions s) \<and>
   map hist_id (readHydroHistory (snd (post_hydro_history_send clk lclk ident s))) =
     map hist_id (readHydroHistory s)"
proof -
  have h: "hist_id new_record = toString36 (now_ms clk) @ rnd"
    if "fst (post_hydro_history clk rnd created lclk body (run rs initial_store)) =
        Created new_record"
    using post_hydro_history_cases [of clk rnd created lclk body "run rs initial_store"] that
    by auto
  from h fresh_poi_id [of clk rs lclk body new_poi] fresh_route_id [of clk rs lclk body new_route]
    fresh_attraction_id [of clk rs lclk body new_attraction]
    fresh_history_id [of clk rnd rs created lclk body new_record]
    put_pois_ids [of lclk ident body s] put_routes_ids [of lclk ident body s]
    put_attractions_ids [of lclk ident body s] send_ids [of clk lclk ident s]
  show ?thesis by (intro conjI impI) simp_all
qed

lemma now_iso_clock0: "now_iso clock0 = ''2023-11-14T22:13:20.000Z''"
  by (simp add: clock0_def)

lemma post_pier_clock1:
  "fst (post_pois clock1 clock1 pier s) = Created (pier_poi\<lparr>poi_id := ''loyw3v29''\<rparr>)"
  using post_pois_valid(1)
    [of pier "JStr ''Pier''" "Finite 120.5" "Finite 30.25" clock1 clock1 s]
  by (simp add: pier_def lookup_def toString36_clock1 pier_poi_def)

lemma run_pier: "readPois (run [PostPois clock0 clock0 pier] initial_store) = [pier_poi]"
  by (simp add: post_pier readPois_initial)

lemma post_reading:
  "fst (post_hydro_history clock0 ''ab12'' ''2023-11-14T22:13:20.000Z'' clock0 reading s) =
     Created reading_record"
  "readHydroHistory
     (snd (post_hydro_history clock0 ''ab12'' ''2023-11-14T22:13:20.000Z'' clock0 reading s)) =
     readHydroHistory s @ [reading_record]"
  using post_hydro_history_valid
    [of reading "Finite 120.5" "Finite 30.25" clock0 "''ab12''" "''2023-11-14T22:13:20.000Z''"
      clock0 s]
  by (simp_all add: reading_def lookup_def toString36_clock0 reading_record_def now_iso_clock0
      zero_number_def)

lemma run_reading:
  "readHydroHistory
     (run [PostHydroHistory clock0 ''ab12'' ''2023-11-14T22:13:20.000Z'' clock0 reading]
        initial_store) = [reading_record]"
  by (simp add: post_reading read_initial)

lemma post_reading_clock1:
  "fst (post_hydro_history clock1 ''ab12'' ''2023-11-14T22:13:20.001Z'' clock1 reading s) =
     Created (reading_record\<lparr>hist_id := ''loyw3v29ab12'',
       timestamp := JStr ''2023-11-14T22:13:20.001Z'',
       hist_createdAt := ''2023-11-14T22:13:20.001Z''\<rparr>)"
  using post_hydro_history_valid(1)
    [of reading "Finite 120.5" "Finite 30.25" clock1 "''ab12''" "''2023-11-14T22:13:20.001Z''"
      clock1 s]
  by (simp add: reading_def lookup_def toString36_clock1 reading_record_def zero_number_def)
    (simp add: clock1_def)

theorem create_id_fresh_update_keeps_id_witness:
  "''loyw3v29'' \<notin> set (map poi_id (readPois (run [PostPois clock0 clock0 pier] initial_store))) \<and>
   ''loyw3v29ab12'' \<notin> set (map hist_id (readHydroHistory
       (run [PostHydroHistory clock0 ''ab12'' ''2023-11-14T22:13:20.000Z'' clock0 reading]
          initial_store)))"
proof -
  have 1: "now_ms clock1 \<notin> set (poi_post_times [PostPois clock0 clock0 pier])"
    by (simp add: clock0_def clock1_def)
  have 2: "fst (post_pois clock1 clock1 pier (run [PostPois clock0 clock0 pier] initial_store)) =
      Created (pier_poi\<lparr>poi_id := ''loyw3v29''\<rparr>)"
    by (rule post_pier_clock1)
  from create_id_fresh_update_keeps_id
    [of clock1 "[PostPois clock0 clock0 pier]" clock1 pier
      "pier_poi\<lparr>poi_id := ''loyw3v29''\<rparr>"] 1 2
  have "\<forall>x\<in>set (readPois (run [PostPois clock0 clock0 pier] initial_store)).
          poi_id x \<noteq> poi_id (pier_poi\<lparr>poi_id := ''loyw3v29''\<rparr>)"
    by blast
  then have a: "''loyw3v29'' \<notin>
      set (map poi_id (readPois (run [PostPois clock0 clock0 pier] initial_store)))"
    by auto
  let ?rs = "[PostHydroHistory clock0 ''ab12'' ''2023-11-14T22:13:20.000Z'' clock0 reading]"
  let ?new = "reading_record\<lparr>hist_id := ''loyw3v29ab12'',
       timestamp := JStr ''2023-11-14T22:13:20.001Z'',
       hist_createdAt := ''2023-11-14T22:13:20.001Z''\<rparr>"
  have 3: "toString36 (now_ms clock1) @ ''ab12'' \<notin> set (history_post_ids ?rs)"
    by (simp add: toString36_clock0 toString36_clock1)
  have 4: "fst (post_hydro_history clock1 ''ab12'' ''2023-11-14T22:13:20.001Z'' clock1 reading
                 (run ?rs initial_store)) = Created ?new"
    by (rule post_reading_clock1)
  from create_id_fresh_update_keeps_id
    [of clock1 ?rs clock1 reading _ _ _ "''ab12''" "''2023-11-14T22:13:20.001Z''" ?new] 3 4
  have "\<forall>x\<in>set (readHydroHistory (run ?rs initial_store)). hist_id x \<noteq> hist_id ?new"
    by blast
  then have "''loyw3v29ab12'' \<notin> set (map hist_id (readHydroHistory (run ?rs initial_store)))"
    by auto
  with a show ?thesis by simp
qed

text \<open>
  Claim C8 as it is written fails for two creations that read the same millisecond: the
  second creation returns a document with the identifier of the stored first one.
\<close>

theorem create_same_millisecond_counterexample:
  "readPois (run [PostPois clock0 clock0 pier] initial_store) = [pier_poi] \<and>
   fst (post_pois clock0 clock0 pier (run [PostPois clock0 clock0 pier] initial_store)) =
     Created pier_poi"
  by (simp only: run_pier post_pier)

section \<open>The coordinates of the routes\<close>

lemma set_update_all: "\<forall>x\<in>set xs. P x \<Longrightarrow> P y \<Longrightarrow> \<forall>x\<in>set (xs[i := y]). P x"
  using set_update_subset_insert [of xs i y] by auto

lemma nonEmptyArray_map_stringify:
  "nonEmptyArray (map_option stringify v) = nonEmptyArray v"
  by (cases v) (simp_all add: nonEmptyArray_stringify del: stringify.simps)

lemma put_routes_coords:
  assumes "lookup body ''coords'' = None \<or> nonEmptyArray (lookup body ''coords'')"
    and "\<forall>x\<in>set (readRoutes s). nonEmptyArray (Some (coords x))"
  shows "\<forall>x\<in>set (readRoutes (snd (put_routes clk ident body s))). nonEmptyArray (Some (coords x))"
proof (cases "findIndex (\<lambda>x. route_id x = ident) (readRoutes s)")
  case None
  with assms(2) show ?thesis by (simp add: put_routes_def Let_def)
next
  case (Some idx)
  from put_routes_found [OF Some, of clk body] obtain nxt where
    n: "readRoutes (snd (put_routes clk ident body s)) = (readRoutes s)[idx := nxt]"
    "\<forall>k. lookup (route_json nxt) k =
            (if k \<in> set route_patch_keys \<and> lookup body k \<noteq> None
             then map_option stringify (lookup body k)
             else lookup (route_json (readRoutes s ! idx)) k)"
    by blast
  from findIndex_Some [OF Some] assms(2)
  have old: "nonEmptyArray (Some (coords (readRoutes s ! idx)))" by simp
  from n(2) [THEN spec, of "''coords''"]
  have "Some (coords nxt) =
      (if lookup body ''coords'' \<noteq> None then map_option stringify (lookup body ''coords'')
       else Some (coords (readRoutes s ! idx)))"
    by (simp add: route_patch_keys_def lookup_def route_json_def)
  with assms(1) old nonEmptyArray_map_stringify [of "lookup body ''coords''"]
  have "nonEmptyArray (Some (coords nxt))" by auto
  with assms(2) show ?thesis unfolding n(1) by (rule set_update_all)
qed

lemma handle_routes_coords:
  assumes "keeps_coords r" "\<forall>x\<in>set (readRoutes s). nonEmptyArray (Some (coords x))"
  shows "\<forall>x\<in>set (readRoutes (handle r s)). nonEmptyArray (Some (coords x))"
proof (cases r)
  case (PostRoutes clk lclk body)
  from post_routes_cases [of clk lclk body s] PostRoutes assms(2) show ?thesis by auto
next
  case (PutRoutes clk ident body)
  with assms put_routes_coords [of body s clk ident] show ?thesis by simp
next
  case (DeleteRoutes clk ident)
  with assms(2) show ?thesis by (simp add: delete_routes_list)
qed (simp_all add: assms(2) pois_handlers_frame attractions_handlers_frame hydro_handlers_frame)

lemma run_routes_coords:
  assumes "\<forall>r\<in>set rs. keeps_coords r" "\<forall>x\<in>set (readRoutes s). nonEmptyArray (Some (coords x))"
  shows "\<forall>x\<in>set (readRoutes (run rs s)). nonEmptyArray (Some (coords x))"
  using assms
proof (induction rs arbitrary: s)
  case Nil
  then show ?case by simp
next
  case (Cons r rs)
  from Cons.prems have "keeps_coords r" by simp
  from handle_routes_coords [OF this Cons.prems(2)] Cons.prems(1) Cons.IH [of "handle r s"]
  show ?case by simp
qed

text \<open>
  Claim C9, as it holds. In every store reached from the initial one by requests in which
  each update of a route has no \<open>coords\<close> in its body, or a non-empty array, every
  stored route has a non-empty array as its coordinates.
\<close>

theorem routes_keep_nonempty_coords:
  "(\<forall>r\<in>set rs. keeps_coords r) \<longrightarrow>
     (\<forall>x\<in>set (readRoutes (run rs initial_store)). nonEmptyArray (Some (coords x)))"
  using run_routes_coords [of rs initial_store] by (simp add: read_initial)

lemma post_loop:
  "readRoutes (snd (post_routes clock0 clock0 loop s)) = readRoutes s @ [loop_route]"
  using post_routes_valid(2) [of loop "JStr ''Loop''"
      "JArr [JArr [JNum (Finite 120.5), JNum (Finite 30.25)],
             JArr [JNum (Finite 120.75), JNum (Finite 30.5)]]" clock0 clock0 s]
  by (simp add: loop_def lookup_def toString36_clock0 loop_route_def now_iso_clock0)

lemma findIndex_loop: "findIndex (\<lambda>x. route_id x = ''loyw3v28'') [loop_route] = Some 0"
  by (simp add: loop_route_def)

lemma put_loop:
  "readRoutes (snd (put_routes clock1 ''loyw3v28'' body (snd (post_routes clock0 clock0 loop initial_store)))) =
     [(case lookup body ''coords'' of
         None \<Rightarrow>
           (case lookup body ''name'' of
              None \<Rightarrow> loop_route
            | Some v \<Rightarrow> loop_route\<lparr>route_name := stringify v\<rparr>)
       | Some c \<Rightarrow>
           (case lookup body ''name'' of
              None \<Rightarrow> loop_route
            | Some v \<Rightarrow> loop_route\<lparr>route_name := stringify v\<rparr>)\<lparr>coords := stringify c\<rparr>)]"
  unfolding put_routes_def Let_def post_loop read_initial append_Nil findIndex_loop
  by (simp add: read_logOp read_write_same split: option.split)

theorem routes_keep_nonempty_coords_witness:
  "list_all (\<lambda>x. nonEmptyArray (Some (coords x)))
     (readRoutes (run [PostRoutes clock0 clock0 loop, PutRoutes clock1 ''loyw3v28'' [(''name'', JStr ''Ring'')]]
        initial_store))"
proof -
  have "\<forall>r\<in>set [PostRoutes clock0 clock0 loop, PutRoutes clock1 ''loyw3v28'' [(''name'', JStr ''Ring'')]].
          keeps_coords r"
    by (simp add: lookup_def)
  with routes_keep_nonempty_coords
    [of "[PostRoutes clock0 clock0 loop, PutRoutes clock1 ''loyw3v28'' [(''name'', JStr ''Ring'')]]"]
  show ?thesis unfolding list_all_iff by blast
qed

text \<open>
  Claim C9 as it is written fails: the update handler stores the \<open>coords\<close> of the body
  without the test of the creation. After a valid creation, the update with the body
  \<^verbatim>\<open>{"coords": []}\<close> leaves a stored route whose coordinates are the empty array.
\<close>

theorem update_empties_coords_counterexample:
  "map coords (readRoutes
     (run [PostRoutes clock0 clock0 loop, PutRoutes clock1 ''loyw3v28'' [(''coords'', JArr [])]]
        initial_store)) = [JArr []] \<and>
   \<not> nonEmptyArray (Some (JArr [] :: json))"
  by (simp add: put_loop lookup_def)

section \<open>The send operation\<close>

lemma findIndex_present:
  assumes "r \<in> set xs"
  shows "\<exists>idx. findIndex (\<lambda>x. f x = f r) xs = Some idx"
proof (cases "findIndex (\<lambda>x. f x = f r) xs")
  case None
  with assms show ?thesis by (auto simp: findIndex_None)
next
  case (Some idx)
  then show ?thesis by simp
qed

lemma findIndex_distinct:
  assumes "r \<in> set xs" "distinct (map f xs)" "findIndex (\<lambda>x. f x = f r) xs = Some idx"
  shows "xs ! idx = r"
proof -
  from findIndex_Some [OF assms(3)] have i: "idx < length xs" "f (xs ! idx) = f r" by simp_all
  from assms(1) obtain j where j: "j < length xs" "xs ! j = r" by (auto simp: in_set_conv_nth)
  from i j have "map f xs ! idx = map f xs ! j" by simp
  with nth_eq_iff_index_eq [OF assms(2), of idx j] i(1) j(1) have "idx = j" by simp
  with j(2) show ?thesis by simp
qed

text \<open>
  Claim C2, as it holds. In every store: when the history holds a record with the
  identifier, the send operation takes the first such record, at index \<open>idx\<close>. It
  replaces the snapshot by the document with the longitude, latitude, heading,
  temperature, humidity, pressure, salinity and \<open>shipDetected\<close> of that record, with
  the \<open>shipType\<close> of that record when it counts as true and the empty string
  otherwise, and with the current time as its timestamp. It answers 200 with this
  document, and stores the history with \<open>sentAt\<close> of the record at \<open>idx\<close> set to the
  same timestamp, which is not \<^verbatim>\<open>null\<close>, every other record unchanged (also the later
  records with the same identifier). When no record has the identifier, it answers 404
  and the store is unchanged. For every stored record, the send on its identifier finds a
  record, and this very record when the stored identifiers are pairwise distinct.
\<close>

theorem send_applies_located_record:
  "let list = readHydroHistory s;
       s' = snd (post_hydro_history_send clk lclk ident s);
       applied =
         JObj [(''longitude'', longitude (list ! idx)),
               (''latitude'', latitude (list ! idx)),
               (''heading'', heading (list ! idx)),
               (''temperature'', temperature (list ! idx)),
               (''humidity'', humidity (list ! idx)),
               (''pressure'', pressure (list ! idx)),
               (''salinity'', salinity (list ! idx)),
               (''shipDetected'', JBool (shipDetected (list ! idx))),
               (''shipType'',
                if truthy (Some (shipType (list ! idx))) then shipType (list ! idx)
                else JStr []),
               (''timestamp'', JStr (now_iso clk))]
   in (findIndex (\<lambda>x. hist_id x = ident) list = Some idx \<longrightarrow>
         idx < length list \<and> hist_id (list ! idx) = ident \<and>
         (\<forall>j<idx. hist_id (list ! j) \<noteq> ident) \<and>
         fst (post_hydro_history_send clk lclk ident s) =
           OK (JObj [(''ok'', JBool True), (''applied'', applied)]) \<and>
         readHydrophone s' = applied \<and>
         readHydroHistory s' = list[idx := (list ! idx)\<lparr>sentAt := JStr (now_iso clk)\<rparr>] \<and>
         sentAt (readHydroHistory s' ! idx) = JStr (now_iso clk) \<and>
         sentAt (readHydroHistory s' ! idx) \<noteq> JNull) \<and>
      ((\<forall>x\<in>set list. hist_id x \<noteq> ident) \<longrightarrow>
         post_hydro_history_send clk lclk ident s = (NotFound ''Not found'', s)) \<and>
      (r \<in> set list \<longrightarrow>
         (\<exists>i. findIndex (\<lambda>x. hist_id x = hist_id r) list = Some i \<and>
              (distinct (map hist_id list) \<longrightarrow> list ! i = r)))"
proof -
  define list where "list = readHydroHistory s"
  define s' where "s' = snd (post_hydro_history_send clk lclk ident s)"
  define applied where "applied =
         JObj [(''longitude'', longitude (list ! idx)),
               (''latitude'', latitude (list ! idx)),
               (''heading'', heading (list ! idx)),
               (''temperature'', temperature (list ! idx)),
               (''humidity'', humidity (list ! idx)),
               (''pressure'', pressure (list ! idx)),
               (''salinity'', salinity (list ! idx)),
               (''shipDetected'', JBool (shipDetected (list ! idx))),
               (''shipType'',
                if truthy (Some (shipType (list ! idx))) then shipType (list ! idx)
                else JStr []),
               (''timestamp'', JStr (now_iso clk))]"
  have a: "stringify (JObj (snapshot_of (list ! idx) (now_iso clk))) = applied"
    unfolding applied_def by (rule stringify_snapshot_of)
  have found: "idx < length list \<and> hist_id (list ! idx) = ident \<and>
         (\<forall>j<idx. hist_id (list ! j) \<noteq> ident) \<and>
         fst (post_hydro_history_send clk lclk ident s) =
           OK (JObj [(''ok'', JBool True), (''applied'', applied)]) \<and>
         readHydrophone s' = applied \<and>
         readHydroHistory s' = list[idx := (list ! idx)\<lparr>sentAt := JStr (now_iso clk)\<rparr>] \<and>
         sentAt (readHydroHistory s' ! idx) = JStr (now_iso clk) \<and>
         sentAt (readHydroHistory s' ! idx) \<noteq> JNull"
    if f: "findIndex (\<lambda>x. hist_id x = ident) list = Some idx"
  proof -
    from findIndex_Some [OF f] have i: "idx < length list" "hist_id (list ! idx) = ident"
      "\<forall>j<idx. hist_id (list ! j) \<noteq> ident"
      by simp_all
    from f have f': "findIndex (\<lambda>x. hist_id x = ident) (readHydroHistory s) = Some idx"
      by (simp add: list_def)
    from send_found(1) [OF f', of clk lclk] a
    have 0: "fst (post_hydro_history_send clk lclk ident s) =
           OK (JObj [(''ok'', JBool True), (''applied'', applied)])"
      by (simp only: list_def)
    from send_found(2) [OF f', of clk lclk] a
    have 1: "readHydrophone s' = applied"
      by (simp only: s'_def list_def)
    from send_found(3) [OF f', of clk lclk]
    have 2: "readHydroHistory s' = list[idx := (list ! idx)\<lparr>sentAt := JStr (now_iso clk)\<rparr>]"
      by (simp only: s'_def list_def)
    from 2 i(1) have 3: "sentAt (readHydroHistory s' ! idx) = JStr (now_iso clk)" by simp
    from i 0 1 2 3 show ?thesis by simp
  qed
  have absent: "post_hydro_history_send clk lclk ident s = (NotFound ''Not found'', s)"
    if "\<forall>x\<in>set list. hist_id x \<noteq> ident"
    using that unfolding list_def by (rule send_absent)
  have located: "\<exists>i. findIndex (\<lambda>x. hist_id x = hist_id r) list = Some i \<and>
              (distinct (map hist_id list) \<longrightarrow> list ! i = r)"
    if r: "r \<in> set list"
  proof -
    from findIndex_present [OF r, of hist_id] obtain i where
      i: "findIndex (\<lambda>x. hist_id x = hist_id r) list = Some i" by blast
    from findIndex_distinct [OF r _ i] i show ?thesis by blast
  qed
  from found absent located show ?thesis
    unfolding Let_def list_def [symmetric] s'_def [symmetric] applied_def [symmetric] by blast
qed

lemma findIndex_reading:
  "findIndex (\<lambda>x. hist_id x = ''loyw3v28ab12'') [reading_record] = Some 0"
  by (simp add: reading_record_def)

theorem send_applies_located_record_witness:
  "readHydrophone (snd (post_hydro_history_send clock1 clock1 ''loyw3v28ab12''
       (run [PostHydroHistory clock0 ''ab12'' ''2023-11-14T22:13:20.000Z'' clock0 reading]
          initial_store))) =
     JObj [(''longitude'', JNum 120.5), (''latitude'', JNum 30.25), (''heading'', JNum 90),
           (''temperature'', JNull), (''humidity'', JNull), (''pressure'', JNull),
           (''salinity'', JNull), (''shipDetected'', JBool True),
           (''shipType'', JStr ''cargo''), (''timestamp'', JStr ''2023-11-14T22:13:20.001Z'')] \<and>
   readHydroHistory (snd (post_hydro_history_send clock1 clock1 ''loyw3v28ab12''
       (run [PostHydroHistory clock0 ''ab12'' ''2023-11-14T22:13:20.000Z'' clock0 reading]
          initial_store))) =
     [reading_record\<lparr>sentAt := JStr ''2023-11-14T22:13:20.001Z''\<rparr>]"
proof -
  let ?s = "run [PostHydroHistory clock0 ''ab12'' ''2023-11-14T22:13:20.000Z'' clock0 reading]
          initial_store"
  have f: "findIndex (\<lambda>x. hist_id x = ''loyw3v28ab12'') (readHydroHistory ?s) = Some 0"
    unfolding run_reading by (rule findIndex_reading)
  have c: "now_iso clock1 = ''2023-11-14T22:13:20.001Z''" by (simp add: clock1_def)
  from send_applies_located_record [of ?s clock1 clock1 "''loyw3v28ab12''" 0] f
  have "readHydrophone (snd (post_hydro_history_send clock1 clock1 ''loyw3v28ab12'' ?s)) =
       JObj [(''longitude'', longitude ([reading_record] ! 0)),
             (''latitude'', latitude ([reading_record] ! 0)),
             (''heading'', heading ([reading_record] ! 0)),
             (''temperature'', temperature ([reading_record] ! 0)),
             (''humidity'', humidity ([reading_record] ! 0)),
             (''pressure'', pressure ([reading_record] ! 0)),
             (''salinity'', salinity ([reading_record] ! 0)),
             (''shipDetected'', JBool (shipDetected ([reading_record] ! 0))),
             (''shipType'',
              if truthy (Some (shipType ([reading_record] ! 0)))
              then shipType ([reading_record] ! 0) else JStr []),
             (''timestamp'', JStr (now_iso clock1))]"
    and "readHydroHistory (snd (post_hydro_history_send clock1 clock1 ''loyw3v28ab12'' ?s)) =
       [reading_record][0 := ([reading_record] ! 0)\<lparr>sentAt := JStr (now_iso clock1)\<rparr>]"
    unfolding Let_def run_reading by blast+
  then show ?thesis
    unfolding c by (simp add: reading_record_def)
qed

lemma post_far_reading:
  "readHydroHistory
     (snd (post_hydro_history clock0 ''ab12'' ''2023-11-14T22:13:20.000Z'' clock0 far_reading s)) =
     readHydroHistory s @ [far_record]"
  using post_hydro_history_valid(2)
    [of far_reading "Finite 120.5" "Finite 30.25" clock0 "''ab12''"
      "''2023-11-14T22:13:20.000Z''" clock0 s]
  by (simp add: far_reading_def lookup_def toString36_clock0 far_record_def now_iso_clock0
      zero_number_def)

lemma post_east_reading:
  "readHydroHistory
     (snd (post_hydro_history clock0 ''ab12'' ''2023-11-14T22:13:20.000Z'' clock0 east_reading s)) =
     readHydroHistory s @ [east_record]"
  using post_hydro_history_valid(2)
    [of east_reading "Finite 121.5" "Finite 30.25" clock0 "''ab12''"
      "''2023-11-14T22:13:20.000Z''" clock0 s]
  by (simp add: east_reading_def lookup_def toString36_clock0 east_record_def now_iso_clock0
      zero_number_def)

lemma run_far_east:
  "readHydroHistory
     (run [PostHydroHistory clock0 ''ab12'' ''2023-11-14T22:13:20.000Z'' clock0 far_reading,
           PostHydroHistory clock0 ''ab12'' ''2023-11-14T22:13:20.000Z'' clock0 east_reading]
        initial_store) = [far_record, east_record]"
  by (simp add: post_far_reading post_east_reading read_initial)

lemma findIndex_far_east:
  "findIndex (\<lambda>x. hist_id x = ''loyw3v28ab12'') [far_record, east_record] = Some 0"
  by (simp add: far_record_def)

text \<open>
  Claim C2 as it is written fails in the store reached by two creations of records: the
  first with the ship type \<^verbatim>\<open>1e400\<close>, which the parser reads as the infinity and JSON
  writes as null, so that the stored record \<open>far_record\<close> has the ship type null; the
  second, \<open>east_record\<close>, made in the same millisecond with the same random suffix, so
  that both records have the identifier \<^verbatim>\<open>loyw3v28ab12\<close>. The send operation on this
  identifier stores a snapshot whose ship type is the empty string, not the null of the
  first record; the snapshot has the longitude 120.5 of the first record and not the
  121.5 of the second, and \<open>sentAt\<close> of the second record stays null, although it is a
  record of the history with the identifier of the request.
\<close>

theorem send_skips_second_record_counterexample:
  "readHydroHistory
     (run [PostHydroHistory clock0 ''ab12'' ''2023-11-14T22:13:20.000Z'' clock0 far_reading,
           PostHydroHistory clock0 ''ab12'' ''2023-11-14T22:13:20.000Z'' clock0 east_reading]
        initial_store) = [far_record, east_record] \<and>
   hist_id far_record = ''loyw3v28ab12'' \<and> hist_id east_record = ''loyw3v28ab12'' \<and>
   shipType far_record = JNull \<and> longitude east_record = JNum 121.5 \<and>
   readHydrophone (snd (post_hydro_history_send clock1 clock1 ''loyw3v28ab12''
     (run [PostHydroHistory clock0 ''ab12'' ''2023-11-14T22:13:20.000Z'' clock0 far_reading,
           PostHydroHistory clock0 ''ab12'' ''2023-11-14T22:13:20.000Z'' clock0 east_reading]
        initial_store))) =
     JObj [(''longitude'', JNum 120.5), (''latitude'', JNum 30.25), (''heading'', JNull),
           (''temperature'', JNull), (''humidity'', JNull), (''pressure'', JNull),
           (''salinity'', JNull), (''shipDetected'', JBool False),
           (''shipType'', JStr []), (''timestamp'', JStr ''2023-11-14T22:13:20.001Z'')] \<and>
   readHydroHistory (snd (post_hydro_history_send clock1 clock1 ''loyw3v28ab12''
     (run [PostHydroHistory clock0 ''ab12'' ''2023-11-14T22:13:20.000Z'' clock0 far_reading,
           PostHydroHistory clock0 ''ab12'' ''2023-11-14T22:13:20.000Z'' clock0 east_reading]
        initial_store))) =
     [far_record\<lparr>sentAt := JStr ''2023-11-14T22:13:20.001Z''\<rparr>, east_record] \<and>
   sentAt east_record = JNull"
proof -
  let ?s = "run [PostHydroHistory clock0 ''ab12'' ''2023-11-14T22:13:20.000Z'' clock0 far_reading,
           PostHydroHistory clock0 ''ab12'' ''2023-11-14T22:13:20.000Z'' clock0 east_reading]
        initial_store"
  have f: "findIndex (\<lambda>x. hist_id x = ''loyw3v28ab12'') (readHydroHistory ?s) = Some 0"
    unfolding run_far_east by (rule findIndex_far_east)
  have c: "now_iso clock1 = ''2023-11-14T22:13:20.001Z''" by (simp add: clock1_def)
  have 1: "readHydrophone (snd (post_hydro_history_send clock1 clock1 ''loyw3v28ab12'' ?s)) =
     JObj [(''longitude'', JNum 120.5), (''latitude'', JNum 30.25), (''heading'', JNull),
           (''temperature'', JNull), (''humidity'', JNull), (''pressure'', JNull),
           (''salinity'', JNull), (''shipDetected'', JBool False),
           (''shipType'', JStr []), (''timestamp'', JStr ''2023-11-14T22:13:20.001Z'')]"
    unfolding send_found(2) [OF f] stringify_snapshot_of run_far_east c
    by (simp add: far_record_def)
  have 2: "readHydroHistory (snd (post_hydro_history_send clock1 clock1 ''loyw3v28ab12'' ?s)) =
     [far_record\<lparr>sentAt := JStr ''2023-11-14T22:13:20.001Z''\<rparr>, east_record]"
    unfolding send_found(3) [OF f] run_far_east c by simp
  have 3: "hist_id far_record = ''loyw3v28ab12''" "hist_id east_record = ''loyw3v28ab12''"
    "shipType far_record = JNull" "longitude east_record = JNum 121.5"
    "sentAt east_record = JNull"
    by (simp_all add: far_record_def east_record_def)
  from run_far_east 1 2 3 show ?thesis by (simp only: simp_thms)
qed

end
